theory Spec2Isabelle
  imports Complex_Main "HOL-Library.Sublist"
begin

section \<open>JavaScript values\<close>

text \<open>
  The value of a literal of the syntax tree is a string, a boolean, \<open>null\<close>, a
  number, a RegExp or a BigInt, and the records that the analyzer builds carry
  it along. A Number is \<open>NaN\<close>, an infinity, or a finite value kept as the real
  it denotes. A RegExp is kept by its printed text.
\<close>

datatype jsnumber = NaN | Infinity bool | Finite real

datatype jsvalue =
    VNull
  | VBool bool
  | VNum jsnumber
  | VStr string
  | VBigInt int
  | VRegExp string

text \<open>
  Thrown values: a \<open>TypeError\<close> or a \<open>RangeError\<close> of the runtime, or
  \<open>new Error(message)\<close>.
\<close>

datatype error = TypeError string | RangeError string | Error string

fun message :: "error \<Rightarrow> string" where
  "message (TypeError m) = m"
| "message (RangeError m) = m"
| "message (Error m) = m"

text \<open>ToBoolean, as used by \<open>||\<close>, \<open>&&\<close>, \<open>!\<close>, \<open>?:\<close> and \<open>filter\<close>.\<close>

fun truthy :: "jsvalue \<Rightarrow> bool" where
  "truthy VNull = False"
| "truthy (VBool b) = b"
| "truthy (VNum n) = (n \<noteq> NaN \<and> n \<noteq> Finite 0)"
| "truthy (VStr s) = (s \<noteq> [])"
| "truthy (VBigInt i) = (i \<noteq> 0)"
| "truthy (VRegExp _) = True"

text \<open>
  \<open>a === b\<close> for two values that were created separately: primitives are
  compared by value (\<open>NaN\<close> differs from itself), objects by identity, so the
  RegExp objects of two literals are never equal.
\<close>

fun strict_equals :: "jsvalue \<Rightarrow> jsvalue \<Rightarrow> bool" where
  "strict_equals (VNum a) b = (a \<noteq> NaN \<and> b = VNum a)"
| "strict_equals (VRegExp _) _ = False"
| "strict_equals a b = (a = b)"

text \<open>A template literal renders a name that may be \<open>undefined\<close>.\<close>

fun show_name :: "string option \<Rightarrow> string" where
  "show_name None = ''undefined''"
| "show_name (Some s) = s"

section \<open>Strings\<close>

text \<open>
  A text is a list of characters of HOL, which stand for the code units 0 to
  255 of a JavaScript string (Latin-1). Among them the white space of the
  runtime (for \<open>trim\<close>, for the white-space class of a regular expression and for the prefix that \<open>parseInt\<close> and \<open>parseFloat\<close> skip) is
  tab, line feed, vertical tab, form feed, carriage return, space and the
  no-break space.
\<close>

definition isSpace :: "char \<Rightarrow> bool" where
  "isSpace c =
     (c \<in> {CHR 0x09, CHR 0x0A, CHR 0x0B, CHR 0x0C, CHR 0x0D, CHR 0x20, CHR 0xA0})"

definition isDigit :: "char \<Rightarrow> bool" where
  "isDigit c = (c \<in> set ''0123456789'')"

definition digitValue :: "char \<Rightarrow> nat" where
  "digitValue c = (case map_of (zip ''0123456789'' [0 ..< 10]) c of None \<Rightarrow> 0 | Some d \<Rightarrow> d)"

text \<open>
  The capital letters of Latin-1 and their small forms: \<open>A\<close> to \<open>Z\<close>, and the
  code units \<open>C0\<close> to \<open>DE\<close> without the multiplication sign \<open>D7\<close>.
\<close>

definition capitalLetters :: string where
  "capitalLetters = ''ABCDEFGHIJKLMNOPQRSTUVWXYZ'' @
     [CHR 0xC0, CHR 0xC1, CHR 0xC2, CHR 0xC3, CHR 0xC4, CHR 0xC5, CHR 0xC6, CHR 0xC7,
     CHR 0xC8, CHR 0xC9, CHR 0xCA, CHR 0xCB, CHR 0xCC, CHR 0xCD, CHR 0xCE, CHR 0xCF, 
     CHR 0xD0, CHR 0xD1, CHR 0xD2, CHR 0xD3, CHR 0xD4, CHR 0xD5, CHR 0xD6, CHR 0xD8, 
     CHR 0xD9, CHR 0xDA, CHR 0xDB, CHR 0xDC, CHR 0xDD, CHR 0xDE]"

definition smallLetters :: string where
  "smallLetters = ''abcdefghijklmnopqrstuvwxyz'' @
     [CHR 0xE0, CHR 0xE1, CHR 0xE2, CHR 0xE3, CHR 0xE4, CHR 0xE5, CHR 0xE6, CHR 0xE7,
     CHR 0xE8, CHR 0xE9, CHR 0xEA, CHR 0xEB, CHR 0xEC, CHR 0xED, CHR 0xEE, CHR 0xEF, 
     CHR 0xF0, CHR 0xF1, CHR 0xF2, CHR 0xF3, CHR 0xF4, CHR 0xF5, CHR 0xF6, CHR 0xF8, 
     CHR 0xF9, CHR 0xFA, CHR 0xFB, CHR 0xFC, CHR 0xFD, CHR 0xFE]"

definition toLowerChar :: "char \<Rightarrow> char" where
  "toLowerChar c = (case map_of (zip capitalLetters smallLetters) c of None \<Rightarrow> c | Some l \<Rightarrow> l)"

definition toLowerCase :: "string \<Rightarrow> string" where
  "toLowerCase s = map toLowerChar s"

text \<open>
  \<open>c.toUpperCase()\<close> for a text of one character. The sharp s (\<open>DF\<close>) becomes
  \<open>SS\<close>. The capitals of the micro sign (\<open>B5\<close>) and of the y with diaeresis
  (\<open>FF\<close>) are code units above 255, which a text of this model cannot hold:
  these two letters are left as they are.
\<close>

definition toUpperCaseChar :: "char \<Rightarrow> string" where
  "toUpperCaseChar c =
     (if c = CHR 0xDF then ''SS''
      else (case map_of (zip smallLetters capitalLetters) c of None \<Rightarrow> [c] | Some u \<Rightarrow> [u]))"

definition trimStart :: "string \<Rightarrow> string" where
  "trimStart s = dropWhile isSpace s"

definition trim :: "string \<Rightarrow> string" where
  "trim s = rev (dropWhile isSpace (rev (dropWhile isSpace s)))"

text \<open>\<open>xs.join(sep)\<close> for an array of strings.\<close>

fun join :: "string \<Rightarrow> string list \<Rightarrow> string" where
  "join sep [] = []"
| "join sep [x] = x"
| "join sep (x # y # ys) = x @ sep @ join sep (y # ys)"

text \<open>\<open>n.toString()\<close> for an array index or a length.\<close>

definition digitChar :: "nat \<Rightarrow> char" where
  "digitChar n = ''0123456789'' ! n"

fun decimal :: "nat \<Rightarrow> string" where
  "decimal n = (if n < 10 then [digitChar n]
                else decimal (n div 10) @ [digitChar (n mod 10)])"

declare decimal.simps [simp del]

definition show_int :: "int \<Rightarrow> string" where
  "show_int i = (if i < 0 then CHR ''-'' # decimal (nat (- i)) else decimal (nat i))"

text \<open>
  \<open>s.replace(c, rep)\<close> with a global regular expression that matches the one
  character \<open>c\<close>, and a replacement text without \<open>$\<close>: every \<open>c\<close> becomes \<open>rep\<close>.
\<close>

definition replaceAllChar :: "char \<Rightarrow> string \<Rightarrow> string \<Rightarrow> string" where
  "replaceAllChar c rep s = concat (map (\<lambda>x. if x = c then rep else [x]) s)"

text \<open>
  The replacement text of \<open>String.prototype.replace\<close> is a template
  (GetSubstitution): \<open>$$\<close> stands for \<open>$\<close>, \<open>$&\<close> for the matched text, \<open>$`\<close> for
  the text before the match and \<open>$'\<close> for the text after it. A string pattern
  has no capture groups, so every other \<open>$\<close> is kept as it is.
\<close>

fun getSubstitution :: "string \<Rightarrow> string \<Rightarrow> string \<Rightarrow> string \<Rightarrow> string" where
  "getSubstitution matched preceding following (c # d # r) =
     (if c = CHR ''$'' \<and> d = CHR ''$'' then CHR ''$'' # getSubstitution matched preceding following r
      else if c = CHR ''$'' \<and> d = CHR ''&'' then matched @ getSubstitution matched preceding following r
      else if c = CHR ''$'' \<and> d = CHR 0x60 then preceding @ getSubstitution matched preceding following r
      else if c = CHR ''$'' \<and> d = CHR 0x27 then following @ getSubstitution matched preceding following r
      else c # getSubstitution matched preceding following (d # r))"
| "getSubstitution matched preceding following r = r"

text \<open>
  The first occurrence of \<open>pat\<close> in a text: the text before it and the text
  after it.
\<close>

fun splitAtFirst :: "string \<Rightarrow> string \<Rightarrow> (string \<times> string) option" where
  "splitAtFirst pat [] = (if pat = [] then Some ([], []) else None)"
| "splitAtFirst pat (c # s) =
     (if prefix pat (c # s) then Some ([], drop (length pat) (c # s))
      else map_option (\<lambda>(b, a). (c # b, a)) (splitAtFirst pat s))"

text \<open>
  \<open>s.replace(pat, rep)\<close> with a string pattern: only the first occurrence of
  \<open>pat\<close> is replaced, and a text without \<open>pat\<close> is returned unchanged.
\<close>

definition replace :: "string \<Rightarrow> string \<Rightarrow> string \<Rightarrow> string" where
  "replace pat rep s =
     (case splitAtFirst pat s of
        None \<Rightarrow> s
      | Some (preceding, following) \<Rightarrow> preceding @ getSubstitution pat preceding following rep @ following)"

section \<open>Conversion to text\<close>

text \<open>
  ToString of a Number prints an integral value below \<open>10^21\<close> in decimal
  digits. How the runtime prints any other finite number (a fraction, or the
  exponent form from \<open>10^21\<close> on) is a parameter \<open>nts\<close>.
\<close>

definition isIntegral :: "real \<Rightarrow> bool" where
  "isIntegral x = (of_int \<lfloor>x\<rfloor> = x)"

fun numberToString :: "(real \<Rightarrow> string) \<Rightarrow> jsnumber \<Rightarrow> string" where
  "numberToString nts NaN = ''NaN''"
| "numberToString nts (Infinity positive) = (if positive then ''Infinity'' else ''-Infinity'')"
| "numberToString nts (Finite x) =
     (if isIntegral x \<and> \<bar>x\<bar> < 10 ^ 21 then show_int \<lfloor>x\<rfloor> else nts x)"

fun toString :: "(real \<Rightarrow> string) \<Rightarrow> jsvalue \<Rightarrow> string" where
  "toString nts VNull = ''null''"
| "toString nts (VBool b) = (if b then ''true'' else ''false'')"
| "toString nts (VNum n) = numberToString nts n"
| "toString nts (VStr s) = s"
| "toString nts (VBigInt i) = show_int i"
| "toString nts (VRegExp text) = text"

text \<open>\<open>a || b\<close> on values.\<close>

definition orElse :: "jsvalue \<Rightarrow> jsvalue \<Rightarrow> jsvalue" where
  "orElse a b = (if truthy a then a else b)"

section \<open>The syntax tree of a sketch\<close>

text \<open>
  \<open>acorn.parse\<close> returns an ESTree. The analyzer inspects identifiers, literals,
  member and call expressions, variable declarators and function declarations;
  every other node kind is \<open>Other\<close>, with its kind and the child nodes that
  \<open>walk.simple\<close> descends into, in that order. With \<open>locations: true\<close> every node
  has a \<open>loc\<close>; the model keeps its start position.
\<close>

record SourceLocation =
  line :: nat
  column :: nat

datatype node =
    Identifier SourceLocation string
  | Literal SourceLocation jsvalue
  | MemberExpression SourceLocation node node bool
  | CallExpression SourceLocation node "node list"
  | VariableDeclarator SourceLocation node "node option"
  | FunctionDeclaration SourceLocation "node option" "node list" node
  | Other SourceLocation string "node list"

text \<open>\<open>node.name\<close>: only an identifier has the field, elsewhere it is \<open>undefined\<close>.\<close>

fun name_of :: "node \<Rightarrow> string option" where
  "name_of (Identifier _ n) = Some n"
| "name_of _ = None"

fun loc :: "node \<Rightarrow> SourceLocation" where
  "loc (Identifier l _) = l"
| "loc (Literal l _) = l"
| "loc (MemberExpression l _ _ _) = l"
| "loc (CallExpression l _ _) = l"
| "loc (VariableDeclarator l _ _) = l"
| "loc (FunctionDeclaration l _ _ _) = l"
| "loc (Other l _ _) = l"

text \<open>
  The nodes that \<open>walk.simple\<close> descends into from a node, in that order. The
  property of a member expression is walked only when it is computed.
\<close>

fun children :: "node \<Rightarrow> node list" where
  "children (Identifier l n) = []"
| "children (Literal l v) = []"
| "children (MemberExpression l obj prop computed) = obj # (if computed then [prop] else [])"
| "children (CallExpression l callee args) = callee # args"
| "children (VariableDeclarator l ident init) =
     ident # (case init of None \<Rightarrow> [] | Some e \<Rightarrow> [e])"
| "children (FunctionDeclaration l ident params body) =
     (case ident of None \<Rightarrow> [] | Some i \<Rightarrow> [i]) @ params @ [body]"
| "children (Other l kind nodes) = nodes"

text \<open>
  \<open>walk.simple(node, visitors)\<close> is recursive: it walks the children of a node
  one after the other and then calls the visitor of the node, so the visitors
  run in post-order. Every nested node takes room on the call stack of the
  runtime, which is finite: \<open>stack\<close> is the number of nested nodes the walk has
  room for (the visitors are taken to fit where the walk fits). When a node
  lies deeper, the runtime throws a \<open>RangeError\<close>, no further visitor runs, and
  what the visitors did before stays done. \<open>walk_simple\<close> gives the nodes
  whose visitors ran, in the order of their visits, and whether the walk
  reached its end.
\<close>

fun seqWalk :: "(node \<Rightarrow> node list \<times> bool) \<Rightarrow> node list \<Rightarrow> node list \<times> bool" where
  "seqWalk w [] = ([], True)"
| "seqWalk w (c # cs) =
     (case w c of
        (visited, True) \<Rightarrow> (case seqWalk w cs of (others, ended) \<Rightarrow> (visited @ others, ended))
      | (visited, False) \<Rightarrow> (visited, False))"

primrec walk_simple :: "nat \<Rightarrow> node \<Rightarrow> node list \<times> bool" where
  "walk_simple 0 = (\<lambda>n. ([], False))"
| "walk_simple (Suc stack) =
     (\<lambda>n. case seqWalk (walk_simple stack) (children n) of
             (visited, True) \<Rightarrow> (visited @ [n], True)
           | (visited, False) \<Rightarrow> (visited, False))"

definition stackOverflow :: error where
  "stackOverflow = RangeError ''Maximum call stack size exceeded''"

section \<open>The sketch analyzer\<close>

datatype TraitType = asInt | asString | asFloat

datatype Severity = warning | error

record Collection =
  c_name :: "string option"
  c_address :: jsvalue
  c_sourceLocation :: "SourceLocation option"

record Trait =
  t_collection :: "string option"
  t_key :: jsvalue
  t_type :: TraitType
  t_sourceLocation :: "SourceLocation option"

record TraitData =
  d_collection :: "string option"
  d_address :: jsvalue
  d_traits :: "Trait list"
  d_tokenIndexes :: "jsnumber list"

record AnalysisIssue =
  i_type :: Severity
  i_message :: string
  i_location :: "SourceLocation option"

record TokenIndex =
  ti_collection :: "string option"
  ti_tokenId :: jsnumber

record AnalysisResult =
  r_collections :: "Collection list"
  r_traits :: "Trait list"
  r_data :: "TraitData list"
  r_issues :: "AnalysisIssue list"
  r_tokenIndexes :: "TokenIndex list"

text \<open>The four private fields of \<open>NFTCodeAnalyzer\<close>.\<close>

record NFTCodeAnalyzer =
  collections :: "Collection list"
  traits :: "Trait list"
  issues :: "AnalysisIssue list"
  tokenIndexes :: "TokenIndex list"

definition addIssue :: "AnalysisIssue \<Rightarrow> NFTCodeAnalyzer \<Rightarrow> NFTCodeAnalyzer" where
  "addIssue issue this = this\<lparr>issues := issues this @ [issue]\<rparr>"

definition reset :: "NFTCodeAnalyzer \<Rightarrow> NFTCodeAnalyzer" where
  "reset this = this\<lparr>collections := [], traits := [], issues := [], tokenIndexes := []\<rparr>"

text \<open>
  \<open>acorn.parse\<close> is a library: it is a parameter \<open>parse\<close> that gives the tree or
  the message of the error it throws.
\<close>

definition parseCode :: "(string \<Rightarrow> string + node) \<Rightarrow> string \<Rightarrow> error + node" where
  "parseCode parse code =
     (case parse code of
        Inr ast \<Rightarrow> Inr ast
      | Inl m \<Rightarrow> Inl (Error (''Failed to parse code: '' @ m)))"

subsection \<open>Pass 1: collections\<close>

fun isFormaCollectionCall :: "node \<Rightarrow> bool" where
  "isFormaCollectionCall (VariableDeclarator _ _ (Some (CallExpression _ callee _))) =
     (name_of callee = Some ''FormaCollection'')"
| "isFormaCollectionCall _ = False"

text \<open>\<open>firstArg && firstArg.type === 'Literal' ? firstArg.value : null\<close>, also for a key.\<close>

fun literal_or_null :: "node list \<Rightarrow> jsvalue" where
  "literal_or_null (Literal _ v # _) = v"
| "literal_or_null _ = VNull"

text \<open>
  \<open>createCollection\<close> is applied only to a declarator that
  \<open>isFormaCollectionCall\<close> accepts; the last equation is never reached.
\<close>

fun createCollection :: "node \<Rightarrow> NFTCodeAnalyzer \<Rightarrow> Collection \<times> NFTCodeAnalyzer" where
  "createCollection (VariableDeclarator l ident (Some (CallExpression _ _ args))) this =
     (let name = name_of ident;
          address = literal_or_null args;
          sourceLocation = Some l;
          this' = (if address = VNull
                   then addIssue \<lparr>i_type = warning,
                          i_message = ''Collection '' @ [CHR 0x27] @ show_name name @ [CHR 0x27] @
                                      '' is missing an address'',
                          i_location = sourceLocation\<rparr> this
                   else this)
      in (\<lparr>c_name = name, c_address = address, c_sourceLocation = sourceLocation\<rparr>, this'))"
| "createCollection n this =
     (\<lparr>c_name = None, c_address = VNull, c_sourceLocation = None\<rparr>, this)"

definition visitVariableDeclarator :: "NFTCodeAnalyzer \<Rightarrow> node \<Rightarrow> NFTCodeAnalyzer" where
  "visitVariableDeclarator this n =
     (if isFormaCollectionCall n
      then (let (c, this') = createCollection n this
            in this'\<lparr>collections := collections this' @ [c]\<rparr>)
      else this)"

fun isVariableDeclarator :: "node \<Rightarrow> bool" where
  "isVariableDeclarator (VariableDeclarator _ _ _) = True"
| "isVariableDeclarator _ = False"

fun isCallExpression :: "node \<Rightarrow> bool" where
  "isCallExpression (CallExpression _ _ _) = True"
| "isCallExpression _ = False"

fun isFunctionDeclaration :: "node \<Rightarrow> bool" where
  "isFunctionDeclaration (FunctionDeclaration _ _ _ _) = True"
| "isFunctionDeclaration _ = False"

text \<open>
  A method that walks the tree returns nothing, or throws when the walk fails;
  the fields keep what the visitors did until then.
\<close>

definition walked :: "bool \<Rightarrow> error + unit" where
  "walked ended = (if ended then Inr () else Inl stackOverflow)"

definition extractCollections ::
  "nat \<Rightarrow> node \<Rightarrow> NFTCodeAnalyzer \<Rightarrow> (error + unit) \<times> NFTCodeAnalyzer" where
  "extractCollections stack ast this =
     (case walk_simple stack ast of
        (visited, ended) \<Rightarrow>
          (walked ended,
           foldl visitVariableDeclarator this (filter isVariableDeclarator visited)))"

subsection \<open>Pass 2: traits\<close>

fun isTraitTypeCall :: "node \<Rightarrow> bool" where
  "isTraitTypeCall (CallExpression _ (MemberExpression _ _ prop _) _) =
     (name_of prop \<in> {Some ''asInt'', Some ''asString'', Some ''asFloat''})"
| "isTraitTypeCall _ = False"

fun isMetadataCall :: "node \<Rightarrow> bool" where
  "isMetadataCall (CallExpression _ (MemberExpression _ _ prop _) _) =
     (name_of prop = Some ''metadata'')"
| "isMetadataCall _ = False"

text \<open>\<open>node.callee.property.name as TraitType\<close>, after \<open>isTraitTypeCall\<close>.\<close>

definition traitTypeOf :: "string option \<Rightarrow> TraitType" where
  "traitTypeOf n = (if n = Some ''asInt'' then asInt
                    else if n = Some ''asFloat'' then asFloat else asString)"

fun extractTrait :: "node \<Rightarrow> NFTCodeAnalyzer \<Rightarrow> Trait option \<times> NFTCodeAnalyzer" where
  "extractTrait (CallExpression l (MemberExpression l1 innerNode prop computed) args) this =
     (if \<not> isTraitTypeCall (CallExpression l (MemberExpression l1 innerNode prop computed) args)
      then (None, this)
      else if \<not> isMetadataCall innerNode then (None, this)
      else (case innerNode of
              CallExpression _ (MemberExpression _ obj _ _) innerArgs \<Rightarrow>
                (let traitType = traitTypeOf (name_of prop);
                     collectionName = name_of obj;
                     key = literal_or_null innerArgs;
                     sourceLocation = Some l;
                     this' = (if key = VNull
                              then addIssue \<lparr>i_type = warning,
                                     i_message = ''Trait in collection '' @ [CHR 0x27] @
                                                 show_name collectionName @ [CHR 0x27] @
                                                 '' is missing a key'',
                                     i_location = sourceLocation\<rparr> this
                              else this)
                 in (Some \<lparr>t_collection = collectionName, t_key = key, t_type = traitType,
                            t_sourceLocation = sourceLocation\<rparr>, this'))
            | _ \<Rightarrow> (None, this)))"
| "extractTrait n this = (None, this)"

text \<open>
  The comparison inside \<open>isDuplicateTrait\<close>: \<open>t\<close> is a trait already recorded,
  \<open>trait\<close> the new one.
\<close>

definition sameTriple :: "Trait \<Rightarrow> Trait \<Rightarrow> bool" where
  "sameTriple trait t =
     (t_collection t = t_collection trait \<and>
      strict_equals (t_key t) (t_key trait) \<and>
      t_type t = t_type trait)"

definition isDuplicateTrait :: "Trait \<Rightarrow> NFTCodeAnalyzer \<Rightarrow> bool" where
  "isDuplicateTrait trait this = list_ex (sameTriple trait) (traits this)"

definition visitTraitCall :: "NFTCodeAnalyzer \<Rightarrow> node \<Rightarrow> NFTCodeAnalyzer" where
  "visitTraitCall this n =
     (case extractTrait n this of
        (Some trait, this') \<Rightarrow>
          (if \<not> isDuplicateTrait trait this'
           then this'\<lparr>traits := traits this' @ [trait]\<rparr> else this')
      | (None, this') \<Rightarrow> this')"

definition extractTraits ::
  "nat \<Rightarrow> node \<Rightarrow> NFTCodeAnalyzer \<Rightarrow> (error + unit) \<times> NFTCodeAnalyzer" where
  "extractTraits stack ast this =
     (case walk_simple stack ast of
        (visited, ended) \<Rightarrow>
          (walked ended, foldl visitTraitCall this (filter isCallExpression visited)))"

subsection \<open>Pass 3: token usages\<close>

fun isSetup :: "node \<Rightarrow> bool" where
  "isSetup (FunctionDeclaration _ (Some ident) _ _) = (name_of ident = Some ''setup'')"
| "isSetup _ = False"

text \<open>
  The visitor overwrites \<open>setupFunction\<close> at every declaration named \<open>setup\<close>:
  of the nodes visited, the declaration visited last is kept.
\<close>

definition findSetup :: "node list \<Rightarrow> node option" where
  "findSetup visited =
     foldl (\<lambda>setupFunction n. if isSetup n then Some n else setupFunction) None
       (filter isFunctionDeclaration visited)"

fun isUseTokenCall :: "node \<Rightarrow> bool" where
  "isUseTokenCall (CallExpression _ (MemberExpression _ _ prop _) args) =
     (name_of prop = Some ''useToken'' \<and> length args > 0)"
| "isUseTokenCall _ = False"

fun extractTokenId :: "node \<Rightarrow> jsnumber option" where
  "extractTokenId (Literal _ (VNum n)) = Some n"
| "extractTokenId _ = None"

definition collectionExists :: "string option \<Rightarrow> NFTCodeAnalyzer \<Rightarrow> bool" where
  "collectionExists collection this = list_ex (\<lambda>c. c_name c = collection) (collections this)"

text \<open>
  The \<open>try\<close> of \<open>extractTokenIndex\<close> guards reads that cannot fail on a node
  accepted by \<open>isUseTokenCall\<close> (a member expression has an object, and there is
  a first argument), so its \<open>catch\<close> is not reached; the last equation stands for
  nodes the function is never applied to.
\<close>

fun extractTokenIndex :: "node \<Rightarrow> NFTCodeAnalyzer \<Rightarrow> TokenIndex option \<times> NFTCodeAnalyzer" where
  "extractTokenIndex (CallExpression l (MemberExpression _ obj _ _) (arg # _)) this =
     (let collection = name_of obj;
          tokenId = extractTokenId arg;
          this1 = (if \<not> collectionExists collection this
                   then addIssue \<lparr>i_type = warning,
                          i_message = ''useToken references non-existent collection '' @
                                      [CHR 0x27] @ show_name collection @ [CHR 0x27],
                          i_location = Some l\<rparr> this
                   else this)
      in (case tokenId of
            None \<Rightarrow>
              (None, addIssue \<lparr>i_type = warning,
                       i_message = ''useToken for collection '' @ [CHR 0x27] @
                                   show_name collection @ [CHR 0x27] @
                                   '' has non-numeric token ID'',
                       i_location = Some l\<rparr> this1)
          | Some n \<Rightarrow> (Some \<lparr>ti_collection = collection, ti_tokenId = n\<rparr>, this1)))"
| "extractTokenIndex n this = (None, this)"

definition visitUseTokenCall :: "NFTCodeAnalyzer \<Rightarrow> node \<Rightarrow> NFTCodeAnalyzer" where
  "visitUseTokenCall this n =
     (if isUseTokenCall n
      then (case extractTokenIndex n this of
              (Some tokenIndex, this') \<Rightarrow>
                this'\<lparr>tokenIndexes := tokenIndexes this' @ [tokenIndex]\<rparr>
            | (None, this') \<Rightarrow> this')
      else this)"

definition extractTokenUsages ::
  "nat \<Rightarrow> node \<Rightarrow> NFTCodeAnalyzer \<Rightarrow> (error + unit) \<times> NFTCodeAnalyzer" where
  "extractTokenUsages stack ast this =
     (case walk_simple stack ast of
        (visited, False) \<Rightarrow> (Inl stackOverflow, this)
      | (visited, True) \<Rightarrow>
          (case findSetup visited of
             None \<Rightarrow> (Inr (), this)
           | Some setupFunction \<Rightarrow>
               (case walk_simple stack setupFunction of
                  (calls, ended) \<Rightarrow>
                    (walked ended,
                     foldl visitUseTokenCall this (filter isCallExpression calls)))))"

subsection \<open>Validation and grouping\<close>

definition validateData :: "NFTCodeAnalyzer \<Rightarrow> NFTCodeAnalyzer" where
  "validateData this =
     (let this1 = foldl (\<lambda>s trait.
                    if \<not> collectionExists (t_collection trait) s
                    then addIssue \<lparr>i_type = warning,
                           i_message = ''Trait references non-existent collection '' @
                                       [CHR 0x27] @ show_name (t_collection trait) @ [CHR 0x27],
                           i_location = t_sourceLocation trait\<rparr> s
                    else s) this (traits this)
      in foldl (\<lambda>s tokenIndex.
                    if \<not> collectionExists (ti_collection tokenIndex) s
                    then addIssue \<lparr>i_type = warning,
                           i_message = ''Token usage references non-existent collection '' @
                                       [CHR 0x27] @ show_name (ti_collection tokenIndex) @
                                       [CHR 0x27],
                           i_location = None\<rparr> s
                    else s) this1 (tokenIndexes this1))"

text \<open>
  \<open>this.collections.find(c => c.name === collection)?.address || null\<close>
\<close>

definition addressOf :: "string option \<Rightarrow> NFTCodeAnalyzer \<Rightarrow> jsvalue" where
  "addressOf collection this =
     (case find (\<lambda>c. c_name c = collection) (collections this) of
        None \<Rightarrow> VNull
      | Some c \<Rightarrow> if truthy (c_address c) then c_address c else VNull)"

text \<open>
  The \<open>Map\<close> of \<open>groupTraitsByCollection\<close> keeps its keys in the order of their
  first insertion: it is an association list, and \<open>Array.from(map.values())\<close>
  is the list of its values.
\<close>

fun map_has :: "('k \<times> 'v) list \<Rightarrow> 'k \<Rightarrow> bool" where
  "map_has [] k = False"
| "map_has ((k', v) # m) k = (k' = k \<or> map_has m k)"

fun map_modify :: "('k \<times> 'v) list \<Rightarrow> 'k \<Rightarrow> ('v \<Rightarrow> 'v) \<Rightarrow> ('k \<times> 'v) list" where
  "map_modify [] k f = []"
| "map_modify ((k', v) # m) k f = (if k' = k then (k', f v) # m else (k', v) # map_modify m k f)"

definition map_ensure ::
  "NFTCodeAnalyzer \<Rightarrow> (string option \<times> TraitData) list \<Rightarrow> string option \<Rightarrow>
   (string option \<times> TraitData) list" where
  "map_ensure this m collection =
     (if \<not> map_has m collection
      then m @ [(collection, \<lparr>d_collection = collection,
                               d_address = addressOf collection this,
                               d_traits = [], d_tokenIndexes = []\<rparr>)]
      else m)"

definition groupTraitsByCollection :: "NFTCodeAnalyzer \<Rightarrow> TraitData list" where
  "groupTraitsByCollection this =
     (let m1 = foldl (\<lambda>m trait.
                  map_modify (map_ensure this m (t_collection trait)) (t_collection trait)
                    (\<lambda>d. d\<lparr>d_traits := d_traits d @ [trait]\<rparr>)) [] (traits this);
          m2 = foldl (\<lambda>m tokenIndex.
                  map_modify (map_ensure this m (ti_collection tokenIndex))
                    (ti_collection tokenIndex)
                    (\<lambda>d. if ti_tokenId tokenIndex \<notin> set (d_tokenIndexes d)
                         then d\<lparr>d_tokenIndexes := d_tokenIndexes d @ [ti_tokenId tokenIndex]\<rparr>
                         else d)) m1 (tokenIndexes this)
      in map snd m2)"

subsection \<open>analyze\<close>

definition resultOf :: "NFTCodeAnalyzer \<Rightarrow> AnalysisResult" where
  "resultOf this =
     \<lparr>r_collections = collections this, r_traits = traits this,
      r_data = groupTraitsByCollection this, r_issues = issues this,
      r_tokenIndexes = tokenIndexes this\<rparr>"

text \<open>One statement after another: the second runs unless the first has thrown.\<close>

definition andThen ::
  "(error + unit) \<times> NFTCodeAnalyzer \<Rightarrow>
   (NFTCodeAnalyzer \<Rightarrow> (error + unit) \<times> NFTCodeAnalyzer) \<Rightarrow>
   (error + unit) \<times> NFTCodeAnalyzer" where
  "andThen m f = (case m of (Inr _, this) \<Rightarrow> f this | (Inl e, this) \<Rightarrow> (Inl e, this))"

text \<open>The statements of the \<open>try\<close> block of \<open>analyze\<close>, after \<open>reset\<close>.\<close>

definition runPasses ::
  "(string \<Rightarrow> string + node) \<Rightarrow> nat \<Rightarrow> string \<Rightarrow> NFTCodeAnalyzer \<Rightarrow>
   (error + unit) \<times> NFTCodeAnalyzer" where
  "runPasses parse stack code this =
     (case parseCode parse code of
        Inl e \<Rightarrow> (Inl e, this)
      | Inr ast \<Rightarrow>
          andThen (extractCollections stack ast this) (\<lambda>this.
          andThen (extractTraits stack ast this) (\<lambda>this.
          andThen (extractTokenUsages stack ast this) (\<lambda>this.
            (Inr (), validateData this)))))"

text \<open>
  \<open>analyze\<close> is a method of an analyzer object whose fields may hold the outcome
  of an earlier call: it takes the object's state and returns the new state
  along with what the call returns or throws. Whatever is thrown inside the
  \<open>try\<close> block, at parsing or later, is caught and reported as an issue.
\<close>

definition analyze ::
  "(string \<Rightarrow> string + node) \<Rightarrow> nat \<Rightarrow> string \<Rightarrow> NFTCodeAnalyzer \<Rightarrow>
   (error + AnalysisResult) \<times> NFTCodeAnalyzer" where
  "analyze parse stack code this0 =
     (case runPasses parse stack code (reset this0) of
        (Inr _, this) \<Rightarrow> (Inr (resultOf this), this)
      | (Inl e, this) \<Rightarrow>
          (let this' = addIssue \<lparr>i_type = error,
                         i_message = ''Analysis failed: '' @ message e,
                         i_location = None\<rparr> this
           in (Inr (resultOf this'), this')))"

text \<open>\<open>new NFTCodeAnalyzer()\<close>: the field initialisers.\<close>

definition newAnalyzer :: NFTCodeAnalyzer where
  "newAnalyzer = \<lparr>collections = [], traits = [], issues = [], tokenIndexes = []\<rparr>"

definition analyzeCode ::
  "(string \<Rightarrow> string + node) \<Rightarrow> nat \<Rightarrow> string \<Rightarrow> error + AnalysisResult" where
  "analyzeCode parse stack code = fst (analyze parse stack code newAnalyzer)"

section \<open>The contract generator\<close>

text \<open>
  \<open>NFTContractGenerator\<close> builds the fragments of the contract from the analysis.
  A collection name may be \<open>undefined\<close> at run time (a declarator with a
  destructuring pattern, a trait read off a member expression): a method call
  on it throws a \<open>TypeError\<close>, so the functions that format a name return a
  text or the error they throw.
\<close>

fun mapE :: "('a \<Rightarrow> error + 'b) \<Rightarrow> 'a list \<Rightarrow> error + 'b list" where
  "mapE f [] = Inr []"
| "mapE f (x # xs) =
     (case f x of
        Inl e \<Rightarrow> Inl e
      | Inr y \<Rightarrow> (case mapE f xs of Inl e \<Rightarrow> Inl e | Inr ys \<Rightarrow> Inr (y # ys)))"

definition bindE :: "error + 'a \<Rightarrow> ('a \<Rightarrow> error + 'b) \<Rightarrow> error + 'b" where
  "bindE m f = (case m of Inl e \<Rightarrow> Inl e | Inr x \<Rightarrow> f x)"

subsection \<open>Templates\<close>

definition collectionAddress :: string where
  \<open>collectionAddress = ''address private constant %COLLECTION% = %ADDRESS%;''\<close>

definition collectionIndex :: string where
  \<open>collectionIndex = ''uint256 private constant %COLLECTION%_INDEX = %INDEX%;''\<close>

definition p5CodeChunk :: string where
  \<open>p5CodeChunk = ''string private constant CHUNK_%INDEX% = "%DATA%";''\<close>

definition tokenIdMapping :: string where
  \<open>tokenIdMapping = ''uint256 %TOKEN_ID% = _tokenIds[%COLLECTION%_INDEX];''\<close>

definition ownershipCheck :: string where
  \<open>ownershipCheck =
     ''require(IERC721(%COLLECTION%).ownerOf(%TOKEN_ID%) == _msgSender(), "Not the owner of required %COLLECTION_NAME%");''\<close>

definition traitRegistration :: string where
  \<open>traitRegistration =
     ''_traitRegistry[%COLLECTION%_INDEX].push(TraitRegistry("%TYPE%", "%KEY%"));''\<close>

definition traitSizeSet :: string where
  \<open>traitSizeSet = ''_traitRegistrySize[%COLLECTION%_INDEX] = %SIZE%;''\<close>

subsection \<open>Private helpers\<close>

definition mapTraitTypeToSolidity :: "TraitType \<Rightarrow> string" where
  "mapTraitTypeToSolidity t =
     (case t of asInt \<Rightarrow> ''asInt'' | asString \<Rightarrow> ''asString'' | asFloat \<Rightarrow> ''asFloat'')"

definition filterValidCollections :: "Collection list \<Rightarrow> Collection list" where
  "filterValidCollections cs = filter (\<lambda>collection. truthy (c_address collection)) cs"

text \<open>\<open>replace(/\s+/g, '_')\<close>: every maximal run of white space becomes one underscore.\<close>

function collapseSpaces :: "string \<Rightarrow> string" where
  "collapseSpaces [] = []"
| "collapseSpaces (c # s) =
     (if isSpace c then CHR ''_'' # collapseSpaces (dropWhile isSpace s)
      else c # collapseSpaces s)"
  by pat_completeness auto
termination
  by (relation "measure length") (auto simp: length_dropWhile_le less_Suc_eq_le)

text \<open>\<open>text.charAt(0).toUpperCase() + text.slice(1)\<close>\<close>

definition capitalize :: "string \<Rightarrow> string" where
  "capitalize text = (case text of [] \<Rightarrow> [] | c # rest \<Rightarrow> toUpperCaseChar c @ rest)"

definition formatName :: "string option \<Rightarrow> error + string" where
  "formatName name =
     (case name of
        None \<Rightarrow> Inl (TypeError ''Cannot read properties of undefined (reading 'trim')'')
      | Some n \<Rightarrow> Inr (capitalize (collapseSpaces (toLowerCase (trim n)))))"

definition escapeString :: "string \<Rightarrow> string" where
  "escapeString str =
     replaceAllChar (CHR 0x0A) [CHR 0x5C, CHR ''n'']
       (replaceAllChar (CHR 0x22) [CHR 0x5C, CHR 0x22]
          (replaceAllChar (CHR 0x5C) [CHR 0x5C, CHR 0x5C] str))"

subsection \<open>Fragments\<close>

definition generateP5Storage :: "string list \<Rightarrow> string" where
  \<open>generateP5Storage chunks =
     join [CHR 0x0A]
       (map (\<lambda>(index, chunk).
               replace ''%DATA%'' (escapeString chunk)
                 (replace ''%INDEX%'' (decimal index) p5CodeChunk))
          (enumerate 0 chunks)) @
     replace ''%COUNT%'' (decimal (length chunks))
       ([CHR 0x0A, CHR 0x0A] @ ''uint256 private constant CHUNK_COUNT = %COUNT%;'')\<close>

definition generateP5Ls :: "string list \<Rightarrow> string" where
  \<open>generateP5Ls chunks =
     concat (map (\<lambda>i. ''CHUNK_'' @ decimal i @ (if i = length chunks - 1 then [] else '', ''))
               [0 ..< length chunks])\<close>

definition generateCollectionAddresses :: "(real \<Rightarrow> string) \<Rightarrow> Collection list \<Rightarrow> string" where
  \<open>generateCollectionAddresses nts cs =
     join [CHR 0x0A]
       (map (\<lambda>collection.
               replace ''%ADDRESS%'' (toString nts (c_address collection))
                 (replace ''%COLLECTION%'' (show_name (c_name collection)) collectionAddress))
          (filterValidCollections cs))\<close>

definition generateCollectionIndexes :: "Collection list \<Rightarrow> string" where
  \<open>generateCollectionIndexes cs =
     join [CHR 0x0A]
       (map (\<lambda>(index, collection).
               replace ''%INDEX%'' (decimal index)
                 (replace ''%COLLECTION%'' (show_name (c_name collection)) collectionIndex))
          (enumerate 0 (filterValidCollections cs)))\<close>

definition jsFieldLine :: "Collection \<Rightarrow> error + string" where
  \<open>jsFieldLine collection =
     bindE (formatName (c_name collection)) (\<lambda>formatted.
       Inr (''string memory '' @ show_name (c_name collection) @
            ''_jsField = generateCollectionTraitJS("'' @ show_name (c_name collection) @
            ''", '' @ show_name (c_name collection) @ '', '' @
            show_name (c_name collection) @ ''_INDEX, tokenId_'' @ formatted @ '');''))\<close>

definition generateSolidityJsField :: "Collection list \<Rightarrow> error + string" where
  \<open>generateSolidityJsField cs =
     bindE (mapE jsFieldLine cs) (\<lambda>lines. Inr (join [CHR 0x0A] lines))\<close>

definition generateMetadataExtraction :: "Collection list \<Rightarrow> error + string" where
  \<open>generateMetadataExtraction cs =
     bindE (mapE (\<lambda>collection.
              bindE (formatName (c_name collection)) (\<lambda>formatted.
                (let variableName = ''metadata_'' @ formatted;
                     tokenId = ''tokenId_'' @ formatted
                 in Inr (''string memory '' @ variableName @ '' = '' @
                         show_name (c_name collection) @ ''.getTokenMetadata('' @ tokenId @
                         '');''))))
            (filterValidCollections cs))
       (\<lambda>lines. Inr (join [CHR 0x0A] lines))\<close>

definition generateFullMetadataSettings :: "TraitData list \<Rightarrow> error + string" where
  \<open>generateFullMetadataSettings traitData =
     bindE (mapE (\<lambda>data.
              (case d_collection data of
                 None \<Rightarrow>
                   Inl (TypeError ''Cannot read properties of undefined (reading 'toLowerCase')'')
               | Some collectionName \<Rightarrow>
                   bindE (formatName (Some collectionName)) (\<lambda>formatted.
                     Inr ([CHR 0x0A] @ ''    .setTokenAttribute("'' @
                          toLowerCase collectionName @ ''_metadata", metadata_'' @
                          formatted @ '')''))))
            traitData)
       (\<lambda>parts.
          Inr (''string memory tokenMetadata = "{}";'' @
               [CHR 0x0A] @ ''tokenMetadata = tokenMetadata'' @
               concat parts @
               [CHR 0x0A] @ ''    .setTokenAttribute("canvas", canvasBase64)'' @
               '';''))\<close>

definition generateTokenIdMapping :: "Collection list \<Rightarrow> error + string" where
  \<open>generateTokenIdMapping cs =
     bindE (mapE (\<lambda>collection.
              bindE (formatName (c_name collection)) (\<lambda>formatted.
                (let tokenId = ''tokenId_'' @ formatted
                 in Inr (replace ''%COLLECTION%'' (show_name (c_name collection))
                           (replace ''%TOKEN_ID%'' tokenId tokenIdMapping)))))
            (filterValidCollections cs))
       (\<lambda>lines. Inr (join [CHR 0x0A] lines))\<close>

definition generateOwnershipChecks :: "Collection list \<Rightarrow> error + string" where
  \<open>generateOwnershipChecks cs =
     bindE (mapE (\<lambda>collection.
              bindE (formatName (c_name collection)) (\<lambda>formatted.
                (let tokenId = ''tokenId_'' @ formatted;
                     displayName = formatted
                 in Inr (replace ''%COLLECTION_NAME%'' displayName
                           (replace ''%TOKEN_ID%'' tokenId
                              (replace ''%COLLECTION%'' (show_name (c_name collection))
                                 ownershipCheck))))))
            (filterValidCollections cs))
       (\<lambda>lines. Inr (join [CHR 0x0A] lines))\<close>

definition generateTraitRegistration :: "(real \<Rightarrow> string) \<Rightarrow> TraitData list \<Rightarrow> string" where
  \<open>generateTraitRegistration nts traitData =
     (let registrationCode =
            concat (map (\<lambda>data.
              map (\<lambda>trait.
                     replace ''%KEY%'' (toString nts (orElse (t_key trait) (VStr [])))
                       (replace ''%TYPE%'' (mapTraitTypeToSolidity (t_type trait))
                          (replace ''%COLLECTION%'' (show_name (d_collection data))
                             traitRegistration)))
                (d_traits data)) traitData);
          sizeSetCode =
            map (\<lambda>data.
                   replace ''%SIZE%'' (decimal (length (d_traits data)))
                     (replace ''%COLLECTION%'' (show_name (d_collection data)) traitSizeSet))
              traitData
      in join [CHR 0x0A] (registrationCode @ sizeSetCode))\<close>

definition generateSolidityBase64EncodedField :: "Collection list \<Rightarrow> string" where
  \<open>generateSolidityBase64EncodedField cs =
     (let jsFields = join '', '' (map (\<lambda>collection. show_name (c_name collection) @ ''_jsField'') cs)
      in [CHR 0x0A] @ ''        string memory allTraits = string(abi.encodePacked('' @ jsFields @
         ''));'' @ [CHR 0x0A] @ ''    '')\<close>

definition generateMetadataCementing :: string where
  \<open>generateMetadataCementing = ''_cementTokenMetadata(newTokenId);''\<close>

subsection \<open>Assembly\<close>

text \<open>
  \<open>process\<close> and \<open>compress\<close> are modules of the repository that prepare the
  sketch text and cut it into chunks; they are parameters here, as are the way
  the runtime prints a number and the room on its stack. The fragments are
  computed and substituted one after the other, in the order of the source; a
  fragment that throws ends the assembly.
\<close>

definition generateSolidityContract ::
  "(string \<Rightarrow> string + node) \<Rightarrow> (string \<Rightarrow> string) \<Rightarrow> (string \<Rightarrow> nat \<Rightarrow> string list) \<Rightarrow>
   (real \<Rightarrow> string) \<Rightarrow> nat \<Rightarrow> string \<Rightarrow> string \<Rightarrow> error + string" where
  \<open>generateSolidityContract parse process compress nts stack code templateSolidity =
     bindE (analyzeCode parse stack code) (\<lambda>analysis.
     (let processedCode = process code;
          p5slot = compress processedCode 512;
          t1 = replace ''%CONTRACT_NAME%'' ''NFTCollection'' templateSolidity;
          t2 = replace ''%COLLECTION_CONTRACTS%''
                 (generateCollectionAddresses nts (r_collections analysis)) t1;
          t3 = replace ''%COLLECTION_CODE%'' (generateCollectionIndexes (r_collections analysis)) t2;
          t4 = replace ''%CHUNKS%'' (generateP5Storage p5slot) t3;
          t5 = replace ''%COLLECTION_TRAITS%'' (generateTraitRegistration nts (r_data analysis)) t4
      in bindE (generateTokenIdMapping (r_collections analysis)) (\<lambda>idMapping.
         (let t6 = replace ''%ID_MAPPING%'' idMapping t5
          in bindE (generateOwnershipChecks (r_collections analysis)) (\<lambda>ownershipChecks.
         (let t7 = replace ''%REQUIRED_MINT_CODE%'' ownershipChecks t6
          in bindE (generateMetadataExtraction (r_collections analysis)) (\<lambda>metadataExtraction.
         (let t8 = replace ''%METADATA_EXP%'' metadataExtraction t7
          in bindE (generateSolidityJsField (r_collections analysis)) (\<lambda>jsField.
         (let t9 = replace ''%TRAIT_JS%'' jsField t8;
              t10 = replace ''%TRAIT_BASE64%''
                      (generateSolidityBase64EncodedField (r_collections analysis)) t9;
              t11 = replace ''%P5_LS%'' (generateP5Ls p5slot) t10
          in bindE (generateFullMetadataSettings (r_data analysis)) (\<lambda>attributes.
         (let t12 = replace ''%ATTRIBUTES%'' attributes t11
          in Inr (replace ''%CEMENT_METADATA_CODE%'' generateMetadataCementing t12)))))))))))))\<close>

section \<open>The trait-code generator\<close>

datatype MetadataSourceType = forma | erc721 | opensea | unknown

definition sourceTypeName :: "MetadataSourceType \<Rightarrow> string" where
  "sourceTypeName t =
     (case t of forma \<Rightarrow> ''forma'' | erc721 \<Rightarrow> ''erc721'' | opensea \<Rightarrow> ''opensea''
      | unknown \<Rightarrow> ''unknown'')"

definition traitTypeName :: "TraitType \<Rightarrow> string" where
  "traitTypeName t =
     (case t of asInt \<Rightarrow> ''asInt'' | asString \<Rightarrow> ''asString'' | asFloat \<Rightarrow> ''asFloat'')"

subsection \<open>Values of the metadata\<close>

text \<open>
  The metadata of a token is what \<open>JSON.parse\<close> or the network client gives:
  \<open>null\<close>, a boolean, a number, a string, an array, or an object with its
  fields in the order in which the runtime enumerates them, each field once.
  The program declares it as \<open>any\<close>. A property read can also give \<open>undefined\<close>
  or a built-in function found on a prototype, kept by its name.
  \<open>Object.prototype\<close> has no enumerable member of its own: as a value it is
  the object without members, and \<open>Array.prototype\<close> the array without elements.
\<close>

datatype anyvalue =
    JUndefined
  | JNull
  | JBool bool
  | JNum jsnumber
  | JStr string
  | JArray "anyvalue list"
  | JObject "(string \<times> anyvalue) list"
  | JFunction string

fun truthyAny :: "anyvalue \<Rightarrow> bool" where
  "truthyAny JUndefined = False"
| "truthyAny JNull = False"
| "truthyAny (JBool b) = b"
| "truthyAny (JNum n) = (n \<noteq> NaN \<and> n \<noteq> Finite 0)"
| "truthyAny (JStr s) = (s \<noteq> [])"
| "truthyAny (JArray _) = True"
| "truthyAny (JObject _) = True"
| "truthyAny (JFunction _) = True"

text \<open>\<open>a || b\<close> on these values.\<close>

definition orElseAny :: "anyvalue \<Rightarrow> anyvalue \<Rightarrow> anyvalue" where
  "orElseAny a b = (if truthyAny a then a else b)"

text \<open>
  ToString, as \<open>String(value)\<close>, \<open>parseInt(value)\<close>, \<open>parseFloat(value)\<close> and a
  computed property key apply it. An array joins the texts of its elements,
  with nothing for \<open>null\<close> and \<open>undefined\<close>. An object is converted by the
  method found under \<open>toString\<close>: the one of \<open>Object.prototype\<close> unless the
  object has a field of that name. A field of the metadata is never a function,
  so with such a field there is no method to call, neither under \<open>toString\<close>
  nor (it would have to return a primitive) under \<open>valueOf\<close>, and the
  conversion throws.
\<close>

fun anyToString :: "(real \<Rightarrow> string) \<Rightarrow> anyvalue \<Rightarrow> error + string"
  and elementTexts :: "(real \<Rightarrow> string) \<Rightarrow> anyvalue list \<Rightarrow> error + string list" where
  "anyToString nts JUndefined = Inr ''undefined''"
| "anyToString nts JNull = Inr ''null''"
| "anyToString nts (JBool b) = Inr (if b then ''true'' else ''false'')"
| "anyToString nts (JNum n) = Inr (numberToString nts n)"
| "anyToString nts (JStr s) = Inr s"
| "anyToString nts (JArray xs) =
     (case elementTexts nts xs of Inl e \<Rightarrow> Inl e | Inr texts \<Rightarrow> Inr (join '','' texts))"
| "anyToString nts (JObject members) =
     (if ''toString'' \<in> fst ` set members
      then Inl (TypeError ''Cannot convert object to primitive value'')
      else Inr ''[object Object]'')"
| "anyToString nts (JFunction name) = Inr (''function '' @ name @ ''() { [native code] }'')"
| "elementTexts nts [] = Inr []"
| "elementTexts nts (x # xs) =
     (case (if x = JNull \<or> x = JUndefined then Inr [] else anyToString nts x) of
        Inl e \<Rightarrow> Inl e
      | Inr text \<Rightarrow>
          (case elementTexts nts xs of Inl e \<Rightarrow> Inl e | Inr texts \<Rightarrow> Inr (text # texts)))"

subsection \<open>Objects used as dictionaries\<close>

text \<open>
  \<open>extractTraitValues\<close> and \<open>generateFormaCollectionCode\<close> each fill an object
  created by \<open>{}\<close> under computed keys. Such an object has its own properties
  and a prototype, \<open>Object.prototype\<close> at first.
\<close>

record dictionary =
  own :: "(string \<times> anyvalue) list"
  prototype :: anyvalue

definition emptyDictionary :: dictionary where
  "emptyDictionary = \<lparr>own = [], prototype = JObject []\<rparr>"

text \<open>
  The members of \<open>Object.prototype\<close>. All are functions but \<open>__proto__\<close>, an
  accessor: read through an object it gives the prototype of that object.
\<close>

definition objectPrototypeNames :: "string list" where
  "objectPrototypeNames =
     [''__defineGetter__'', ''__defineSetter__'', ''hasOwnProperty'', ''__lookupGetter__'',
      ''__lookupSetter__'', ''isPrototypeOf'', ''propertyIsEnumerable'', ''toString'',
      ''valueOf'', ''toLocaleString'']"

definition objectMember :: "anyvalue \<Rightarrow> string \<Rightarrow> anyvalue" where
  "objectMember receiverPrototype key =
     (if key = ''__proto__'' then receiverPrototype
      else if key = ''constructor'' then JFunction ''Object''
      else if key \<in> set objectPrototypeNames then JFunction key
      else JUndefined)"

text \<open>
  A key is an array index when it is the decimal text of a number below
  \<open>2^32 - 1\<close>.
\<close>

definition digitsValue :: "nat \<Rightarrow> (char \<Rightarrow> nat) \<Rightarrow> string \<Rightarrow> nat" where
  "digitsValue radix val ds = foldl (\<lambda>a c. radix * a + val c) 0 ds"

definition arrayIndex :: "string \<Rightarrow> nat option" where
  "arrayIndex key =
     (if key \<noteq> [] \<and> list_all isDigit key \<and> (key = ''0'' \<or> hd key \<noteq> CHR ''0'') \<and>
         digitsValue 10 digitValue key < 2 ^ 32 - 1
      then Some (digitsValue 10 digitValue key) else None)"

text \<open>
  Looking a key up in the prototype of a dictionary and above. The prototype is
  \<open>null\<close>, or an object or an array of the metadata, whose own prototypes are
  \<open>Object.prototype\<close> and \<open>Array.prototype\<close>. Which methods \<open>Array.prototype\<close>
  has depends on the version of the runtime: their names are a parameter.
\<close>

fun inherited :: "string list \<Rightarrow> anyvalue \<Rightarrow> string \<Rightarrow> anyvalue" where
  "inherited arrayMethods (JObject members) key =
     (case map_of members key of
        Some v \<Rightarrow> v
      | None \<Rightarrow> objectMember (JObject members) key)"
| "inherited arrayMethods (JArray xs) key =
     (if key = ''length'' then JNum (Finite (real (length xs)))
      else if (case arrayIndex key of None \<Rightarrow> False | Some i \<Rightarrow> i < length xs)
        then xs ! the (arrayIndex key)
      else if key = ''constructor'' then JFunction ''Array''
      else if key \<in> set arrayMethods then JFunction key
      else objectMember (JArray xs) key)"
| "inherited arrayMethods v key = JUndefined"

text \<open>\<open>dictionary[key]\<close>\<close>

definition dictionary_get :: "string list \<Rightarrow> dictionary \<Rightarrow> string \<Rightarrow> anyvalue" where
  "dictionary_get arrayMethods d key =
     (case map_of (own d) key of
        Some v \<Rightarrow> v
      | None \<Rightarrow> inherited arrayMethods (prototype d) key)"

text \<open>
  The own properties are kept in the order in which the runtime enumerates
  them: array indexes first, in ascending order, then the other keys in the
  order of their creation.
\<close>

fun insertOwn :: "string \<Rightarrow> anyvalue \<Rightarrow> (string \<times> anyvalue) list \<Rightarrow> (string \<times> anyvalue) list" where
  "insertOwn key v [] = [(key, v)]"
| "insertOwn key v ((k, w) # rest) =
     (case arrayIndex key of
        None \<Rightarrow> (k, w) # insertOwn key v rest
      | Some i \<Rightarrow>
          (case arrayIndex k of
             None \<Rightarrow> (key, v) # (k, w) # rest
           | Some j \<Rightarrow> if j < i then (k, w) # insertOwn key v rest else (key, v) # (k, w) # rest))"

fun updateOwn :: "string \<Rightarrow> anyvalue \<Rightarrow> (string \<times> anyvalue) list \<Rightarrow> (string \<times> anyvalue) list" where
  "updateOwn key v [] = []"
| "updateOwn key v ((k, w) # rest) =
     (if k = key then (k, v) # rest else (k, w) # updateOwn key v rest)"

text \<open>
  \<open>dictionary[key] = v\<close>. A key that the dictionary has is overwritten. The key
  \<open>__proto__\<close> is special as long as the assignment finds the accessor of
  \<open>Object.prototype\<close>, that is unless the prototype is \<open>null\<close> or an object with
  a field of that name: then an object or \<open>null\<close> becomes the prototype of the
  dictionary, any other value is dropped, and no property is created. Every
  other assignment creates a property.
\<close>

fun isObject :: "anyvalue \<Rightarrow> bool" where
  "isObject (JArray _) = True"
| "isObject (JObject _) = True"
| "isObject (JFunction _) = True"
| "isObject _ = False"

fun findsAccessor :: "anyvalue \<Rightarrow> bool" where
  "findsAccessor (JObject members) = (''__proto__'' \<notin> fst ` set members)"
| "findsAccessor (JArray xs) = True"
| "findsAccessor _ = False"

definition dictionary_set :: "string \<Rightarrow> anyvalue \<Rightarrow> dictionary \<Rightarrow> dictionary" where
  "dictionary_set key v d =
     (if key \<in> fst ` set (own d) then d\<lparr>own := updateOwn key v (own d)\<rparr>
      else if key = ''__proto__'' \<and> findsAccessor (prototype d)
        then (if isObject v \<or> v = JNull then d\<lparr>prototype := v\<rparr> else d)
      else d\<lparr>own := insertOwn key v (own d)\<rparr>)"

text \<open>
  Reading one of the properties \<open>attributes\<close>, \<open>traits\<close>, \<open>trait_type\<close>, \<open>name\<close>,
  \<open>value\<close> and \<open>formatted\<close> of a value. The read throws on \<open>null\<close> and
  \<open>undefined\<close>. No built-in prototype has a member of one of these names, so
  only an object can have the property, as a field.
\<close>

fun getProperty :: "anyvalue \<Rightarrow> string \<Rightarrow> error + anyvalue" where
  "getProperty JUndefined p =
     Inl (TypeError (''Cannot read properties of undefined (reading '' @ [CHR 0x27] @ p @
                     [CHR 0x27] @ '')''))"
| "getProperty JNull p =
     Inl (TypeError (''Cannot read properties of null (reading '' @ [CHR 0x27] @ p @
                     [CHR 0x27] @ '')''))"
| "getProperty (JObject members) p =
     Inr (case map_of members p of None \<Rightarrow> JUndefined | Some v \<Rightarrow> v)"
| "getProperty _ p = Inr JUndefined"

text \<open>\<open>Object.entries\<close>\<close>

fun entries :: "anyvalue \<Rightarrow> (string \<times> anyvalue) list" where
  "entries (JObject members) = members"
| "entries (JArray xs) = map (\<lambda>(i, x). (decimal i, x)) (enumerate 0 xs)"
| "entries (JStr s) = map (\<lambda>(i, c). (decimal i, JStr [c])) (enumerate 0 s)"
| "entries _ = []"

subsection \<open>Parsing numbers\<close>

text \<open>
  A parsed number is the Number nearest to the value that the digits denote.
  The rounding of the runtime is a parameter \<open>double\<close>: it gives the nearest
  double, or nothing when the value lies beyond the largest one, and then the
  number is an infinity.
\<close>

definition number :: "(real \<Rightarrow> real option) \<Rightarrow> real \<Rightarrow> jsnumber" where
  "number double x = (case double x of None \<Rightarrow> Infinity (0 < x) | Some y \<Rightarrow> Finite y)"

definition isHexDigit :: "char \<Rightarrow> bool" where
  "isHexDigit c = (c \<in> set ''0123456789abcdefABCDEF'')"

definition hexValue :: "char \<Rightarrow> nat" where
  "hexValue c =
     (case map_of (zip ''0123456789abcdefABCDEF'' ([0 ..< 16] @ [10 ..< 16])) c of
        None \<Rightarrow> 0
      | Some d \<Rightarrow> d)"

text \<open>A leading sign: the factor and the rest of the text.\<close>

fun takeSign :: "string \<Rightarrow> int \<times> string" where
  "takeSign [] = (1, [])"
| "takeSign (c # s) =
     (if c = CHR ''-'' then (- 1, s) else if c = CHR ''+'' then (1, s) else (1, c # s))"

text \<open>
  \<open>parseInt(text)\<close> without a radix: white space, a sign, \<open>0x\<close> for radix 16,
  then the longest run of digits; \<open>NaN\<close> when there is no digit.
\<close>

definition parseInt :: "(real \<Rightarrow> real option) \<Rightarrow> string \<Rightarrow> jsnumber" where
  "parseInt double text =
     (let (sign, s) = takeSign (trimStart text);
          hex = (prefix ''0x'' s \<or> prefix ''0X'' s);
          z = (if hex then takeWhile isHexDigit (drop 2 s) else takeWhile isDigit s)
      in if z = [] then NaN
         else number double (of_int (sign * int (if hex then digitsValue 16 hexValue z
                                                 else digitsValue 10 digitValue z))))"

text \<open>
  \<open>parseFloat(text)\<close>: white space, then the longest prefix that is a decimal
  literal (a sign, then \<open>Infinity\<close> or digits with an optional fraction and
  exponent); \<open>NaN\<close> when there is none.
\<close>

definition scale10 :: "real \<Rightarrow> int \<Rightarrow> real" where
  "scale10 x e = (if 0 \<le> e then x * 10 ^ nat e else x / 10 ^ nat (- e))"

definition parseFloat :: "(real \<Rightarrow> real option) \<Rightarrow> string \<Rightarrow> jsnumber" where
  "parseFloat double text =
     (let (sign, s) = takeSign (trimStart text)
      in if prefix ''Infinity'' s then Infinity (0 < sign)
         else
           (let ip = takeWhile isDigit s;
                r1 = dropWhile isDigit s;
                hasDot = (r1 \<noteq> [] \<and> hd r1 = CHR ''.'');
                fp = (if hasDot then takeWhile isDigit (tl r1) else []);
                r2 = (if hasDot then dropWhile isDigit (tl r1) else r1);
                hasExp = (r2 \<noteq> [] \<and> (hd r2 = CHR ''e'' \<or> hd r2 = CHR ''E''));
                (esign, r3) = (if hasExp then takeSign (tl r2) else (1, []));
                ed = takeWhile isDigit r3;
                exponent = (if ed = [] then 0 else esign * int (digitsValue 10 digitValue ed))
            in if ip = [] \<and> fp = [] then NaN
               else number double
                      (scale10 (of_int (sign * int (digitsValue 10 digitValue (ip @ fp))))
                         (exponent - int (length fp)))))"

subsection \<open>Values of traits\<close>

definition getDefaultValue :: "TraitType \<Rightarrow> anyvalue" where
  "getDefaultValue traitType =
     (case traitType of
        asString \<Rightarrow> JStr []
      | asInt \<Rightarrow> JNum (Finite 0)
      | asFloat \<Rightarrow> JNum (Finite 0))"

definition formatValue ::
  "(real \<Rightarrow> string) \<Rightarrow> (real \<Rightarrow> real option) \<Rightarrow> anyvalue \<Rightarrow> TraitType \<Rightarrow> error + anyvalue" where
  "formatValue nts double v traitType =
     (case traitType of
        asString \<Rightarrow> bindE (anyToString nts v) (\<lambda>text. Inr (JStr text))
      | asInt \<Rightarrow>
          bindE (anyToString nts v) (\<lambda>text.
            Inr (orElseAny (JNum (parseInt double text)) (JNum (Finite 0))))
      | asFloat \<Rightarrow>
          bindE (anyToString nts v) (\<lambda>text.
            Inr (orElseAny (JNum (parseFloat double text)) (JNum (Finite 0)))))"

definition denylist :: "string list" where
  "denylist = [''name'', ''description'', ''image'', ''external_url'', ''animation_url'']"

fun foldE :: "('b \<Rightarrow> 'a \<Rightarrow> error + 'b) \<Rightarrow> 'b \<Rightarrow> 'a list \<Rightarrow> error + 'b" where
  "foldE f acc [] = Inr acc"
| "foldE f acc (x # xs) = (case f acc x of Inl e \<Rightarrow> Inl e | Inr acc' \<Rightarrow> foldE f acc' xs)"

definition extractTraitValues :: "(real \<Rightarrow> string) \<Rightarrow> anyvalue \<Rightarrow> error + dictionary" where
  "extractTraitValues nts metadata =
     (if \<not> truthyAny metadata then Inr emptyDictionary
      else
        bindE (getProperty metadata ''attributes'') (\<lambda>a1.
        bindE (if truthyAny a1 then Inr a1 else getProperty metadata ''traits'') (\<lambda>a2.
        (let attributes = orElseAny a2 (JArray [])
         in bindE
              (case attributes of
                 JArray xs \<Rightarrow>
                   foldE (\<lambda>values attribute.
                            bindE (getProperty attribute ''trait_type'') (\<lambda>t1.
                            bindE (if truthyAny t1 then Inr t1 else getProperty attribute ''name'')
                              (\<lambda>traitType.
                                 if truthyAny traitType
                                 then bindE (anyToString nts traitType) (\<lambda>key.
                                      bindE (getProperty attribute ''value'') (\<lambda>v.
                                        Inr (dictionary_set key v values)))
                                 else Inr values))) emptyDictionary xs
               | JObject members \<Rightarrow>
                   Inr (foldl (\<lambda>values (key, v). dictionary_set key v values) emptyDictionary
                          members)
               | _ \<Rightarrow> Inr emptyDictionary)
              (\<lambda>values.
                 if own values = []
                 then Inr (foldl (\<lambda>values (key, v).
                                    if key \<in> set denylist then values
                                    else dictionary_set key v values)
                             values (entries metadata))
                 else Inr values)))))"

subsection \<open>Code for one collection\<close>

text \<open>The object literal \<open>{ original, formatted, traitType }\<close>.\<close>

definition traitValue :: "anyvalue \<Rightarrow> anyvalue \<Rightarrow> TraitType \<Rightarrow> anyvalue" where
  "traitValue original formatted traitType =
     JObject [(''original'', original), (''formatted'', formatted),
              (''traitType'', JStr (traitTypeName traitType))]"

text \<open>
  \<open>traitValues[traitKey]?.formatted ?? this.getDefaultValue(trait.type)\<close>
\<close>

definition formattedOrDefault ::
  "string list \<Rightarrow> dictionary \<Rightarrow> string \<Rightarrow> TraitType \<Rightarrow> error + anyvalue" where
  "formattedOrDefault arrayMethods traitValues traitKey traitType =
     (let found = dictionary_get arrayMethods traitValues traitKey
      in bindE (if found = JUndefined \<or> found = JNull then Inr JUndefined
                else getProperty found ''formatted'') (\<lambda>formatted.
           Inr (if formatted = JUndefined \<or> formatted = JNull then getDefaultValue traitType
                else formatted)))"

definition traitEntry ::
  "(real \<Rightarrow> string) \<Rightarrow> string list \<Rightarrow> dictionary \<Rightarrow> Trait \<Rightarrow> error + string" where
  \<open>traitEntry nts arrayMethods traitValues trait =
     (let traitKey = toString nts (orElse (t_key trait) (VStr []))
      in bindE (formattedOrDefault arrayMethods traitValues traitKey (t_type trait)) (\<lambda>v.
         bindE (anyToString nts v) (\<lambda>text.
           (let formattedValue =
                  (if t_type trait = asString
                   then [CHR 0x27] @ replaceAllChar (CHR 0x27) [CHR 0x5C, CHR 0x27] text @
                        [CHR 0x27]
                   else text)
            in Inr (''    "'' @ traitKey @ ''": {'' @ [CHR 0x0A] @
                    ''      '' @ traitTypeName (t_type trait) @ ''() {'' @ [CHR 0x0A] @
                    ''        return '' @ formattedValue @ '';'' @ [CHR 0x0A] @
                    ''      }'' @ [CHR 0x0A] @
                    ''    },'' @ [CHR 0x0A])))))\<close>

definition generateCode ::
  "(real \<Rightarrow> string) \<Rightarrow> string list \<Rightarrow> string option \<Rightarrow> Trait list \<Rightarrow> dictionary \<Rightarrow>
   MetadataSourceType \<Rightarrow> error + string" where
  \<open>generateCode nts arrayMethods collectionName ts traitValues metadataSource =
     bindE (mapE (traitEntry nts arrayMethods traitValues) ts) (\<lambda>traitEntries.
       Inr (''const '' @ show_name collectionName @ '' = {'' @ [CHR 0x0A] @
            ''  // Metadata source: '' @ sourceTypeName metadataSource @ [CHR 0x0A] @
            ''  traits: {'' @ [CHR 0x0A] @
            concat traitEntries @
            ''  },'' @ [CHR 0x0A] @
            ''  metadata(key) {'' @ [CHR 0x0A] @
            ''    return this.traits[key];'' @ [CHR 0x0A] @
            ''  },'' @ [CHR 0x0A] @
            ''  useToken(tokenId) {'' @ [CHR 0x0A] @
            ''    console.log('' @ [CHR 0x27] @ ''Using token'' @ [CHR 0x27] @ '', tokenId);'' @
            [CHR 0x0A] @
            ''    return this;'' @ [CHR 0x0A] @
            ''  }'' @ [CHR 0x0A] @
            ''};'' @ [CHR 0x0A]))\<close>

text \<open>
  The loop over the declared traits, after the metadata has been retrieved: the
  value found under the key of the trait is formatted, a missing one is replaced
  by the default of the trait type. When a value cannot be formatted the loop
  ends there, with the entries made so far and the error thrown.
\<close>

fun formatTraits ::
  "(real \<Rightarrow> string) \<Rightarrow> (real \<Rightarrow> real option) \<Rightarrow> string list \<Rightarrow> dictionary \<Rightarrow> dictionary \<Rightarrow>
   Trait list \<Rightarrow> dictionary \<times> error option" where
  "formatTraits nts double arrayMethods extractedValues traitValues [] = (traitValues, None)"
| "formatTraits nts double arrayMethods extractedValues traitValues (trait # ts) =
     (let key = toString nts (orElse (t_key trait) (VStr []));
          extractedValue = dictionary_get arrayMethods extractedValues key
      in (case (if extractedValue = JUndefined then Inr (getDefaultValue (t_type trait))
                else formatValue nts double extractedValue (t_type trait)) of
            Inl e \<Rightarrow> (traitValues, Some e)
          | Inr formattedValue \<Rightarrow>
              formatTraits nts double arrayMethods extractedValues
                (dictionary_set key (traitValue extractedValue formattedValue (t_type trait))
                   traitValues) ts))"

record MetadataResult =
  m_metadata :: anyvalue
  m_sourceType :: MetadataSourceType
  m_source :: "string option"
  m_success :: bool
  m_error :: "string option"

record CollectionCodeResult =
  cr_collectionName :: "string option"
  cr_address :: jsvalue
  cr_code :: string
  cr_metadataSource :: MetadataSourceType
  cr_traitValues :: dictionary
  cr_metadata :: anyvalue
  cr_tokenId :: jsnumber
  cr_success :: bool
  cr_error :: "string option"

record CollectionsCodeResult =
  cs_collections :: "CollectionCodeResult list"
  cs_combinedCode :: string
  cs_successCount :: nat
  cs_failureCount :: nat

text \<open>
  The state of the local variables \<open>traitValues\<close>, \<open>rawMetadata\<close>,
  \<open>metadataSource\<close> and \<open>error\<close> when the \<open>try\<close> block is left.
  \<open>retrieve\<close> stands for the construction of the contract object and the network
  reads of \<open>fetchTokenMetadata\<close>: it gives the result of the retrieval, or the
  error thrown on the way.
\<close>

definition resolveTraits ::
  "(jsvalue \<Rightarrow> jsnumber \<Rightarrow> error + MetadataResult) \<Rightarrow> (real \<Rightarrow> string) \<Rightarrow>
   (real \<Rightarrow> real option) \<Rightarrow> string list \<Rightarrow> TraitData \<Rightarrow> jsnumber \<Rightarrow>
   dictionary \<times> anyvalue \<times> MetadataSourceType \<times> string option" where
  "resolveTraits retrieve nts double arrayMethods collection tokenId =
     (if truthy (d_address collection)
      then (case retrieve (d_address collection) tokenId of
              Inl err \<Rightarrow>
                (emptyDictionary, JNull, unknown,
                 Some (''Error generating collection code: '' @ message err))
            | Inr result \<Rightarrow>
                if m_success result \<and> truthyAny (m_metadata result)
                then (case extractTraitValues nts (m_metadata result) of
                        Inl err \<Rightarrow>
                          (emptyDictionary, m_metadata result, m_sourceType result,
                           Some (''Error generating collection code: '' @ message err))
                      | Inr extractedValues \<Rightarrow>
                          (case formatTraits nts double arrayMethods extractedValues
                                  emptyDictionary (d_traits collection) of
                             (traitValues, None) \<Rightarrow>
                               (traitValues, m_metadata result, m_sourceType result, None)
                           | (traitValues, Some err) \<Rightarrow>
                               (traitValues, m_metadata result, m_sourceType result,
                                Some (''Error generating collection code: '' @ message err))))
                else (emptyDictionary, JNull, unknown,
                      Some (case m_error result of
                              None \<Rightarrow> ''Unknown error retrieving metadata''
                            | Some e \<Rightarrow> if e = [] then ''Unknown error retrieving metadata''
                                        else e)))
      else (emptyDictionary, JNull, unknown, Some ''Collection has no address''))"

text \<open>
  \<open>generateCode\<close> runs after the \<open>try\<close> block: what it throws is not caught, and
  the promise of \<open>generateFormaCollectionCode\<close> is rejected with it.
\<close>

definition generateFormaCollectionCode ::
  "(jsvalue \<Rightarrow> jsnumber \<Rightarrow> error + MetadataResult) \<Rightarrow> (real \<Rightarrow> string) \<Rightarrow>
   (real \<Rightarrow> real option) \<Rightarrow> string list \<Rightarrow> TraitData \<Rightarrow> error + CollectionCodeResult" where
  "generateFormaCollectionCode retrieve nts double arrayMethods collection =
     (let tokenId = (case d_tokenIndexes collection of [] \<Rightarrow> Finite 1 | first # _ \<Rightarrow> first);
          (traitValues, rawMetadata, metadataSource, err) =
             resolveTraits retrieve nts double arrayMethods collection tokenId
      in bindE (generateCode nts arrayMethods (d_collection collection) (d_traits collection)
                  traitValues metadataSource) (\<lambda>code.
           Inr \<lparr>cr_collectionName = d_collection collection,
                cr_address = orElse (d_address collection) VNull,
                cr_code = code,
                cr_metadataSource = metadataSource,
                cr_traitValues = traitValues,
                cr_metadata = rawMetadata,
                cr_tokenId = tokenId,
                cr_success = (err = None),
                cr_error = err\<rparr>))"

definition generateFormaCollectionCodes ::
  "(jsvalue \<Rightarrow> jsnumber \<Rightarrow> error + MetadataResult) \<Rightarrow> (real \<Rightarrow> string) \<Rightarrow>
   (real \<Rightarrow> real option) \<Rightarrow> string list \<Rightarrow> TraitData list \<Rightarrow> error + CollectionsCodeResult" where
  "generateFormaCollectionCodes retrieve nts double arrayMethods cs =
     bindE (mapE (generateFormaCollectionCode retrieve nts double arrayMethods) cs) (\<lambda>results.
       Inr \<lparr>cs_collections = results,
            cs_combinedCode = join [CHR 0x0A] (map cr_code results),
            cs_successCount = length (filter cr_success results),
            cs_failureCount = length (filter (\<lambda>r. \<not> cr_success r) results)\<rparr>)"

section \<open>Vocabulary of the properties\<close>

text \<open>
  The names below are not part of the program: they describe its inputs, so
  that the properties can be stated.
\<close>

subsection \<open>What a sketch declares\<close>

text \<open>
  The order in which \<open>walk.simple\<close> visits the nodes of a tree when the stack
  has room for all of them, and the room the tree needs: the number of nodes
  on its longest path of nested nodes.
\<close>

fun visits :: "node \<Rightarrow> node list" where
  "visits (Identifier l n) = [Identifier l n]"
| "visits (Literal l v) = [Literal l v]"
| "visits (MemberExpression l obj prop computed) =
     visits obj @ (if computed then visits prop else []) @
     [MemberExpression l obj prop computed]"
| "visits (CallExpression l callee args) =
     visits callee @ concat (map visits args) @ [CallExpression l callee args]"
| "visits (VariableDeclarator l ident init) =
     visits ident @ (case init of None \<Rightarrow> [] | Some e \<Rightarrow> visits e) @
     [VariableDeclarator l ident init]"
| "visits (FunctionDeclaration l ident params body) =
     (case ident of None \<Rightarrow> [] | Some i \<Rightarrow> visits i) @
     concat (map visits params) @ visits body @
     [FunctionDeclaration l ident params body]"
| "visits (Other l kind nodes) =
     concat (map visits nodes) @ [Other l kind nodes]"

fun height :: "node \<Rightarrow> nat" where
  "height (Identifier l n) = 1"
| "height (Literal l v) = 1"
| "height (MemberExpression l obj prop computed) =
     Suc (max (height obj) (if computed then height prop else 0))"
| "height (CallExpression l callee args) =
     Suc (max (height callee) (foldr max (map height args) 0))"
| "height (VariableDeclarator l ident init) =
     Suc (max (height ident) (case init of None \<Rightarrow> 0 | Some e \<Rightarrow> height e))"
| "height (FunctionDeclaration l ident params body) =
     Suc (max (case ident of None \<Rightarrow> 0 | Some i \<Rightarrow> height i)
            (max (foldr max (map height params) 0) (height body)))"
| "height (Other l kind nodes) = Suc (foldr max (map height nodes) 0)"

text \<open>The fields after each pass when its walk has the room it needs.\<close>

definition collectionsDone :: "node \<Rightarrow> NFTCodeAnalyzer \<Rightarrow> NFTCodeAnalyzer" where
  "collectionsDone ast this = snd (extractCollections (height ast) ast this)"

definition traitsDone :: "node \<Rightarrow> NFTCodeAnalyzer \<Rightarrow> NFTCodeAnalyzer" where
  "traitsDone ast this = snd (extractTraits (height ast) ast this)"

definition tokensDone :: "node \<Rightarrow> NFTCodeAnalyzer \<Rightarrow> NFTCodeAnalyzer" where
  "tokensDone ast this = snd (extractTokenUsages (height ast) ast this)"

text \<open>
  The declarators that register a collection, in the order of the walk, the
  name a declarator declares, and the collection it stands for.
\<close>

definition formaDeclarators :: "node \<Rightarrow> node list" where
  "formaDeclarators ast = filter isFormaCollectionCall (visits ast)"

fun declaredName :: "node \<Rightarrow> string option" where
  "declaredName (VariableDeclarator _ ident _) = name_of ident"
| "declaredName _ = None"

definition collectionOf :: "node \<Rightarrow> Collection" where
  "collectionOf n = fst (createCollection n newAnalyzer)"

text \<open>The warning recorded for a collection declared without a literal address.\<close>

definition missingAddressWarning :: "Collection \<Rightarrow> AnalysisIssue" where
  "missingAddressWarning c =
     \<lparr>i_type = warning,
      i_message = ''Collection '' @ [CHR 0x27] @ show_name (c_name c) @ [CHR 0x27] @
                  '' is missing an address'',
      i_location = c_sourceLocation c\<rparr>"

text \<open>
  The trait a call expression declares, if it has the shape
  \<open>object.metadata(key).asType()\<close>, and the declarations of a sketch in the order
  of the walk, duplicates included.
\<close>

definition declaredTrait :: "node \<Rightarrow> Trait option" where
  "declaredTrait n = fst (extractTrait n newAnalyzer)"

definition declaredTraits :: "node \<Rightarrow> Trait list" where
  "declaredTraits ast = List.map_filter declaredTrait (filter isCallExpression (visits ast))"

text \<open>
  Two declarations are identical when they name the same collection, the same
  key and the same type. A key equals itself under \<open>===\<close> unless it is the
  RegExp object of a literal (or \<open>NaN\<close>, which no literal denotes).
\<close>

definition sameWritten :: "Trait \<Rightarrow> Trait \<Rightarrow> bool" where
  "sameWritten a b =
     (t_collection a = t_collection b \<and> t_key a = t_key b \<and> t_type a = t_type b)"

definition selfEqual :: "jsvalue \<Rightarrow> bool" where
  "selfEqual v = strict_equals v v"

text \<open>The warning recorded for a trait declaration without a literal key.\<close>

definition missingKeyWarning :: "Trait \<Rightarrow> AnalysisIssue" where
  "missingKeyWarning t =
     \<lparr>i_type = warning,
      i_message = ''Trait in collection '' @ [CHR 0x27] @ show_name (t_collection t) @ [CHR 0x27] @
                  '' is missing a key'',
      i_location = t_sourceLocation t\<rparr>"

text \<open>Adding a trait to a list unless the list has one with the same triple.\<close>

definition pushUnique :: "Trait list \<Rightarrow> Trait \<Rightarrow> Trait list" where
  "pushUnique acc t = (if list_ex (sameTriple t) acc then acc else acc @ [t])"

text \<open>
  The \<open>setup\<close> function of a sketch is the function declaration of that name
  that the walk visits last. \<open>setupCalls\<close> lists the calls inside it that the
  analyzer takes for uses of a token, in the order of the walk: the callee is a
  member expression whose property is an identifier named \<open>useToken\<close>, and there
  is at least one argument.
\<close>

definition setupCalls :: "node \<Rightarrow> node list" where
  "setupCalls ast =
     (case findSetup (visits ast) of
        None \<Rightarrow> []
      | Some f \<Rightarrow> filter isUseTokenCall (visits f))"

text \<open>
  The token index a \<open>useToken\<close> call stands for when its first argument is a
  numeric literal.
\<close>

fun tokenIndexOf :: "node \<Rightarrow> TokenIndex option" where
  "tokenIndexOf (CallExpression _ (MemberExpression _ obj _ _) (Literal _ (VNum n) # _)) =
     Some \<lparr>ti_collection = name_of obj, ti_tokenId = n\<rparr>"
| "tokenIndexOf _ = None"

fun calleeObjectName :: "node \<Rightarrow> string option" where
  "calleeObjectName (CallExpression _ (MemberExpression _ obj _ _) _) = name_of obj"
| "calleeObjectName _ = None"

text \<open>
  The warnings recorded for a \<open>useToken\<close> call: one when no collection has the
  name of its object, and one when its first argument is not a numeric literal.
\<close>

definition unknownCollectionWarning :: "node \<Rightarrow> AnalysisIssue" where
  "unknownCollectionWarning n =
     \<lparr>i_type = warning,
      i_message = ''useToken references non-existent collection '' @ [CHR 0x27] @
                  show_name (calleeObjectName n) @ [CHR 0x27],
      i_location = Some (loc n)\<rparr>"

definition nonNumericWarning :: "node \<Rightarrow> AnalysisIssue" where
  "nonNumericWarning n =
     \<lparr>i_type = warning,
      i_message = ''useToken for collection '' @ [CHR 0x27] @ show_name (calleeObjectName n) @
                  [CHR 0x27] @ '' has non-numeric token ID'',
      i_location = Some (loc n)\<rparr>"

definition useTokenIssues :: "Collection list \<Rightarrow> node \<Rightarrow> AnalysisIssue list" where
  "useTokenIssues cs n =
     (if list_ex (\<lambda>c. c_name c = calleeObjectName n) cs then [] else [unknownCollectionWarning n]) @
     (if tokenIndexOf n = None then [nonNumericWarning n] else [])"

text \<open>The warnings of the validation that follows the three passes.\<close>

definition validationIssues ::
  "Collection list \<Rightarrow> Trait list \<Rightarrow> TokenIndex list \<Rightarrow> AnalysisIssue list" where
  "validationIssues cs ts tis =
     map (\<lambda>t. \<lparr>i_type = warning,
               i_message = ''Trait references non-existent collection '' @ [CHR 0x27] @
                           show_name (t_collection t) @ [CHR 0x27],
               i_location = t_sourceLocation t\<rparr>)
       (filter (\<lambda>t. \<not> list_ex (\<lambda>c. c_name c = t_collection t) cs) ts) @
     map (\<lambda>ti. \<lparr>i_type = warning,
                i_message = ''Token usage references non-existent collection '' @ [CHR 0x27] @
                            show_name (ti_collection ti) @ [CHR 0x27],
                i_location = None\<rparr>)
       (filter (\<lambda>ti. \<not> list_ex (\<lambda>c. c_name c = ti_collection ti) cs) tis)"

text \<open>\<open>Number.isInteger\<close>\<close>

fun isInteger :: "jsnumber \<Rightarrow> bool" where
  "isInteger (Finite x) = isIntegral x"
| "isInteger _ = False"

subsection \<open>Reading a quoted literal\<close>





subsection \<open>Fragments for collections without an address\<close>

text \<open>The formatted name of a collection whose name is a string.\<close>

definition formattedName :: "string \<Rightarrow> string" where
  "formattedName n = capitalize (collapseSpaces (toLowerCase (trim n)))"

text \<open>The collections with an address other than \<open>null\<close>.\<close>

definition addressed :: "Collection list \<Rightarrow> Collection list" where
  "addressed cs = filter (\<lambda>c. c_address c \<noteq> VNull) cs"

text \<open>The call that the \<open>TRAIT_JS\<close> fragment emits for the collection named \<open>n\<close>.\<close>

definition traitJsCall :: "string \<Rightarrow> string" where
  \<open>traitJsCall n = ''generateCollectionTraitJS("'' @ n @ ''", '' @ n @ '', '' @ n @
                     ''_INDEX, tokenId_'' @ formattedName n @ '');''\<close>

subsection \<open>Templates\<close>

text \<open>
  The thirteen placeholders, in the order in which the assembly replaces them,
  and the fragments that replace them, computed as the assembly computes them.
\<close>

definition placeholderNames :: "string list" where
  "placeholderNames =
     [''%CONTRACT_NAME%'', ''%COLLECTION_CONTRACTS%'', ''%COLLECTION_CODE%'', ''%CHUNKS%'',
      ''%COLLECTION_TRAITS%'', ''%ID_MAPPING%'', ''%REQUIRED_MINT_CODE%'', ''%METADATA_EXP%'',
      ''%TRAIT_JS%'', ''%TRAIT_BASE64%'', ''%P5_LS%'', ''%ATTRIBUTES%'',
      ''%CEMENT_METADATA_CODE%'']"

definition contractFragments ::
  "(string \<Rightarrow> string + node) \<Rightarrow> (string \<Rightarrow> string) \<Rightarrow> (string \<Rightarrow> nat \<Rightarrow> string list) \<Rightarrow>
   (real \<Rightarrow> string) \<Rightarrow> nat \<Rightarrow> string \<Rightarrow> error + string list" where
  "contractFragments parse process compress nts stack code =
     bindE (analyzeCode parse stack code) (\<lambda>analysis.
     (let p5slot = compress (process code) 512
      in bindE (generateTokenIdMapping (r_collections analysis)) (\<lambda>idMapping.
         bindE (generateOwnershipChecks (r_collections analysis)) (\<lambda>ownershipChecks.
         bindE (generateMetadataExtraction (r_collections analysis)) (\<lambda>metadataExtraction.
         bindE (generateSolidityJsField (r_collections analysis)) (\<lambda>jsField.
         bindE (generateFullMetadataSettings (r_data analysis)) (\<lambda>attributes.
           Inr [''NFTCollection'',
                generateCollectionAddresses nts (r_collections analysis),
                generateCollectionIndexes (r_collections analysis),
                generateP5Storage p5slot,
                generateTraitRegistration nts (r_data analysis),
                idMapping, ownershipChecks, metadataExtraction, jsField,
                generateSolidityBase64EncodedField (r_collections analysis),
                generateP5Ls p5slot,
                attributes,
                generateMetadataCementing])))))))"

text \<open>The replacements of the assembly, one after the other.\<close>

definition replaceEach :: "(string \<times> string) list \<Rightarrow> string \<Rightarrow> string" where
  "replaceEach steps text = foldl (\<lambda>t (p, f). replace p f t) text steps"

text \<open>
  A text with placeholders is a sequence of texts and holes. A hole stands for
  a placeholder: a \<open>%\<close>, one or more of the characters \<open>A\<close> to \<open>Z\<close>, \<open>0\<close> to \<open>9\<close>
  and \<open>_\<close>, and a \<open>%\<close>.
\<close>

datatype piece = Text string | Hole string

fun render :: "piece list \<Rightarrow> string" where
  "render [] = []"
| "render (Text s # ps) = s @ render ps"
| "render (Hole p # ps) = p @ render ps"

definition nameChar :: "char \<Rightarrow> bool" where
  "nameChar c = (c \<in> set ''ABCDEFGHIJKLMNOPQRSTUVWXYZ0123456789_'')"

definition placeholderShape :: "string \<Rightarrow> bool" where
  "placeholderShape p =
     (case p of
        c # r \<Rightarrow> c = CHR ''%'' \<and> r \<noteq> [] \<and> last r = CHR ''%'' \<and> butlast r \<noteq> [] \<and>
                 list_all nameChar (butlast r)
      | [] \<Rightarrow> False)"

text \<open>
  In a guarded text no placeholder begins: every \<open>%\<close> is followed, inside the
  text, by a run of name characters (which may be empty) and then by a
  character that is neither a name character nor \<open>%\<close>.
\<close>

fun guarded :: "string \<Rightarrow> bool" where
  "guarded [] = True"
| "guarded (c # s) =
     ((c = CHR ''%'' \<longrightarrow> (case dropWhile nameChar s of [] \<Rightarrow> False | d # _ \<Rightarrow> d \<noteq> CHR ''%'')) \<and>
      guarded s)"

text \<open>
  What may follow a hole: the end, or a text that begins with a character
  other than a name character; not another hole.
\<close>

fun mayFollow :: "piece list \<Rightarrow> bool" where
  "mayFollow [] = True"
| "mayFollow (Text s # ps) = (if s = [] then mayFollow ps else \<not> nameChar (hd s))"
| "mayFollow (Hole q # ps) = False"

fun wellFormed :: "piece list \<Rightarrow> bool" where
  "wellFormed [] = True"
| "wellFormed (Text s # ps) = (guarded s \<and> wellFormed ps)"
| "wellFormed (Hole p # ps) = (placeholderShape p \<and> mayFollow ps \<and> wellFormed ps)"

fun holes :: "piece list \<Rightarrow> string list" where
  "holes [] = []"
| "holes (Text s # ps) = holes ps"
| "holes (Hole p # ps) = p # holes ps"

text \<open>
  A replacement text is plain when it holds none of the patterns \<open>$$\<close>, \<open>$&\<close>,
  \<open>$`\<close> and \<open>$'\<close>.
\<close>

fun plain :: "string \<Rightarrow> bool" where
  "plain (c # d # r) =
     (\<not> (c = CHR ''$'' \<and> d \<in> {CHR ''$'', CHR ''&'', CHR 0x60, CHR 0x27}) \<and> plain (d # r))"
| "plain r = True"

text \<open>
  Putting a fragment, itself a sequence of texts and holes, in place of the
  first hole of a placeholder; and doing so for one placeholder after the
  other.
\<close>

fun splice :: "string \<Rightarrow> piece list \<Rightarrow> piece list \<Rightarrow> piece list" where
  "splice p fragment [] = []"
| "splice p fragment (Text s # ps) = Text s # splice p fragment ps"
| "splice p fragment (Hole q # ps) =
     (if q = p then fragment @ ps else Hole q # splice p fragment ps)"

definition spliceEach :: "(string \<times> piece list) list \<Rightarrow> piece list \<Rightarrow> piece list" where
  "spliceEach steps pieces = foldl (\<lambda>qs (p, fragment). splice p fragment qs) pieces steps"

text \<open>
  Filling every hole of a template with the fragment of its placeholder, all at
  once; a hole without a fragment stays.
\<close>

fun fill :: "(string \<times> string) list \<Rightarrow> piece list \<Rightarrow> string" where
  "fill steps [] = []"
| "fill steps (Text s # ps) = s @ fill steps ps"
| "fill steps (Hole p # ps) = (case map_of steps p of None \<Rightarrow> p | Some f \<Rightarrow> f) @ fill steps ps"

fun plug :: "string \<Rightarrow> string \<Rightarrow> piece \<Rightarrow> piece" where
  "plug p f (Text s) = Text s"
| "plug p f (Hole q) = (if q = p then Text f else Hole q)"

subsection \<open>Texts and numbers\<close>

text \<open>
  A text has no leading number when, after leading white space and one sign,
  it does not begin with a digit, nor with a dot and a digit, nor with
  \<open>Infinity\<close>.
\<close>

fun unsigned :: "string \<Rightarrow> string" where
  "unsigned [] = []"
| "unsigned (c # s) = (if c = CHR ''-'' \<or> c = CHR ''+'' then s else c # s)"

fun startsNumber :: "string \<Rightarrow> bool" where
  "startsNumber [] = False"
| "startsNumber [c] = isDigit c"
| "startsNumber (c # d # _) = (isDigit c \<or> (c = CHR ''.'' \<and> isDigit d))"

definition noLeadingNumber :: "string \<Rightarrow> bool" where
  "noLeadingNumber text =
     (let s = unsigned (trimStart text) in \<not> startsNumber s \<and> \<not> prefix ''Infinity'' s)"

text \<open>
  A text is numeric when the whole of it, apart from white space around it and
  one sign, is \<open>Infinity\<close> or a decimal numeral: digits with an optional
  fraction and an optional exponent.
\<close>

definition decimalShape :: "string \<Rightarrow> bool" where
  "decimalShape s =
     (let ip = takeWhile isDigit s;
          r1 = dropWhile isDigit s;
          hasDot = (r1 \<noteq> [] \<and> hd r1 = CHR ''.'');
          fp = (if hasDot then takeWhile isDigit (tl r1) else []);
          r2 = (if hasDot then dropWhile isDigit (tl r1) else r1);
          hasExp = (r2 \<noteq> [] \<and> (hd r2 = CHR ''e'' \<or> hd r2 = CHR ''E''));
          ed = (if hasExp then unsigned (tl r2) else [])
      in (ip \<noteq> [] \<or> fp \<noteq> []) \<and> (if hasExp then ed \<noteq> [] \<and> list_all isDigit ed else r2 = []))"

definition numericText :: "string \<Rightarrow> bool" where
  "numericText text = (let s = unsigned (trim text) in s = ''Infinity'' \<or> decimalShape s)"

text \<open>How the generated code writes the default value of a trait type.\<close>

definition zeroText :: "TraitType \<Rightarrow> string" where
  "zeroText t = (case t of asString \<Rightarrow> [CHR 0x27, CHR 0x27] | asInt \<Rightarrow> ''0'' | asFloat \<Rightarrow> ''0'')"

subsection \<open>Reading a generated fragment\<close>

text \<open>
  The code that \<open>generateCode\<close> writes is meant to be one statement of
  JavaScript: the declaration of an object that holds, under the key of every
  trait, an object with one method named after the trait type. What follows
  reads such a text back. It accepts the layout of \<open>generateCode\<close> when every
  part that varies is what the language requires at its place: the name an
  identifier that may be declared, a key the body of a string literal in double
  quotes, a returned expression a string literal in single quotes or a number.
  It refuses every other text.
\<close>

definition expect :: "string \<Rightarrow> string \<Rightarrow> string option" where
  "expect p s = (if prefix p s then Some (drop (length p) s) else None)"

definition identifierChar :: "char \<Rightarrow> bool" where
  "identifierChar c =
     (c \<in> set (''abcdefghijklmnopqrstuvwxyz'' @ ''ABCDEFGHIJKLMNOPQRSTUVWXYZ'' @
               ''0123456789_$''))"

text \<open>
  The reserved words, and the names that a declaration with \<open>const\<close> may not
  bind in every place.
\<close>

definition reservedWords :: "string list" where
  "reservedWords =
     [''await'', ''break'', ''case'', ''catch'', ''class'', ''const'', ''continue'',
      ''debugger'', ''default'', ''delete'', ''do'', ''else'', ''enum'', ''export'',
      ''extends'', ''false'', ''finally'', ''for'', ''function'', ''if'', ''implements'',
      ''import'', ''in'', ''instanceof'', ''interface'', ''let'', ''new'', ''null'',
      ''package'', ''private'', ''protected'', ''public'', ''return'', ''static'', ''super'',
      ''switch'', ''this'', ''throw'', ''true'', ''try'', ''typeof'', ''var'', ''void'',
      ''while'', ''with'', ''yield'', ''arguments'', ''eval'', ''undefined'', ''NaN'',
      ''Infinity'']"

definition isIdentifier :: "string \<Rightarrow> bool" where
  "isIdentifier name =
     (name \<noteq> [] \<and> list_all identifierChar name \<and> \<not> isDigit (hd name) \<and>
      name \<notin> set reservedWords)"

definition readName :: "string \<Rightarrow> (string \<times> string) option" where
  "readName s =
     (let name = takeWhile identifierChar s
      in if isIdentifier name then Some (name, dropWhile identifierChar s) else None)"

text \<open>
  The body of a string literal in double quotes, read without escapes: it ends
  at the first double quote, and holds no backslash and no line break.
\<close>

definition keyChar :: "char \<Rightarrow> bool" where
  "keyChar c = (c \<noteq> CHR 0x22 \<and> c \<noteq> CHR 0x5C \<and> c \<noteq> CHR 0x0A \<and> c \<noteq> CHR 0x0D)"

definition readKey :: "string \<Rightarrow> (string \<times> string) option" where
  "readKey s =
     (let key = takeWhile keyChar s; rest = dropWhile keyChar s
      in if prefix [CHR 0x22] rest then Some (key, tl rest) else None)"

definition readType :: "string \<Rightarrow> (TraitType \<times> string) option" where
  "readType s =
     (let name = takeWhile identifierChar s; rest = dropWhile identifierChar s
      in if name = ''asString'' then Some (asString, rest)
         else if name = ''asInt'' then Some (asInt, rest)
         else if name = ''asFloat'' then Some (asFloat, rest)
         else None)"

text \<open>
  The body of a string literal in single quotes, after the opening quote: the
  body as written and the text after the closing quote.
\<close>

fun readQuoted :: "string \<Rightarrow> (string \<times> string) option" where
  "readQuoted [] = None"
| "readQuoted [c] = (if c = CHR 0x27 then Some ([], []) else None)"
| "readQuoted (c # d # s) =
     (if c = CHR 0x27 then Some ([], d # s)
      else if c = CHR 0x0A \<or> c = CHR 0x0D then None
      else if c = CHR 0x5C
        then (if d = CHR 0x0A \<or> d = CHR 0x0D then None
              else map_option (\<lambda>(body, rest). (c # d # body, rest)) (readQuoted s))
      else map_option (\<lambda>(body, rest). (c # body, rest)) (readQuoted (d # s)))"

text \<open>A decimal numeral of the language: no leading zero before another digit.\<close>

definition isNumeral :: "string \<Rightarrow> bool" where
  "isNumeral e =
     (decimalShape e \<and> (length (takeWhile isDigit e) \<le> 1 \<or> hd e \<noteq> CHR ''0''))"

definition readExpression :: "string \<Rightarrow> (string \<times> string) option" where
  "readExpression s =
     (if prefix [CHR 0x27] s
      then map_option (\<lambda>(body, rest). (CHR 0x27 # body @ [CHR 0x27], rest)) (readQuoted (tl s))
      else (let e = takeWhile (\<lambda>c. c \<noteq> CHR '';'') s;
                u = (if prefix ''-'' e then tl e else e)
            in if u = ''Infinity'' \<or> isNumeral u
               then Some (e, dropWhile (\<lambda>c. c \<noteq> CHR '';'') s)
               else None))"

text \<open>One entry of the object \<open>traits\<close>: its key, its method and what the method returns.\<close>

definition readEntry :: "string \<Rightarrow> ((string \<times> TraitType \<times> string) \<times> string) option" where
  \<open>readEntry s0 =
     Option.bind (expect ''    "'' s0) (\<lambda>s1.
     Option.bind (readKey s1) (\<lambda>(key, s2).
     Option.bind (expect ('': {'' @ [CHR 0x0A] @ ''      '') s2) (\<lambda>s3.
     Option.bind (readType s3) (\<lambda>(traitType, s4).
     Option.bind (expect (''() {'' @ [CHR 0x0A] @ ''        return '') s4) (\<lambda>s5.
     Option.bind (readExpression s5) (\<lambda>(e, s6).
     Option.bind (expect ('';'' @ [CHR 0x0A] @ ''      }'' @ [CHR 0x0A] @ ''    },'' @ [CHR 0x0A]) s6)
       (\<lambda>s7. Some ((key, traitType, e), s7))))))))\<close>

text \<open>
  The entries, as long as the text goes on with the opening of a key. The first
  argument bounds their number.
\<close>

fun readEntries :: "nat \<Rightarrow> string \<Rightarrow> ((string \<times> TraitType \<times> string) list \<times> string) option" where
  "readEntries 0 s = None"
| \<open>readEntries (Suc n) s =
     (if prefix ''    "'' s
      then Option.bind (readEntry s) (\<lambda>(entry, rest).
           map_option (\<lambda>(es, after). (entry # es, after)) (readEntries n rest))
      else Some ([], s))\<close>

definition fragmentEnd :: string where
  "fragmentEnd =
     ''  },'' @ [CHR 0x0A] @
     ''  metadata(key) {'' @ [CHR 0x0A] @
     ''    return this.traits[key];'' @ [CHR 0x0A] @
     ''  },'' @ [CHR 0x0A] @
     ''  useToken(tokenId) {'' @ [CHR 0x0A] @
     ''    console.log('' @ [CHR 0x27] @ ''Using token'' @ [CHR 0x27] @ '', tokenId);'' @
     [CHR 0x0A] @
     ''    return this;'' @ [CHR 0x0A] @
     ''  }'' @ [CHR 0x0A] @
     ''};'' @ [CHR 0x0A]"

text \<open>
  The whole fragment: the name of the object, the metadata source of the
  comment, and the entries. An object literal may hold the key \<open>__proto__\<close> once
  only.
\<close>

definition lineChar :: "char \<Rightarrow> bool" where
  "lineChar c = (c \<noteq> CHR 0x0A \<and> c \<noteq> CHR 0x0D)"

definition readFragment ::
  "string \<Rightarrow> (string \<times> string \<times> (string \<times> TraitType \<times> string) list) option" where
  "readFragment s0 =
     Option.bind (expect ''const '' s0) (\<lambda>s1.
     Option.bind (readName s1) (\<lambda>(name, s2).
     Option.bind (expect ('' = {'' @ [CHR 0x0A] @ ''  // Metadata source: '') s2) (\<lambda>s3.
     Option.bind (expect ([CHR 0x0A] @ ''  traits: {'' @ [CHR 0x0A]) (dropWhile lineChar s3)) (\<lambda>s4.
     Option.bind (readEntries (length s4) s4) (\<lambda>(es, s5).
       if s5 = fragmentEnd \<and> length (filter (\<lambda>(key, _). key = ''__proto__'') es) \<le> 1
       then Some (name, takeWhile lineChar s3, es)
       else None)))))"

text \<open>
  What \<open>name.metadata(key).traitType()\<close> returns in the object that the
  fragment declares. Of two entries with one key the later one stands. The call
  fails when no entry has the key, or when the entry has a method of another
  name.
\<close>

definition callTrait :: "(string \<times> TraitType \<times> string) list \<Rightarrow> string \<Rightarrow> TraitType \<Rightarrow> string option" where
  "callTrait es key traitType =
     (case filter (\<lambda>(k, _). k = key) es of
        [] \<Rightarrow> None
      | found \<Rightarrow> (case last found of (_, t, e) \<Rightarrow> if t = traitType then Some e else None))"

text \<open>The key of a trait as \<open>generateCode\<close> writes it: \<open>trait.key || ''\<close> in a template.\<close>

definition keyText :: "(real \<Rightarrow> string) \<Rightarrow> Trait \<Rightarrow> string" where
  "keyText nts trait = toString nts (orElse (t_key trait) (VStr []))"

section \<open>Sample sketches\<close>

text \<open>
  The trees \<open>acorn.parse\<close> builds for a few small sketches, used to run the
  program on concrete inputs. Positions are the line (from 1) and the column
  (from 0) where a node starts.
\<close>

definition pos :: "nat \<Rightarrow> nat \<Rightarrow> SourceLocation" where
  "pos l c = \<lparr>line = l, column = c\<rparr>"

text \<open>
  \<^verbatim>\<open>const A = FormaCollection("0xAA");\<close> on line \<open>l\<close>, with \<open>k = 6\<close> the column of
  \<open>A\<close>; after \<open>var\<close> the column is 4.
\<close>

definition declare_A :: "nat \<Rightarrow> nat \<Rightarrow> string \<Rightarrow> node" where
  \<open>declare_A l k addr =
     Other (pos l 0) ''VariableDeclaration''
       [VariableDeclarator (pos l k) (Identifier (pos l k) ''A'')
          (Some (CallExpression (pos l (k + 4)) (Identifier (pos l (k + 4)) ''FormaCollection'')
             [Literal (pos l (k + 20)) (VStr addr)]))]\<close>

text \<open>\<^verbatim>\<open>A.metadata("Color").asString();\<close> on line \<open>l\<close>, and the same with another key.\<close>

definition trait_A :: "nat \<Rightarrow> string \<Rightarrow> node" where
  \<open>trait_A l k =
     Other (pos l 0) ''ExpressionStatement''
       [CallExpression (pos l 0)
          (MemberExpression (pos l 0)
             (CallExpression (pos l 0)
                (MemberExpression (pos l 0) (Identifier (pos l 0) ''A'')
                   (Identifier (pos l 2) ''metadata'') False)
                [Literal (pos l 11) (VStr k)])
             (Identifier (pos l (15 + length k)) ''asString'') False)
          []]\<close>

text \<open>\<^verbatim>\<open>A.useToken(arg);\<close> at line \<open>l\<close> and column \<open>c\<close>.\<close>

definition use_token :: "nat \<Rightarrow> nat \<Rightarrow> node \<Rightarrow> node" where
  \<open>use_token l c arg =
     Other (pos l c) ''ExpressionStatement''
       [CallExpression (pos l c)
          (MemberExpression (pos l c) (Identifier (pos l c) ''A'')
             (Identifier (pos l (c + 2)) ''useToken'') False)
          [arg]]\<close>

text \<open>\<^verbatim>\<open>function setup() { body }\<close> on line \<open>l\<close>.\<close>

definition setup_function :: "nat \<Rightarrow> node list \<Rightarrow> node" where
  \<open>setup_function l body =
     FunctionDeclaration (pos l 0) (Some (Identifier (pos l 9) ''setup'')) []
       (Other (pos l 17) ''BlockStatement'' body)\<close>

text \<open>
  Sketch A:
  \<^verbatim>\<open>const A = FormaCollection("0xAA");\<close>
  \<^verbatim>\<open>A.metadata("Color").asString();\<close>
  \<^verbatim>\<open>function setup() { A.useToken(3); }\<close>
\<close>

definition sketch_A :: string where
  \<open>sketch_A = ''const A = FormaCollection("0xAA");'' @ [CHR 0x0A] @
               ''A.metadata("Color").asString();'' @ [CHR 0x0A] @
               ''function setup() { A.useToken(3); }''\<close>

definition ast_A :: node where
  \<open>ast_A = Other (pos 1 0) ''Program''
     [declare_A 1 6 ''0xAA'', trait_A 2 ''Color'',
      setup_function 3 [use_token 3 19 (Literal (pos 3 30) (VNum (Finite 3)))]]\<close>

text \<open>
  Sketch B:
  \<^verbatim>\<open>const A = FormaCollection("0xAA");\<close>
  \<^verbatim>\<open>function setup() { A.useToken(x); A.useToken(3.5); A.useToken(); A["useToken"](3); }\<close>
  \<^verbatim>\<open>A.useToken(7);\<close>
\<close>

definition sketch_B :: string where
  \<open>sketch_B = ''const A = FormaCollection("0xAA");'' @ [CHR 0x0A] @
               ''function setup() { A.useToken(x); A.useToken(3.5); A.useToken(); A["useToken"](3); }'' @
               [CHR 0x0A] @
               ''A.useToken(7);''\<close>

definition ast_B :: node where
  \<open>ast_B = Other (pos 1 0) ''Program''
     [declare_A 1 6 ''0xAA'',
      setup_function 2
        [use_token 2 19 (Identifier (pos 2 30) ''x''),
         use_token 2 34 (Literal (pos 2 45) (VNum (Finite (7 / 2)))),
         Other (pos 2 51) ''ExpressionStatement''
           [CallExpression (pos 2 51)
              (MemberExpression (pos 2 51) (Identifier (pos 2 51) ''A'')
                 (Identifier (pos 2 53) ''useToken'') False)
              []],
         Other (pos 2 65) ''ExpressionStatement''
           [CallExpression (pos 2 65)
              (MemberExpression (pos 2 65) (Identifier (pos 2 65) ''A'')
                 (Literal (pos 2 67) (VStr ''useToken'')) True)
              [Literal (pos 2 79) (VNum (Finite 3))]]],
      use_token 3 0 (Literal (pos 3 11) (VNum (Finite 7)))]\<close>

text \<open>
  Sketch C:
  \<^verbatim>\<open>var A = FormaCollection("0xAA");\<close>
  \<^verbatim>\<open>var A = FormaCollection("0xBB");\<close>
\<close>

definition sketch_C :: string where
  \<open>sketch_C = ''var A = FormaCollection("0xAA");'' @ [CHR 0x0A] @
               ''var A = FormaCollection("0xBB");''\<close>

definition ast_C :: node where
  \<open>ast_C = Other (pos 1 0) ''Program'' [declare_A 1 4 ''0xAA'', declare_A 2 4 ''0xBB'']\<close>

text \<open>
  Sketch D:
  \<^verbatim>\<open>const A = FormaCollection("0xAA");\<close>
  \<^verbatim>\<open>A.metadata("Color").asString();\<close>
  \<^verbatim>\<open>A.metadata("Color").asString();\<close>
\<close>

definition sketch_D :: string where
  \<open>sketch_D = ''const A = FormaCollection("0xAA");'' @ [CHR 0x0A] @
               ''A.metadata("Color").asString();'' @ [CHR 0x0A] @
               ''A.metadata("Color").asString();''\<close>

definition ast_D :: node where
  \<open>ast_D = Other (pos 1 0) ''Program''
     [declare_A 1 6 ''0xAA'', trait_A 2 ''Color'', trait_A 3 ''Color'']\<close>

text \<open>
  Sketch E:
  \<^verbatim>\<open>const A = FormaCollection("0xAA");\<close>
  \<^verbatim>\<open>A.metadata("%ID_MAPPING%").asString();\<close>
\<close>

definition sketch_E :: string where
  \<open>sketch_E = ''const A = FormaCollection("0xAA");'' @ [CHR 0x0A] @
               ''A.metadata("%ID_MAPPING%").asString();''\<close>

definition ast_E :: node where
  \<open>ast_E = Other (pos 1 0) ''Program'' [declare_A 1 6 ''0xAA'', trait_A 2 ''%ID_MAPPING%'']\<close>

text \<open>
  Sketch F:
  \<^verbatim>\<open>const B = FormaCollection("0xBB");\<close>
  \<^verbatim>\<open>const n = 5, A = FormaCollection(f(1));\<close>
\<close>

definition sketch_F :: string where
  \<open>sketch_F = ''const B = FormaCollection("0xBB");'' @ [CHR 0x0A] @
               ''const n = 5, A = FormaCollection(f(1));''\<close>

definition ast_F :: node where
  \<open>ast_F = Other (pos 1 0) ''Program''
     [Other (pos 1 0) ''VariableDeclaration''
        [VariableDeclarator (pos 1 6) (Identifier (pos 1 6) ''B'')
           (Some (CallExpression (pos 1 10) (Identifier (pos 1 10) ''FormaCollection'')
              [Literal (pos 1 26) (VStr ''0xBB'')]))],
      Other (pos 2 0) ''VariableDeclaration''
        [VariableDeclarator (pos 2 6) (Identifier (pos 2 6) ''n'')
           (Some (Literal (pos 2 10) (VNum (Finite 5)))),
         VariableDeclarator (pos 2 13) (Identifier (pos 2 13) ''A'')
           (Some (CallExpression (pos 2 17) (Identifier (pos 2 17) ''FormaCollection'')
              [CallExpression (pos 2 33) (Identifier (pos 2 33) ''f'')
                 [Literal (pos 2 35) (VNum (Finite 1))]]))]]\<close>

text \<open>
  Sketch G:
  \<^verbatim>\<open>const A = FormaCollection("0xAA");\<close>
  \<^verbatim>\<open>A.metadata(/x/).asInt();\<close>
  \<^verbatim>\<open>A.metadata(/x/).asInt();\<close>
\<close>

definition regexp_trait :: "nat \<Rightarrow> node" where
  \<open>regexp_trait l =
     Other (pos l 0) ''ExpressionStatement''
       [CallExpression (pos l 0)
          (MemberExpression (pos l 0)
             (CallExpression (pos l 0)
                (MemberExpression (pos l 0) (Identifier (pos l 0) ''A'')
                   (Identifier (pos l 2) ''metadata'') False)
                [Literal (pos l 11) (VRegExp ''/x/'')])
             (Identifier (pos l 16) ''asInt'') False)
          []]\<close>

definition sketch_G :: string where
  \<open>sketch_G = ''const A = FormaCollection("0xAA");'' @ [CHR 0x0A] @
               ''A.metadata(/x/).asInt();'' @ [CHR 0x0A] @
               ''A.metadata(/x/).asInt();''\<close>

definition ast_G :: node where
  \<open>ast_G = Other (pos 1 0) ''Program''
     [declare_A 1 6 ''0xAA'', regexp_trait 2, regexp_trait 3]\<close>

text \<open>
  A text that does not parse: \<^verbatim>\<open>function setup( {\<close>. The brace opens a
  parameter pattern, and the parser fails at the end of the text.
\<close>

definition sketch_broken :: string where
  \<open>sketch_broken = ''function setup( {''\<close>

text \<open>
  \<open>acorn_sample\<close> gives each sample text its tree and stands for a syntax error
  on any other text.
\<close>

definition acorn_sample :: "string \<Rightarrow> string + node" where
  \<open>acorn_sample code =
     (if code = sketch_A then Inr ast_A
      else if code = sketch_B then Inr ast_B
      else if code = sketch_C then Inr ast_C
      else if code = sketch_D then Inr ast_D
      else if code = sketch_E then Inr ast_E
      else if code = sketch_F then Inr ast_F
      else if code = sketch_G then Inr ast_G
      else Inl ''Unexpected token (1:17)'')\<close>

text \<open>
  Stand-ins for what is not in the sources: the preparation of the sketch text,
  its compression into chunks (one chunk of base64 text), and the way the
  runtime prints a number that is not integral.
\<close>

definition sample_process :: "string \<Rightarrow> string" where
  "sample_process text = text"

definition sample_compress :: "string \<Rightarrow> nat \<Rightarrow> string list" where
  "sample_compress text n = [''Y29uc3QgQSA9IEZvcm1h'']"

definition sample_nts :: "real \<Rightarrow> string" where
  "sample_nts x = ''0.5''"

text \<open>
  A template with the placeholders of the repository's template, in its order
  and with the characters that follow them there, and an excerpt of it.
\<close>

definition sample_pieces :: "piece list" where
  \<open>sample_pieces =
     [Text (''contract NFTCollection {'' @ [CHR 0x0A]),
      Hole ''%COLLECTION_CONTRACTS%'', Text [CHR 0x0A, CHR 0x0A],
      Hole ''%COLLECTION_CODE%'', Text [CHR 0x0A, CHR 0x0A],
      Hole ''%CHUNKS%'', Text ([CHR 0x0A, CHR 0x0A] @ ''constructor() {'' @ [CHR 0x0A]),
      Hole ''%COLLECTION_TRAITS%'',
      Text ([CHR 0x0A] @ ''}'' @ [CHR 0x0A, CHR 0x0A] @
            ''function mint(address _to, uint256[] memory _tokenIds) external {'' @ [CHR 0x0A]),
      Hole ''%ID_MAPPING%'', Text [CHR 0x0A],
      Hole ''%REQUIRED_MINT_CODE%'', Text [CHR 0x0A],
      Hole ''%METADATA_EXP%'', Text [CHR 0x0A],
      Hole ''%TRAIT_JS%'', Text [CHR 0x0A],
      Hole ''%TRAIT_BASE64%'', Text [CHR 0x0A, CHR 0x0A],
      Hole ''%ATTRIBUTES%'', Text [CHR 0x0A, CHR 0x0A],
      Hole ''%CEMENT_METADATA_CODE%'',
      Text ([CHR 0x0A] @ ''}'' @ [CHR 0x0A, CHR 0x0A] @
            ''function _getP5Base() internal view returns (string memory) {'' @ [CHR 0x0A] @
            ''return string(abi.encodePacked(''),
      Hole ''%P5_LS%'', Text (''));'' @ [CHR 0x0A] @ ''}'' @ [CHR 0x0A] @ ''}'' @ [CHR 0x0A])]\<close>

definition excerpt_pieces :: "piece list" where
  \<open>excerpt_pieces =
     [Text (''constructor() {'' @ [CHR 0x0A]),
      Hole ''%COLLECTION_TRAITS%'',
      Text ([CHR 0x0A] @ ''}'' @ [CHR 0x0A] @ ''function mint() {'' @ [CHR 0x0A]),
      Hole ''%ID_MAPPING%'',
      Text ([CHR 0x0A] @ ''}'' @ [CHR 0x0A])]\<close>

text \<open>
  Stand-ins for the runtime and the network: a rounding that leaves the small
  numbers of the samples as they are, the methods of \<open>Array.prototype\<close> that
  every version of the runtime has, and a network that is out of reach.
\<close>

definition sample_double :: "real \<Rightarrow> real option" where
  "sample_double x = (if \<bar>x\<bar> < 2 ^ 53 then Some x else None)"

definition sample_arrayMethods :: "string list" where
  "sample_arrayMethods = [''concat'', ''join'', ''pop'', ''push'', ''reverse'', ''shift'',
     ''slice'', ''sort'', ''splice'', ''toLocaleString'', ''toString'', ''unshift'']"

definition sample_retrieve :: "jsvalue \<Rightarrow> jsnumber \<Rightarrow> error + MetadataResult" where
  "sample_retrieve address tokenId = Inl (Error ''network unreachable'')"

text \<open>
  The collection and the data of sketch A when \<open>FormaCollection\<close> is called
  without an address.
\<close>

definition unaddressed_A :: Collection where
  "unaddressed_A =
     \<lparr>c_name = Some ''A'', c_address = VNull, c_sourceLocation = Some (pos 1 6)\<rparr>"

definition unaddressed_data :: TraitData where
  "unaddressed_data =
     \<lparr>d_collection = Some ''A'', d_address = VNull,
      d_traits = [\<lparr>t_collection = Some ''A'', t_key = VStr ''Color'', t_type = asString,
                   t_sourceLocation = Some (pos 2 0)\<rparr>,
                  \<lparr>t_collection = Some ''A'', t_key = VStr ''Size'', t_type = asInt,
                   t_sourceLocation = Some (pos 3 0)\<rparr>],
      d_tokenIndexes = [Finite 3]\<rparr>"

text \<open>
  The data of a sketch that calls \<open>A.metadata('a"b').asInt()\<close>, and of one that
  calls \<open>A.metadata("k").asInt()\<close> and \<open>A.metadata("k").asString()\<close>, when
  \<open>FormaCollection\<close> is called without an address.
\<close>

definition quoted_key_data :: TraitData where
  "quoted_key_data =
     \<lparr>d_collection = Some ''A'', d_address = VNull,
      d_traits = [\<lparr>t_collection = Some ''A'', t_key = VStr [CHR ''a'', CHR 0x22, CHR ''b''],
                   t_type = asInt, t_sourceLocation = Some (pos 2 0)\<rparr>],
      d_tokenIndexes = []\<rparr>"

definition shared_key_data :: TraitData where
  "shared_key_data =
     \<lparr>d_collection = Some ''A'', d_address = VNull,
      d_traits = [\<lparr>t_collection = Some ''A'', t_key = VStr ''k'', t_type = asInt,
                   t_sourceLocation = Some (pos 2 0)\<rparr>,
                  \<lparr>t_collection = Some ''A'', t_key = VStr ''k'', t_type = asString,
                   t_sourceLocation = Some (pos 3 0)\<rparr>],
      d_tokenIndexes = []\<rparr>"

text \<open>The code that is generated for these two.\<close>

definition quoted_key_code :: string where
  \<open>quoted_key_code =
     ''const A = {'' @ [CHR 0x0A] @
     ''  // Metadata source: unknown'' @ [CHR 0x0A] @
     ''  traits: {'' @ [CHR 0x0A] @
     ''    "a"b": {'' @ [CHR 0x0A] @
     ''      asInt() {'' @ [CHR 0x0A] @
     ''        return 0;'' @ [CHR 0x0A] @
     ''      }'' @ [CHR 0x0A] @
     ''    },'' @ [CHR 0x0A] @
     fragmentEnd\<close>

definition shared_key_code :: string where
  \<open>shared_key_code =
     ''const A = {'' @ [CHR 0x0A] @
     ''  // Metadata source: unknown'' @ [CHR 0x0A] @
     ''  traits: {'' @ [CHR 0x0A] @
     ''    "k": {'' @ [CHR 0x0A] @
     ''      asInt() {'' @ [CHR 0x0A] @
     ''        return 0;'' @ [CHR 0x0A] @
     ''      }'' @ [CHR 0x0A] @
     ''    },'' @ [CHR 0x0A] @
     ''    "k": {'' @ [CHR 0x0A] @
     ''      asString() {'' @ [CHR 0x0A] @
     ''        return '' @ [CHR 0x27, CHR 0x27] @ '';'' @ [CHR 0x0A] @
     ''      }'' @ [CHR 0x0A] @
     ''    },'' @ [CHR 0x0A] @
     fragmentEnd\<close>

text \<open>
  The data of sketch A with an address and two uses of a token, and the code
  that is generated for sketch A without an address.
\<close>

definition addressed_data :: TraitData where
  "addressed_data =
     \<lparr>d_collection = Some ''A'', d_address = VStr ''0xAA'',
      d_traits = [\<lparr>t_collection = Some ''A'', t_key = VStr ''Color'', t_type = asString,
                   t_sourceLocation = Some (pos 2 0)\<rparr>],
      d_tokenIndexes = [Finite 7, Finite 3]\<rparr>"

definition unaddressed_code :: string where
  \<open>unaddressed_code =
     ''const A = {'' @ [CHR 0x0A] @
     ''  // Metadata source: unknown'' @ [CHR 0x0A] @
     ''  traits: {'' @ [CHR 0x0A] @
     ''    "Color": {'' @ [CHR 0x0A] @
     ''      asString() {'' @ [CHR 0x0A] @
     ''        return '' @ [CHR 0x27, CHR 0x27] @ '';'' @ [CHR 0x0A] @
     ''      }'' @ [CHR 0x0A] @
     ''    },'' @ [CHR 0x0A] @
     ''    "Size": {'' @ [CHR 0x0A] @
     ''      asInt() {'' @ [CHR 0x0A] @
     ''        return 0;'' @ [CHR 0x0A] @
     ''      }'' @ [CHR 0x0A] @
     ''    },'' @ [CHR 0x0A] @
     fragmentEnd\<close>

section \<open>Properties of the analyzer\<close>

lemmas sample_defs =
  acorn_sample_def sketch_A_def sketch_B_def sketch_C_def sketch_D_def sketch_E_def
  sketch_F_def sketch_G_def sketch_broken_def ast_A_def ast_B_def ast_C_def ast_D_def
  ast_E_def ast_F_def ast_G_def declare_A_def trait_A_def regexp_trait_def use_token_def
  setup_function_def pos_def

lemmas analyzer_defs =
  analyze_def runPasses_def andThen_def walked_def stackOverflow_def parseCode_def reset_def
  newAnalyzer_def extractCollections_def extractTraits_def
  extractTokenUsages_def validateData_def resultOf_def visitVariableDeclarator_def
  visitTraitCall_def visitUseTokenCall_def findSetup_def isDuplicateTrait_def sameTriple_def
  collectionExists_def addIssue_def groupTraitsByCollection_def map_ensure_def addressOf_def
  traitTypeOf_def Let_def

lemma reset_eq: "reset this = newAnalyzer"
  by (cases this) (simp add: reset_def newAnalyzer_def)

lemma groupTraitsByCollection_empty: "groupTraitsByCollection newAnalyzer = []"
  by (simp add: groupTraitsByCollection_def newAnalyzer_def)

text \<open>
  C4. \<open>analyze\<close> returns a result for every source text and never throws. When
  the text does not parse, the result holds exactly one issue, of severity
  \<open>error\<close>, and no collection, trait, data entry or token index.
\<close>

theorem analyze_never_throws:
  "(\<exists>r. fst (analyze parse stack code this) = Inr r) \<and>
   (\<forall>m. parse code = Inl m \<longrightarrow>
      fst (analyze parse stack code this) =
        Inr \<lparr>r_collections = [], r_traits = [], r_data = [],
             r_issues = [\<lparr>i_type = error,
                          i_message = ''Analysis failed: Failed to parse code: '' @ m,
                          i_location = None\<rparr>],
             r_tokenIndexes = []\<rparr>)"
proof
  obtain outcome s where "runPasses parse stack code (reset this) = (outcome, s)"
    by (cases "runPasses parse stack code (reset this)")
  then show "\<exists>r. fst (analyze parse stack code this) = Inr r"
    by (cases outcome) (simp_all add: analyze_def Let_def)
next
  show "\<forall>m. parse code = Inl m \<longrightarrow>
      fst (analyze parse stack code this) =
        Inr \<lparr>r_collections = [], r_traits = [], r_data = [],
             r_issues = [\<lparr>i_type = error,
                          i_message = ''Analysis failed: Failed to parse code: '' @ m,
                          i_location = None\<rparr>],
             r_tokenIndexes = []\<rparr>"
    by (simp add: analyze_def runPasses_def parseCode_def Let_def reset_eq addIssue_def
        resultOf_def newAnalyzer_def groupTraitsByCollection_def)
qed

theorem analyze_never_throws_witness:
  "acorn_sample sketch_broken = Inl ''Unexpected token (1:17)'' \<and>
   fst (analyze acorn_sample 16 sketch_broken newAnalyzer) =
     Inr \<lparr>r_collections = [], r_traits = [], r_data = [],
          r_issues = [\<lparr>i_type = error,
                       i_message = ''Analysis failed: Failed to parse code: Unexpected token (1:17)'',
                       i_location = None\<rparr>],
          r_tokenIndexes = []\<rparr>"
proof -
  have p: "acorn_sample sketch_broken = Inl ''Unexpected token (1:17)''"
    by (simp add: sample_defs)
  from analyze_never_throws [of acorn_sample 16 sketch_broken newAnalyzer] p
  show ?thesis by simp
qed


subsection \<open>The walk\<close>

lemma foldr_max_ge: "x \<in> set xs \<Longrightarrow> f x \<le> foldr max (map f xs) (0::nat)"
  by (induction xs) auto

lemma height_pos: "0 < height n"
  by (cases n) simp_all

lemma height_children: "c \<in> set (children n) \<Longrightarrow> height c < height n"
proof (cases n)
  case (CallExpression l callee args)
  then show "c \<in> set (children n) \<Longrightarrow> height c < height n"
    using foldr_max_ge [of c args height] by auto
next
  case (FunctionDeclaration l ident params body)
  then show "c \<in> set (children n) \<Longrightarrow> height c < height n"
    using foldr_max_ge [of c params height] by (auto split: option.splits)
next
  case (Other l kind nodes)
  then show "c \<in> set (children n) \<Longrightarrow> height c < height n"
    using foldr_max_ge [of c nodes height] by auto
qed (auto split: option.splits if_splits)

lemma visits_children: "visits n = concat (map visits (children n)) @ [n]"
  by (cases n) (auto split: option.splits)

lemma seqWalk_ended:
  "(\<And>c. c \<in> set cs \<Longrightarrow> w c = (visits c, True)) \<Longrightarrow>
   seqWalk w cs = (concat (map visits cs), True)"
  by (induction cs) simp_all

lemma walk_ended: "height n \<le> stack \<Longrightarrow> walk_simple stack n = (visits n, True)"
proof (induction stack arbitrary: n)
  case 0
  with height_pos [of n] show ?case by simp
next
  case (Suc stack)
  have "walk_simple stack c = (visits c, True)" if "c \<in> set (children n)" for c
    using height_children [OF that] Suc.prems by (intro Suc.IH) simp
  then have "seqWalk (walk_simple stack) (children n) = (concat (map visits (children n)), True)"
    by (rule seqWalk_ended)
  then show ?case by (simp add: visits_children [of n])
qed

lemma seqWalk_room:
  "(\<And>c vs. c \<in> set cs \<Longrightarrow> w c = (vs, True) \<Longrightarrow> height c \<le> d) \<Longrightarrow>
   seqWalk w cs = (vs, True) \<Longrightarrow> c \<in> set cs \<Longrightarrow> height c \<le> d"
proof (induction cs arbitrary: vs)
  case Nil
  then show ?case by simp
next
  case (Cons a cs)
  obtain va ea where a: "w a = (va, ea)" by (cases "w a")
  obtain vr er where r: "seqWalk w cs = (vr, er)" by (cases "seqWalk w cs")
  from Cons.prems(2) a r have ea: "ea" and er: "er"
    by (auto split: bool.splits)
  show ?case
  proof (cases "c = a")
    case True
    with a ea Cons.prems(1) [of a va] show ?thesis by simp
  next
    case False
    with Cons.prems(3) have "c \<in> set cs" by simp
    moreover have "seqWalk w cs = (vr, True)" using r er by simp
    ultimately show ?thesis using Cons.prems(1) by (intro Cons.IH [of vr]) auto
  qed
qed

lemma foldr_max_le: "(\<And>x. x \<in> set xs \<Longrightarrow> f x \<le> d) \<Longrightarrow> foldr max (map f xs) (0::nat) \<le> d"
  by (induction xs) auto

lemma height_le_children: "(\<And>c. c \<in> set (children n) \<Longrightarrow> height c \<le> d) \<Longrightarrow> height n \<le> Suc d"
  by (cases n) (auto intro!: foldr_max_le split: option.splits)

lemma walk_room: "walk_simple stack n = (vs, True) \<Longrightarrow> height n \<le> stack"
proof (induction stack arbitrary: n vs)
  case 0
  then show ?case by simp
next
  case (Suc stack)
  obtain ws e where s: "seqWalk (walk_simple stack) (children n) = (ws, e)"
    by (cases "seqWalk (walk_simple stack) (children n)")
  with Suc.prems have e: "e" by (auto split: bool.splits)
  have "height c \<le> stack" if "c \<in> set (children n)" for c
    using Suc.IH s e that by (intro seqWalk_room [of "children n" "walk_simple stack" stack ws c]) auto
  then show ?case by (rule height_le_children)
qed

lemma walk_fails: "\<not> height n \<le> stack \<Longrightarrow> snd (walk_simple stack n) = False"
  using walk_room [of stack n "fst (walk_simple stack n)"]
  by (cases "walk_simple stack n") auto

lemma height_visits: "m \<in> set (visits n) \<Longrightarrow> height m \<le> height n"
proof (induction "height n" arbitrary: n rule: less_induct)
  case less
  from less.prems have "m = n \<or> (\<exists>c \<in> set (children n). m \<in> set (visits c))"
    by (subst (asm) visits_children) auto
  then show ?case
  proof
    assume "m = n" then show ?thesis by simp
  next
    assume "\<exists>c \<in> set (children n). m \<in> set (visits c)"
    then obtain c where c: "c \<in> set (children n)" "m \<in> set (visits c)" by blast
    from less.hyps [OF height_children [OF c(1)] c(2)] height_children [OF c(1)]
    show ?thesis by simp
  qed
qed

lemma findSetup_mem: "findSetup ns = Some f \<Longrightarrow> f \<in> set ns"
proof -
  have "foldl (\<lambda>setupFunction n. if isSetup n then Some n else setupFunction) a xs = Some f \<Longrightarrow>
        a = Some f \<or> f \<in> set xs" for a xs
    by (induction xs arbitrary: a) (auto split: if_splits)
  from this [of None "filter isFunctionDeclaration ns"] show "findSetup ns = Some f \<Longrightarrow> f \<in> set ns"
    by (auto simp: findSetup_def)
qed

subsection \<open>What each pass changes\<close>

lemma addIssue_simps [simp]:
  "collections (addIssue i s) = collections s"
  "traits (addIssue i s) = traits s"
  "tokenIndexes (addIssue i s) = tokenIndexes s"
  "issues (addIssue i s) = issues s @ [i]"
  by (simp_all add: addIssue_def)

lemma collectionExists_addIssue [simp]: "collectionExists c (addIssue i s) = collectionExists c s"
  by (simp add: collectionExists_def)

lemma foldl_frame:
  assumes "\<And>s x. g (f s x) = g s"
  shows "g (foldl f s xs) = g s"
  by (induction xs arbitrary: s) (simp_all add: assms)

lemma createCollection_frame:
  "traits (snd (createCollection n s)) = traits s"
  "tokenIndexes (snd (createCollection n s)) = tokenIndexes s"
  "collections (snd (createCollection n s)) = collections s"
  by (cases "(n, s)" rule: createCollection.cases; simp add: Let_def)+

lemma createCollection_fst: "fst (createCollection n s) = collectionOf n"
  unfolding collectionOf_def
  by (cases "(n, s)" rule: createCollection.cases; simp add: Let_def)

lemma createCollection_issues:
  "isFormaCollectionCall n \<Longrightarrow>
   issues (snd (createCollection n s)) =
     issues s @ (if c_address (collectionOf n) = VNull
                 then [missingAddressWarning (collectionOf n)] else [])"
  unfolding collectionOf_def
  by (cases "(n, s)" rule: createCollection.cases;
      simp add: Let_def missingAddressWarning_def newAnalyzer_def)

lemma collectionOf_name: "isFormaCollectionCall n \<Longrightarrow> c_name (collectionOf n) = declaredName n"
  unfolding collectionOf_def
  by (cases "(n, newAnalyzer)" rule: createCollection.cases; simp add: Let_def)

lemma visitVariableDeclarator_frame:
  "traits (visitVariableDeclarator s n) = traits s"
  "tokenIndexes (visitVariableDeclarator s n) = tokenIndexes s"
  using createCollection_frame [of n s]
  by (auto simp add: visitVariableDeclarator_def split: prod.splits)

lemma visitVariableDeclarator_collections:
  "collections (visitVariableDeclarator s n) =
   collections s @ (if isFormaCollectionCall n then [collectionOf n] else [])"
  using createCollection_frame(3) [of n s] createCollection_fst [of n s]
  by (auto simp add: visitVariableDeclarator_def split: prod.splits)

lemma visitVariableDeclarator_issues:
  "issues (visitVariableDeclarator s n) =
   issues s @ (if isFormaCollectionCall n \<and> c_address (collectionOf n) = VNull
               then [missingAddressWarning (collectionOf n)] else [])"
  using createCollection_issues [of n s]
  by (auto simp add: visitVariableDeclarator_def split: prod.splits)

lemma foldl_visitVariableDeclarator_collections:
  "collections (foldl visitVariableDeclarator s ns) =
   collections s @ map collectionOf (filter isFormaCollectionCall ns)"
  by (induction ns arbitrary: s) (simp_all add: visitVariableDeclarator_collections)

lemma foldl_visitVariableDeclarator_issues:
  "issues (foldl visitVariableDeclarator s ns) =
   issues s @ map missingAddressWarning
                (filter (\<lambda>c. c_address c = VNull) (map collectionOf (filter isFormaCollectionCall ns)))"
  by (induction ns arbitrary: s) (simp_all add: visitVariableDeclarator_issues)

lemma isFormaCollectionCall_decl: "isFormaCollectionCall n \<Longrightarrow> isVariableDeclarator n"
  by (cases n rule: isFormaCollectionCall.cases) simp_all

lemma filter_forma:
  "filter isFormaCollectionCall (filter isVariableDeclarator ns) = filter isFormaCollectionCall ns"
  by (induction ns) (auto dest: isFormaCollectionCall_decl)

lemma extractCollections_snd:
  "snd (extractCollections stack ast s) =
     foldl visitVariableDeclarator s (filter isVariableDeclarator (fst (walk_simple stack ast)))"
  by (simp add: extractCollections_def split: prod.splits)

lemma extractCollections_frame:
  "traits (snd (extractCollections stack ast s)) = traits s"
  "tokenIndexes (snd (extractCollections stack ast s)) = tokenIndexes s"
  by (simp_all add: extractCollections_snd foldl_frame visitVariableDeclarator_frame)

lemma extractCollections_collections:
  "collections (snd (extractCollections stack ast s)) =
     collections s @ map collectionOf (filter isFormaCollectionCall (fst (walk_simple stack ast)))"
  by (simp only: extractCollections_snd foldl_visitVariableDeclarator_collections filter_forma)

lemma extractCollections_ended:
  "height ast \<le> stack \<Longrightarrow> extractCollections stack ast s = (Inr (), collectionsDone ast s)"
  by (simp add: extractCollections_def collectionsDone_def walk_ended walked_def)

lemma collectionsDone_collections:
  "collections (collectionsDone ast s) = collections s @ map collectionOf (formaDeclarators ast)"
  by (simp add: collectionsDone_def extractCollections_collections walk_ended formaDeclarators_def)

lemma collectionsDone_issues:
  "issues (collectionsDone ast s) =
     issues s @ map missingAddressWarning
                  (filter (\<lambda>c. c_address c = VNull) (map collectionOf (formaDeclarators ast)))"
  by (simp only: collectionsDone_def extractCollections_snd foldl_visitVariableDeclarator_issues
      filter_forma formaDeclarators_def walk_ended [OF order_refl] fst_conv)

lemma collectionsDone_frame:
  "traits (collectionsDone ast s) = traits s"
  "tokenIndexes (collectionsDone ast s) = tokenIndexes s"
  by (simp_all add: collectionsDone_def extractCollections_frame)

lemma extractTrait_frame:
  "collections (snd (extractTrait n s)) = collections s"
  "traits (snd (extractTrait n s)) = traits s"
  "tokenIndexes (snd (extractTrait n s)) = tokenIndexes s"
  by (cases "(n, s)" rule: extractTrait.cases; simp add: Let_def split: node.splits)+

lemma extractTrait_fst: "fst (extractTrait n s) = declaredTrait n"
  unfolding declaredTrait_def
  by (cases "(n, s)" rule: extractTrait.cases; simp add: Let_def split: node.splits)

lemma extractTrait_issues:
  "issues (snd (extractTrait n s)) =
     issues s @ (case declaredTrait n of
                   None \<Rightarrow> []
                 | Some t \<Rightarrow> if t_key t = VNull then [missingKeyWarning t] else [])"
  unfolding declaredTrait_def
  by (cases "(n, s)" rule: extractTrait.cases;
      simp add: Let_def missingKeyWarning_def newAnalyzer_def split: node.splits)

lemma visitTraitCall_frame:
  "collections (visitTraitCall s n) = collections s"
  "tokenIndexes (visitTraitCall s n) = tokenIndexes s"
  using extractTrait_frame [of n s]
  by (auto simp add: visitTraitCall_def split: prod.splits option.splits)

lemma visitTraitCall_traits:
  "traits (visitTraitCall s n) =
     (case declaredTrait n of None \<Rightarrow> traits s | Some t \<Rightarrow> pushUnique (traits s) t)"
  using extractTrait_fst [of n s] extractTrait_frame(2) [of n s]
  by (auto simp add: visitTraitCall_def pushUnique_def isDuplicateTrait_def
      split: prod.splits option.splits)

lemma visitTraitCall_issues:
  "issues (visitTraitCall s n) =
     issues s @ (case declaredTrait n of
                   None \<Rightarrow> []
                 | Some t \<Rightarrow> if t_key t = VNull then [missingKeyWarning t] else [])"
  using extractTrait_issues [of n s] extractTrait_fst [of n s]
  by (auto simp add: visitTraitCall_def split: prod.splits option.splits)

lemma foldl_visitTraitCall_traits:
  "traits (foldl visitTraitCall s ns) = foldl pushUnique (traits s) (List.map_filter declaredTrait ns)"
  by (induction ns arbitrary: s) (simp_all add: visitTraitCall_traits split: option.splits)

lemma foldl_visitTraitCall_issues:
  "issues (foldl visitTraitCall s ns) =
     issues s @ map missingKeyWarning
                  (filter (\<lambda>t. t_key t = VNull) (List.map_filter declaredTrait ns))"
  by (induction ns arbitrary: s) (simp_all add: visitTraitCall_issues split: option.splits)

lemma extractTraits_snd:
  "snd (extractTraits stack ast s) =
     foldl visitTraitCall s (filter isCallExpression (fst (walk_simple stack ast)))"
  by (simp add: extractTraits_def split: prod.splits)

lemma extractTraits_frame:
  "collections (snd (extractTraits stack ast s)) = collections s"
  "tokenIndexes (snd (extractTraits stack ast s)) = tokenIndexes s"
  by (simp_all add: extractTraits_snd foldl_frame visitTraitCall_frame)

lemma extractTraits_ended:
  "height ast \<le> stack \<Longrightarrow> extractTraits stack ast s = (Inr (), traitsDone ast s)"
  by (simp add: extractTraits_def traitsDone_def walk_ended walked_def)

lemma traitsDone_traits:
  "traits (traitsDone ast s) = foldl pushUnique (traits s) (declaredTraits ast)"
  by (simp add: traitsDone_def extractTraits_snd walk_ended declaredTraits_def
      foldl_visitTraitCall_traits)

lemma traitsDone_issues:
  "issues (traitsDone ast s) =
     issues s @ map missingKeyWarning (filter (\<lambda>t. t_key t = VNull) (declaredTraits ast))"
  by (simp add: traitsDone_def extractTraits_snd walk_ended declaredTraits_def
      foldl_visitTraitCall_issues)

lemma traitsDone_frame:
  "collections (traitsDone ast s) = collections s"
  "tokenIndexes (traitsDone ast s) = tokenIndexes s"
  by (simp_all add: traitsDone_def extractTraits_frame)

lemma extractTokenIndex_frame:
  "collections (snd (extractTokenIndex n s)) = collections s"
  "traits (snd (extractTokenIndex n s)) = traits s"
  "tokenIndexes (snd (extractTokenIndex n s)) = tokenIndexes s"
  by (cases "(n, s)" rule: extractTokenIndex.cases; simp add: Let_def split: option.splits)+

lemma extractTokenIndex_result:
  assumes u: "isUseTokenCall n"
  shows "fst (extractTokenIndex n s) = tokenIndexOf n"
proof (cases n rule: isUseTokenCall.cases)
  case (1 l l1 ob pr c ars)
  with u obtain a as where ars: "ars = a # as"
    by (cases ars) auto
  show ?thesis
    by (cases a rule: extractTokenId.cases) (simp_all add: 1 ars Let_def)
qed (use u in simp_all)

lemma extractTokenIndex_issues:
  assumes u: "isUseTokenCall n"
  shows "issues (snd (extractTokenIndex n s)) = issues s @ useTokenIssues (collections s) n"
proof (cases n rule: isUseTokenCall.cases)
  case (1 l l1 ob pr c ars)
  with u obtain a as where ars: "ars = a # as"
    by (cases ars) auto
  show ?thesis
    by (cases a rule: extractTokenId.cases)
       (simp_all add: 1 ars Let_def useTokenIssues_def nonNumericWarning_def
          unknownCollectionWarning_def collectionExists_def)
qed (use u in simp_all)

lemma visitUseTokenCall_frame:
  "collections (visitUseTokenCall s n) = collections s"
  "traits (visitUseTokenCall s n) = traits s"
  using extractTokenIndex_frame [of n s]
  by (auto simp add: visitUseTokenCall_def split: prod.splits option.splits)

lemma visitUseTokenCall_tokenIndexes:
  "tokenIndexes (visitUseTokenCall s n) =
   tokenIndexes s @ (if isUseTokenCall n then (case tokenIndexOf n of None \<Rightarrow> [] | Some t \<Rightarrow> [t]) else [])"
  using extractTokenIndex_result [of n s] extractTokenIndex_frame(3) [of n s]
  by (auto simp add: visitUseTokenCall_def split: prod.splits option.splits)

lemma visitUseTokenCall_issues:
  "issues (visitUseTokenCall s n) =
   issues s @ (if isUseTokenCall n then useTokenIssues (collections s) n else [])"
  using extractTokenIndex_issues [of n s]
  by (auto simp add: visitUseTokenCall_def split: prod.splits option.splits)

lemma foldl_visitUseTokenCall_tokenIndexes:
  "tokenIndexes (foldl visitUseTokenCall s ns) =
   tokenIndexes s @ List.map_filter tokenIndexOf (filter isUseTokenCall ns)"
  by (induction ns arbitrary: s)
     (simp_all add: visitUseTokenCall_tokenIndexes split: option.splits)

lemma foldl_visitUseTokenCall_issues:
  "issues (foldl visitUseTokenCall s ns) =
   issues s @ concat (map (useTokenIssues (collections s)) (filter isUseTokenCall ns))"
  by (induction ns arbitrary: s)
     (simp_all add: visitUseTokenCall_issues visitUseTokenCall_frame)

lemma isUseTokenCall_call: "isUseTokenCall n \<Longrightarrow> isCallExpression n"
  by (cases n rule: isUseTokenCall.cases) simp_all

lemma filter_useToken:
  "filter isUseTokenCall (filter isCallExpression ns) = filter isUseTokenCall ns"
  by (induction ns) (auto dest: isUseTokenCall_call)

lemma extractTokenUsages_frame:
  "collections (snd (extractTokenUsages stack ast s)) = collections s"
  "traits (snd (extractTokenUsages stack ast s)) = traits s"
  by (auto simp add: extractTokenUsages_def visitUseTokenCall_frame foldl_frame
      split: prod.splits bool.splits option.splits)

lemma tokensDone_eq:
  "tokensDone ast s =
     (case findSetup (visits ast) of
        None \<Rightarrow> s
      | Some f \<Rightarrow> foldl visitUseTokenCall s (filter isCallExpression (visits f)))"
proof (cases "findSetup (visits ast)")
  case None
  then show ?thesis
    by (simp add: tokensDone_def extractTokenUsages_def walk_ended)
next
  case (Some f)
  then have "height f \<le> height ast"
    by (intro height_visits findSetup_mem)
  with Some show ?thesis
    by (simp add: tokensDone_def extractTokenUsages_def walk_ended)
qed

lemma extractTokenUsages_ended:
  assumes "height ast \<le> stack"
  shows "extractTokenUsages stack ast s = (Inr (), tokensDone ast s)"
proof (cases "findSetup (visits ast)")
  case None
  with assms show ?thesis
    by (simp add: tokensDone_eq extractTokenUsages_def walk_ended)
next
  case (Some f)
  then have "height f \<le> height ast"
    by (intro height_visits findSetup_mem)
  with assms have "height f \<le> stack" by simp
  with assms Some show ?thesis
    by (simp add: tokensDone_eq extractTokenUsages_def walk_ended walked_def)
qed

lemma tokensDone_tokenIndexes:
  "tokenIndexes (tokensDone ast s) = tokenIndexes s @ List.map_filter tokenIndexOf (setupCalls ast)"
  by (simp only: tokensDone_eq setupCalls_def foldl_visitUseTokenCall_tokenIndexes filter_useToken
      split: option.splits) (simp add: List.map_filter_simps)

lemma tokensDone_issues:
  "issues (tokensDone ast s) =
     issues s @ concat (map (useTokenIssues (collections s)) (setupCalls ast))"
  by (simp only: tokensDone_eq setupCalls_def foldl_visitUseTokenCall_issues filter_useToken
      split: option.splits) simp

lemma tokensDone_frame:
  "collections (tokensDone ast s) = collections s"
  "traits (tokensDone ast s) = traits s"
  by (simp_all add: tokensDone_def extractTokenUsages_frame)

lemma foldl_warn:
  "issues (foldl (\<lambda>s x. if \<not> collectionExists (k x) s then addIssue (w x) s else s) s xs) =
     issues s @ map w (filter (\<lambda>x. \<not> collectionExists (k x) s) xs) \<and>
   collections (foldl (\<lambda>s x. if \<not> collectionExists (k x) s then addIssue (w x) s else s) s xs) =
     collections s \<and>
   traits (foldl (\<lambda>s x. if \<not> collectionExists (k x) s then addIssue (w x) s else s) s xs) =
     traits s \<and>
   tokenIndexes (foldl (\<lambda>s x. if \<not> collectionExists (k x) s then addIssue (w x) s else s) s xs) =
     tokenIndexes s"
proof (induction xs arbitrary: s)
  case Nil
  show ?case by simp
next
  case (Cons x xs)
  have c: "collectionExists c (addIssue i s) = collectionExists c s" for c i
    by simp
  show ?case
    by (cases "collectionExists (k x) s") (simp_all add: Cons.IH c)
qed

lemma validateData_frame:
  "collections (validateData s) = collections s"
  "traits (validateData s) = traits s"
  "tokenIndexes (validateData s) = tokenIndexes s"
  by (simp_all add: validateData_def Let_def foldl_warn)

lemma collectionExists_cong:
  "collections s = collections s' \<Longrightarrow> collectionExists c s = collectionExists c s'"
  by (simp add: collectionExists_def)

lemma validateData_issues:
  "issues (validateData s) =
     issues s @ validationIssues (collections s) (traits s) (tokenIndexes s)"
proof -
  let ?w = "\<lambda>trait. \<lparr>i_type = warning,
                  i_message = ''Trait references non-existent collection '' @
                              [CHR 0x27] @ show_name (t_collection trait) @ [CHR 0x27],
                  i_location = t_sourceLocation trait\<rparr>"
  let ?v = "\<lambda>tokenIndex. \<lparr>i_type = warning,
                  i_message = ''Token usage references non-existent collection '' @
                              [CHR 0x27] @ show_name (ti_collection tokenIndex) @ [CHR 0x27],
                  i_location = None\<rparr>"
  let ?s1 = "foldl (\<lambda>s x. if \<not> collectionExists (t_collection x) s then addIssue (?w x) s else s)
               s (traits s)"
  note 1 = foldl_warn [of t_collection ?w s "traits s"]
  note 2 = foldl_warn [of ti_collection ?v ?s1 "tokenIndexes ?s1"]
  have e: "collectionExists c ?s1 = collectionExists c s" for c
    using 1 by (intro collectionExists_cong) simp
  have "issues (validateData s) =
      (issues s @ map ?w (filter (\<lambda>x. \<not> collectionExists (t_collection x) s) (traits s))) @
      map ?v (filter (\<lambda>x. \<not> collectionExists (ti_collection x) s) (tokenIndexes s))"
    unfolding validateData_def Let_def using 1 2 by (simp add: e)
  then show ?thesis
    by (simp add: validationIssues_def collectionExists_def)
qed

lemma resultOf_simps:
  "r_collections (resultOf s) = collections s"
  "r_traits (resultOf s) = traits s"
  "r_issues (resultOf s) = issues s"
  "r_tokenIndexes (resultOf s) = tokenIndexes s"
  "r_data (resultOf s) = groupTraitsByCollection s"
  by (simp_all add: resultOf_def)

text \<open>The analysis of a sketch that parses, when the stack has room for its tree.\<close>

lemma analyze_ended:
  assumes "parse code = Inr ast" and "height ast \<le> stack"
  shows "fst (analyze parse stack code this) =
     Inr (resultOf (validateData (tokensDone ast (traitsDone ast (collectionsDone ast newAnalyzer)))))"
  using assms
  by (simp add: analyze_def runPasses_def parseCode_def reset_eq andThen_def
      extractCollections_ended extractTraits_ended extractTokenUsages_ended)

lemma issues_ended:
  "issues (validateData (tokensDone ast (traitsDone ast (collectionsDone ast newAnalyzer)))) =
     map missingAddressWarning
       (filter (\<lambda>c. c_address c = VNull) (map collectionOf (formaDeclarators ast))) @
     map missingKeyWarning (filter (\<lambda>t. t_key t = VNull) (declaredTraits ast)) @
     concat (map (useTokenIssues (map collectionOf (formaDeclarators ast))) (setupCalls ast)) @
     validationIssues (map collectionOf (formaDeclarators ast))
       (foldl pushUnique [] (declaredTraits ast))
       (List.map_filter tokenIndexOf (setupCalls ast))"
  by (simp add: validateData_issues validateData_frame tokensDone_issues tokensDone_frame
      tokensDone_tokenIndexes traitsDone_issues traitsDone_frame traitsDone_traits
      collectionsDone_issues collectionsDone_frame collectionsDone_collections newAnalyzer_def)

text \<open>The analysis of a sketch that parses, when the stack has no room for its tree.\<close>

lemma analyze_failed:
  assumes "parse code = Inr ast" and "\<not> height ast \<le> stack"
  shows "fst (analyze parse stack code this) =
     Inr (resultOf (addIssue \<lparr>i_type = error,
                      i_message = ''Analysis failed: Maximum call stack size exceeded'',
                      i_location = None\<rparr>
                    (snd (extractCollections stack ast newAnalyzer))))"
proof -
  obtain vs where w: "walk_simple stack ast = (vs, False)"
    using walk_fails [OF assms(2)] by (cases "walk_simple stack ast") auto
  define s1 where "s1 = snd (extractCollections stack ast newAnalyzer)"
  with w have "extractCollections stack ast newAnalyzer = (Inl stackOverflow, s1)"
    by (simp add: extractCollections_def walked_def)
  then show ?thesis using assms(1) unfolding s1_def [symmetric]
    by (simp add: analyze_def runPasses_def parseCode_def reset_eq andThen_def stackOverflow_def
        Let_def)
qed

lemma analyze_result:
  "fst (analyze parse stack code this) = Inr (resultOf (snd (analyze parse stack code this)))"
proof -
  obtain outcome s where "runPasses parse stack code (reset this) = (outcome, s)"
    by (cases "runPasses parse stack code (reset this)")
  then show ?thesis
    by (cases outcome) (simp_all add: analyze_def Let_def)
qed

lemma analyze_ended_result:
  assumes "parse code = Inr ast" and "height ast \<le> stack"
  shows "resultOf (snd (analyze parse stack code this)) =
     resultOf (validateData (tokensDone ast (traitsDone ast (collectionsDone ast newAnalyzer))))"
  using analyze_ended [of parse code ast stack this, OF assms]
    analyze_result [of parse stack code this]
  by simp

lemma collectionsDone_eq:
  "collectionsDone ast s = foldl visitVariableDeclarator s (filter isVariableDeclarator (visits ast))"
  by (simp add: collectionsDone_def extractCollections_snd walk_ended)

lemma traitsDone_eq:
  "traitsDone ast s = foldl visitTraitCall s (filter isCallExpression (visits ast))"
  by (simp add: traitsDone_def extractTraits_snd walk_ended)

lemmas done_defs = collectionsDone_eq traitsDone_eq tokensDone_eq

subsection \<open>Token usages\<close>

text \<open>
  C1, as the code has it. The analyzer takes a call inside the \<open>setup\<close>
  function for a use of a token when its callee is a member expression whose
  property is an identifier named \<open>useToken\<close> and it has at least one argument.
  When the sketch parses and the stack has room for its tree, the token indexes
  of the result are exactly those of the calls so taken whose first argument is
  a numeric literal (an integer or not), one per call and in the order of the
  walk. The issues of the result are exactly: the warnings of the collections
  without an address, those of the traits without a key, for every call so
  taken the warning about an unknown collection and, when its first argument is
  not a numeric literal, the warning "has non-numeric token ID", and the
  warnings of the validation. Every other call records nothing: not a call
  outside \<open>setup\<close>, not a call without an argument, not a call whose property
  is computed from a string. When the stack has no room for the tree, there is
  no token index at all.
\<close>

theorem tokenIndexes_from_setup:
  assumes "parse code = Inr ast" and "fst (analyze parse stack code this) = Inr r"
  shows "(height ast \<le> stack \<longrightarrow>
            r_tokenIndexes r = List.map_filter tokenIndexOf (setupCalls ast) \<and>
            r_issues r =
              map missingAddressWarning (filter (\<lambda>c. c_address c = VNull) (r_collections r)) @
              map missingKeyWarning (filter (\<lambda>t. t_key t = VNull) (declaredTraits ast)) @
              concat (map (useTokenIssues (r_collections r)) (setupCalls ast)) @
              validationIssues (r_collections r) (r_traits r) (r_tokenIndexes r)) \<and>
         (\<not> height ast \<le> stack \<longrightarrow> r_tokenIndexes r = [])"
proof (intro conjI impI)
  assume h: "height ast \<le> stack"
  let ?s = "validateData (tokensDone ast (traitsDone ast (collectionsDone ast newAnalyzer)))"
  have r: "r = resultOf ?s"
    using assms analyze_ended [of parse code ast stack this, OF assms(1) h] by simp
  have c: "r_collections r = map collectionOf (formaDeclarators ast)"
    by (simp add: r resultOf_simps validateData_frame tokensDone_frame traitsDone_frame
        collectionsDone_collections newAnalyzer_def)
  have t: "r_traits r = foldl pushUnique [] (declaredTraits ast)"
    by (simp add: r resultOf_simps validateData_frame tokensDone_frame traitsDone_traits
        collectionsDone_frame newAnalyzer_def)
  show i: "r_tokenIndexes r = List.map_filter tokenIndexOf (setupCalls ast)"
    by (simp add: r resultOf_simps validateData_frame tokensDone_tokenIndexes traitsDone_frame
        collectionsDone_frame newAnalyzer_def)
  have "r_issues r = issues ?s"
    by (simp add: r resultOf_simps)
  then show "r_issues r =
      map missingAddressWarning (filter (\<lambda>c. c_address c = VNull) (r_collections r)) @
      map missingKeyWarning (filter (\<lambda>t. t_key t = VNull) (declaredTraits ast)) @
      concat (map (useTokenIssues (r_collections r)) (setupCalls ast)) @
      validationIssues (r_collections r) (r_traits r) (r_tokenIndexes r)"
    by (simp only: issues_ended c t i)
next
  assume h: "\<not> height ast \<le> stack"
  from assms analyze_failed [of parse code ast stack this, OF assms(1) h]
  show "r_tokenIndexes r = []"
    by (auto simp add: resultOf_simps extractCollections_frame newAnalyzer_def)
qed

text \<open>
  C1 on sketch B. Inside \<open>setup\<close>, \<open>A.useToken(x)\<close> is dropped with a warning
  and \<open>A.useToken(3.5)\<close> is recorded; \<open>A.useToken()\<close> and \<open>A["useToken"](3)\<close>
  are not taken for uses of a token and leave nothing, and neither does
  \<open>A.useToken(7)\<close>, outside \<open>setup\<close>. With room for three nested nodes only, the
  analysis fails and records no token index.
\<close>

theorem tokenIndexes_from_setup_witness:
  "acorn_sample sketch_B = Inr ast_B \<and> height ast_B \<le> 16 \<and> \<not> height ast_B \<le> 3 \<and>
   setupCalls ast_B =
     [CallExpression (pos 2 19)
        (MemberExpression (pos 2 19) (Identifier (pos 2 19) ''A'')
           (Identifier (pos 2 21) ''useToken'') False)
        [Identifier (pos 2 30) ''x''],
      CallExpression (pos 2 34)
        (MemberExpression (pos 2 34) (Identifier (pos 2 34) ''A'')
           (Identifier (pos 2 36) ''useToken'') False)
        [Literal (pos 2 45) (VNum (Finite (7 / 2)))]] \<and>
   r_tokenIndexes (resultOf (snd (analyze acorn_sample 16 sketch_B newAnalyzer))) =
     [\<lparr>ti_collection = Some ''A'', ti_tokenId = Finite (7 / 2)\<rparr>] \<and>
   r_issues (resultOf (snd (analyze acorn_sample 16 sketch_B newAnalyzer))) =
     [\<lparr>i_type = warning,
       i_message = ''useToken for collection '' @ [CHR 0x27] @ ''A'' @ [CHR 0x27] @
                   '' has non-numeric token ID'',
       i_location = Some \<lparr>line = 2, column = 19\<rparr>\<rparr>] \<and>
   r_tokenIndexes (resultOf (snd (analyze acorn_sample 3 sketch_B newAnalyzer))) = []"
proof -
  let ?r = "resultOf (snd (analyze acorn_sample 16 sketch_B newAnalyzer))"
  let ?q = "resultOf (snd (analyze acorn_sample 3 sketch_B newAnalyzer))"
  have p: "acorn_sample sketch_B = Inr ast_B"
    by (simp add: sample_defs)
  have h: "height ast_B \<le> 16" and g: "\<not> height ast_B \<le> 3"
    by (simp_all add: sample_defs)
  have calls: "setupCalls ast_B =
     [CallExpression (pos 2 19)
        (MemberExpression (pos 2 19) (Identifier (pos 2 19) ''A'')
           (Identifier (pos 2 21) ''useToken'') False)
        [Identifier (pos 2 30) ''x''],
      CallExpression (pos 2 34)
        (MemberExpression (pos 2 34) (Identifier (pos 2 34) ''A'')
           (Identifier (pos 2 36) ''useToken'') False)
        [Literal (pos 2 45) (VNum (Finite (7 / 2)))]]"
    by (simp add: sample_defs setupCalls_def findSetup_def)
  have c: "r_collections ?r =
     [\<lparr>c_name = Some ''A'', c_address = VStr ''0xAA'',
       c_sourceLocation = Some \<lparr>line = 1, column = 6\<rparr>\<rparr>]"
    unfolding analyze_ended_result [of acorn_sample sketch_B ast_B 16 newAnalyzer, OF p h]
    by (simp add: resultOf_simps validateData_frame tokensDone_frame traitsDone_frame
          collectionsDone_collections formaDeclarators_def collectionOf_def newAnalyzer_def
          sample_defs Let_def)
  have d: "declaredTraits ast_B = []"
    by (simp add: sample_defs declaredTraits_def declaredTrait_def List.map_filter_simps)
  have t: "r_traits ?r = []"
    unfolding analyze_ended_result [of acorn_sample sketch_B ast_B 16 newAnalyzer, OF p h]
    by (simp add: resultOf_simps validateData_frame tokensDone_frame traitsDone_traits
          collectionsDone_frame d newAnalyzer_def)
  note main = tokenIndexes_from_setup [of acorn_sample sketch_B ast_B _ newAnalyzer, OF p analyze_result]
  from main [of 16] h
  have i: "r_tokenIndexes ?r = List.map_filter tokenIndexOf (setupCalls ast_B)"
    and j: "r_issues ?r =
      map missingAddressWarning (filter (\<lambda>c. c_address c = VNull) (r_collections ?r)) @
      map missingKeyWarning (filter (\<lambda>t. t_key t = VNull) (declaredTraits ast_B)) @
      concat (map (useTokenIssues (r_collections ?r)) (setupCalls ast_B)) @
      validationIssues (r_collections ?r) (r_traits ?r) (r_tokenIndexes ?r)"
    by blast+
  from i have i': "r_tokenIndexes ?r = [\<lparr>ti_collection = Some ''A'', ti_tokenId = Finite (7 / 2)\<rparr>]"
    by (simp add: calls List.map_filter_simps)
  have j': "r_issues ?r =
     [\<lparr>i_type = warning,
       i_message = ''useToken for collection '' @ [CHR 0x27] @ ''A'' @ [CHR 0x27] @
                   '' has non-numeric token ID'',
       i_location = Some \<lparr>line = 2, column = 19\<rparr>\<rparr>]"
    unfolding j i' c t d calls
    by (simp add: useTokenIssues_def validationIssues_def nonNumericWarning_def pos_def)
  from main [of 3] g have k: "r_tokenIndexes ?q = []"
    by blast
  from p h g calls i' j' k show ?thesis by blast
qed

text \<open>
  C1 as stated fails on sketch B: the call with the non-literal argument \<open>x\<close>
  does record an issue, and the call with the literal \<open>3.5\<close>, which is not an
  integer, does produce a token index.
\<close>

theorem useToken_counterexample:
  "fst (analyze acorn_sample 16 sketch_B newAnalyzer) =
     Inr \<lparr>r_collections =
            [\<lparr>c_name = Some ''A'', c_address = VStr ''0xAA'',
              c_sourceLocation = Some \<lparr>line = 1, column = 6\<rparr>\<rparr>],
          r_traits = [],
          r_data =
            [\<lparr>d_collection = Some ''A'', d_address = VStr ''0xAA'',
              d_traits = [], d_tokenIndexes = [Finite (7 / 2)]\<rparr>],
          r_issues =
            [\<lparr>i_type = warning,
              i_message = ''useToken for collection '' @ [CHR 0x27] @ ''A'' @ [CHR 0x27] @
                          '' has non-numeric token ID'',
              i_location = Some \<lparr>line = 2, column = 19\<rparr>\<rparr>],
          r_tokenIndexes = [\<lparr>ti_collection = Some ''A'', ti_tokenId = Finite (7 / 2)\<rparr>]\<rparr> \<and>
   \<not> isInteger (Finite (7 / 2))"
proof -
  have p: "acorn_sample sketch_B = Inr ast_B"
    by (simp add: sample_defs)
  have h: "height ast_B \<le> 16"
    by (simp add: sample_defs)
  show ?thesis
    unfolding analyze_ended [of acorn_sample sketch_B ast_B 16 newAnalyzer, OF p h] done_defs
    by (simp add: sample_defs analyzer_defs isIntegral_def)
qed

subsection \<open>Collections\<close>

text \<open>
  C3, as the code has it. When the sketch parses, the result holds one
  collection for every declarator initialised by a call of \<open>FormaCollection\<close>
  that the walk visited, in the order of the walk, with the name the declarator
  declares; the walk visits all of them when the stack has room for the tree.
  Nothing merges two declarators of one name, so the names of the collections
  are unique exactly when no two of these declarators declare the same name.
\<close>

theorem collections_per_declarator:
  assumes "parse code = Inr ast" and "fst (analyze parse stack code this) = Inr r"
  shows "r_collections r =
           map collectionOf (filter isFormaCollectionCall (fst (walk_simple stack ast))) \<and>
         (height ast \<le> stack \<longrightarrow> r_collections r = map collectionOf (formaDeclarators ast)) \<and>
         (distinct (map c_name (r_collections r)) \<longleftrightarrow>
          distinct (map declaredName (filter isFormaCollectionCall (fst (walk_simple stack ast)))))"
proof -
  have c: "r_collections r =
      map collectionOf (filter isFormaCollectionCall (fst (walk_simple stack ast)))"
  proof (cases "height ast \<le> stack")
    case True
    from assms analyze_ended [of parse code ast stack this, OF assms(1) True]
    show ?thesis
      by (auto simp add: resultOf_simps validateData_frame tokensDone_frame traitsDone_frame
          collectionsDone_collections newAnalyzer_def formaDeclarators_def walk_ended [OF True])
  next
    case False
    from assms analyze_failed [of parse code ast stack this, OF assms(1) False]
    show ?thesis
      by (auto simp add: resultOf_simps extractCollections_collections newAnalyzer_def)
  qed
  have n: "map c_name (map collectionOf (filter isFormaCollectionCall ns)) =
      map declaredName (filter isFormaCollectionCall ns)" for ns
    by (induction ns) (simp_all add: collectionOf_name)
  from c have names: "map c_name (r_collections r) =
      map declaredName (filter isFormaCollectionCall (fst (walk_simple stack ast)))"
    by (simp only: n)
  have "height ast \<le> stack \<longrightarrow> r_collections r = map collectionOf (formaDeclarators ast)"
    using c by (simp add: walk_ended formaDeclarators_def)
  moreover have "distinct (map c_name (r_collections r)) \<longleftrightarrow>
      distinct (map declaredName (filter isFormaCollectionCall (fst (walk_simple stack ast))))"
    by (simp only: names)
  ultimately show ?thesis using c by blast
qed

text \<open>
  C3 on sketch F, which declares \<open>B\<close>, then \<open>n\<close> and \<open>A\<close>; its tree nests six
  nodes. With room for them the result holds \<open>B\<close> and \<open>A\<close>, in this order. With
  room for five, the walk fails below the declarator of \<open>A\<close>, and the result
  holds \<open>B\<close> only.
\<close>

theorem collections_per_declarator_witness:
  "acorn_sample sketch_F = Inr ast_F \<and> height ast_F \<le> 16 \<and>
   r_collections (resultOf (snd (analyze acorn_sample 16 sketch_F newAnalyzer))) =
     [\<lparr>c_name = Some ''B'', c_address = VStr ''0xBB'',
       c_sourceLocation = Some \<lparr>line = 1, column = 6\<rparr>\<rparr>,
      \<lparr>c_name = Some ''A'', c_address = VNull,
       c_sourceLocation = Some \<lparr>line = 2, column = 13\<rparr>\<rparr>] \<and>
   distinct (map c_name
     (r_collections (resultOf (snd (analyze acorn_sample 16 sketch_F newAnalyzer))))) \<and>
   r_collections (resultOf (snd (analyze acorn_sample 5 sketch_F newAnalyzer))) =
     [\<lparr>c_name = Some ''B'', c_address = VStr ''0xBB'',
       c_sourceLocation = Some \<lparr>line = 1, column = 6\<rparr>\<rparr>]"
proof -
  let ?r = "resultOf (snd (analyze acorn_sample 16 sketch_F newAnalyzer))"
  let ?q = "resultOf (snd (analyze acorn_sample 5 sketch_F newAnalyzer))"
  have p: "acorn_sample sketch_F = Inr ast_F"
    by (simp add: sample_defs)
  have h: "height ast_F \<le> 16"
    by (simp add: sample_defs)
  have f: "map collectionOf (formaDeclarators ast_F) =
     [\<lparr>c_name = Some ''B'', c_address = VStr ''0xBB'',
       c_sourceLocation = Some \<lparr>line = 1, column = 6\<rparr>\<rparr>,
      \<lparr>c_name = Some ''A'', c_address = VNull,
       c_sourceLocation = Some \<lparr>line = 2, column = 13\<rparr>\<rparr>]"
    by (simp add: sample_defs formaDeclarators_def collectionOf_def newAnalyzer_def addIssue_def
        Let_def)
  have w: "map collectionOf (filter isFormaCollectionCall (fst (walk_simple 5 ast_F))) =
     [\<lparr>c_name = Some ''B'', c_address = VStr ''0xBB'',
       c_sourceLocation = Some \<lparr>line = 1, column = 6\<rparr>\<rparr>]"
    by (simp add: sample_defs eval_nat_numeral collectionOf_def newAnalyzer_def Let_def)
  note main = collections_per_declarator [of acorn_sample sketch_F ast_F _ newAnalyzer, OF p analyze_result]
  from main [of 16] h have "r_collections ?r = map collectionOf (formaDeclarators ast_F)"
    by blast
  then have 1: "r_collections ?r =
     [\<lparr>c_name = Some ''B'', c_address = VStr ''0xBB'',
       c_sourceLocation = Some \<lparr>line = 1, column = 6\<rparr>\<rparr>,
      \<lparr>c_name = Some ''A'', c_address = VNull,
       c_sourceLocation = Some \<lparr>line = 2, column = 13\<rparr>\<rparr>]"
    by (simp only: f)
  from main [of 5] have 2: "r_collections ?q =
     [\<lparr>c_name = Some ''B'', c_address = VStr ''0xBB'',
       c_sourceLocation = Some \<lparr>line = 1, column = 6\<rparr>\<rparr>]"
    by (simp only: w)
  from p h 1 2 show ?thesis by simp
qed

text \<open>
  C3 as stated fails on sketch C: it declares \<open>A\<close> twice, and the result holds
  two collections named \<open>A\<close>.
\<close>

theorem collection_names_counterexample:
  "fst (analyze acorn_sample 16 sketch_C newAnalyzer) =
     Inr \<lparr>r_collections =
            [\<lparr>c_name = Some ''A'', c_address = VStr ''0xAA'',
              c_sourceLocation = Some \<lparr>line = 1, column = 4\<rparr>\<rparr>,
             \<lparr>c_name = Some ''A'', c_address = VStr ''0xBB'',
              c_sourceLocation = Some \<lparr>line = 2, column = 4\<rparr>\<rparr>],
          r_traits = [], r_data = [], r_issues = [], r_tokenIndexes = []\<rparr>"
proof -
  have p: "acorn_sample sketch_C = Inr ast_C"
    by (simp add: sample_defs)
  have h: "height ast_C \<le> 16"
    by (simp add: sample_defs)
  show ?thesis
    unfolding analyze_ended [of acorn_sample sketch_C ast_C 16 newAnalyzer, OF p h] done_defs
    by (simp add: sample_defs analyzer_defs)
qed

subsection \<open>Traits\<close>

lemma strict_equals_iff: "strict_equals a b \<longleftrightarrow> a = b \<and> strict_equals a a"
  by (cases "(a, b)" rule: strict_equals.cases) auto

lemma sameTriple_iff: "sameTriple x t \<longleftrightarrow> sameWritten x t \<and> selfEqual (t_key x)"
proof -
  have "strict_equals (t_key t) (t_key x) \<longleftrightarrow>
      t_key x = t_key t \<and> strict_equals (t_key x) (t_key x)"
    by (metis strict_equals_iff)
  then show ?thesis
    unfolding sameTriple_def sameWritten_def selfEqual_def by metis
qed

lemma pushUnique_filter:
  assumes "selfEqual (t_key x)"
  shows "filter (sameWritten x) (pushUnique acc t) =
     (if filter (sameWritten x) acc = [] \<and> sameWritten x t then [t]
      else filter (sameWritten x) acc)"
proof (cases "sameWritten x t")
  case False
  then show ?thesis by (simp add: pushUnique_def)
next
  case True
  then have k: "selfEqual (t_key t)"
    using assms by (simp add: sameWritten_def)
  have e: "sameWritten t t' \<longleftrightarrow> sameWritten x t'" for t'
    using True by (auto simp: sameWritten_def)
  have "list_ex (sameTriple t) acc \<longleftrightarrow> filter (sameWritten x) acc \<noteq> []"
    by (auto simp add: list_ex_iff filter_empty_conv sameTriple_iff k e)
  with True show ?thesis by (simp add: pushUnique_def)
qed

lemma foldl_pushUnique_filter:
  assumes "selfEqual (t_key x)"
  shows "filter (sameWritten x) (foldl pushUnique acc ts) =
     (if filter (sameWritten x) acc = []
      then (case find (sameWritten x) ts of None \<Rightarrow> [] | Some f \<Rightarrow> [f])
      else filter (sameWritten x) acc)"
  by (induction ts arbitrary: acc) (simp_all add: pushUnique_filter [OF assms])

lemma pushUnique_kept: "\<not> selfEqual (t_key t) \<Longrightarrow> pushUnique acc t = acc @ [t]"
  by (simp add: pushUnique_def list_ex_iff sameTriple_iff)

lemma foldl_pushUnique_kept:
  assumes "\<not> selfEqual (t_key x)"
  shows "filter (sameWritten x) (foldl pushUnique acc ts) =
     filter (sameWritten x) acc @ filter (sameWritten x) ts"
proof (induction ts arbitrary: acc)
  case Nil
  show ?case by simp
next
  case (Cons t ts)
  show ?case
  proof (cases "sameWritten x t")
    case True
    then have "\<not> selfEqual (t_key t)"
      using assms by (simp add: sameWritten_def)
    then show ?thesis
      by (simp add: Cons.IH pushUnique_kept True)
  next
    case False
    then have "filter (sameWritten x) (pushUnique acc t) = filter (sameWritten x) acc"
      by (simp add: pushUnique_def)
    with False show ?thesis
      by (simp add: Cons.IH)
  qed
qed

text \<open>
  C8, as the code has it. Two declarations are identical when they name the
  same collection, the same key and the same type. When a sketch parses, the
  stack has room for its tree and its declarations hold \<open>N \<ge> 1\<close> traits
  identical to a given one, the result depends on the key. A key that is a
  string, a number, a boolean, a BigInt or missing equals itself under \<open>===\<close>:
  the result keeps exactly one of the \<open>N\<close> traits, the first in the order of the
  walk. A key that is a RegExp literal never equals another under \<open>===\<close>: the
  result keeps all \<open>N\<close>. No issue is recorded for a suppressed declaration: the
  issues of the result are those of the collections without an address, of the
  traits without a key (suppressed or not), of the uses of a token and of the
  validation.
\<close>

theorem duplicate_traits_suppressed:
  assumes "parse code = Inr ast" and "height ast \<le> stack"
    and "fst (analyze parse stack code this) = Inr r"
    and "length (filter (sameWritten x) (declaredTraits ast)) = N" and "1 \<le> N"
  shows "(selfEqual (t_key x) \<longrightarrow>
            (\<exists>f. find (sameWritten x) (declaredTraits ast) = Some f \<and>
                 filter (sameWritten x) (r_traits r) = [f])) \<and>
         (\<not> selfEqual (t_key x) \<longrightarrow>
            filter (sameWritten x) (r_traits r) = filter (sameWritten x) (declaredTraits ast)) \<and>
         r_issues r =
           map missingAddressWarning (filter (\<lambda>c. c_address c = VNull) (r_collections r)) @
           map missingKeyWarning (filter (\<lambda>t. t_key t = VNull) (declaredTraits ast)) @
           concat (map (useTokenIssues (r_collections r)) (setupCalls ast)) @
           validationIssues (r_collections r) (r_traits r) (r_tokenIndexes r)"
proof -
  let ?s = "validateData (tokensDone ast (traitsDone ast (collectionsDone ast newAnalyzer)))"
  have r: "r = resultOf ?s"
    using assms(3) analyze_ended [of parse code ast stack this, OF assms(1,2)] by simp
  have c: "r_collections r = map collectionOf (formaDeclarators ast)"
    by (simp add: r resultOf_simps validateData_frame tokensDone_frame traitsDone_frame
        collectionsDone_collections newAnalyzer_def)
  have t: "r_traits r = foldl pushUnique [] (declaredTraits ast)"
    by (simp add: r resultOf_simps validateData_frame tokensDone_frame traitsDone_traits
        collectionsDone_frame newAnalyzer_def)
  have i: "r_tokenIndexes r = List.map_filter tokenIndexOf (setupCalls ast)"
    by (simp add: r resultOf_simps validateData_frame tokensDone_tokenIndexes traitsDone_frame
        collectionsDone_frame newAnalyzer_def)
  from assms(4,5) have "filter (sameWritten x) (declaredTraits ast) \<noteq> []" by auto
  then obtain f where f: "find (sameWritten x) (declaredTraits ast) = Some f"
    by (cases "find (sameWritten x) (declaredTraits ast)") (auto simp: find_None_iff filter_empty_conv)
  have 1: "filter (sameWritten x) (r_traits r) = [f]" if "selfEqual (t_key x)"
    by (simp add: t foldl_pushUnique_filter [OF that] f)
  have 2: "filter (sameWritten x) (r_traits r) = filter (sameWritten x) (declaredTraits ast)"
    if "\<not> selfEqual (t_key x)"
    by (simp add: t foldl_pushUnique_kept [OF that])
  have "r_issues r = issues ?s"
    by (simp add: r resultOf_simps)
  then have 3: "r_issues r =
      map missingAddressWarning (filter (\<lambda>c. c_address c = VNull) (r_collections r)) @
      map missingKeyWarning (filter (\<lambda>t. t_key t = VNull) (declaredTraits ast)) @
      concat (map (useTokenIssues (r_collections r)) (setupCalls ast)) @
      validationIssues (r_collections r) (r_traits r) (r_tokenIndexes r)"
    by (simp only: issues_ended c t i)
  from f 1 2 3 show ?thesis by blast
qed

text \<open>
  C8 on sketch D, which declares the trait \<open>Color\<close> of \<open>A\<close> on lines 2 and 3:
  the result keeps the declaration of line 2 only, and has no issue. On sketch
  G, which declares a trait with the key \<open>/x/\<close> on lines 2 and 3, the result
  keeps both.
\<close>

theorem duplicate_traits_suppressed_witness:
  "acorn_sample sketch_D = Inr ast_D \<and> height ast_D \<le> 16 \<and>
   selfEqual (VStr ''Color'') \<and>
   length (filter (sameWritten \<lparr>t_collection = Some ''A'', t_key = VStr ''Color'',
                               t_type = asString, t_sourceLocation = None\<rparr>)
             (declaredTraits ast_D)) = 2 \<and>
   filter (sameWritten \<lparr>t_collection = Some ''A'', t_key = VStr ''Color'',
                        t_type = asString, t_sourceLocation = None\<rparr>)
     (r_traits (resultOf (snd (analyze acorn_sample 16 sketch_D newAnalyzer)))) =
     [\<lparr>t_collection = Some ''A'', t_key = VStr ''Color'', t_type = asString,
       t_sourceLocation = Some \<lparr>line = 2, column = 0\<rparr>\<rparr>] \<and>
   r_issues (resultOf (snd (analyze acorn_sample 16 sketch_D newAnalyzer))) = [] \<and>
   acorn_sample sketch_G = Inr ast_G \<and> height ast_G \<le> 16 \<and>
   \<not> selfEqual (VRegExp ''/x/'') \<and>
   length (filter (sameWritten \<lparr>t_collection = Some ''A'', t_key = VRegExp ''/x/'',
                               t_type = asInt, t_sourceLocation = None\<rparr>)
             (declaredTraits ast_G)) = 2 \<and>
   filter (sameWritten \<lparr>t_collection = Some ''A'', t_key = VRegExp ''/x/'',
                        t_type = asInt, t_sourceLocation = None\<rparr>)
     (r_traits (resultOf (snd (analyze acorn_sample 16 sketch_G newAnalyzer)))) =
     [\<lparr>t_collection = Some ''A'', t_key = VRegExp ''/x/'', t_type = asInt,
       t_sourceLocation = Some \<lparr>line = 2, column = 0\<rparr>\<rparr>,
      \<lparr>t_collection = Some ''A'', t_key = VRegExp ''/x/'', t_type = asInt,
       t_sourceLocation = Some \<lparr>line = 3, column = 0\<rparr>\<rparr>]"
proof -
  let ?r = "resultOf (snd (analyze acorn_sample 16 sketch_D newAnalyzer))"
  let ?x = "\<lparr>t_collection = Some ''A'', t_key = VStr ''Color'',
             t_type = asString, t_sourceLocation = None\<rparr>"
  let ?q = "resultOf (snd (analyze acorn_sample 16 sketch_G newAnalyzer))"
  let ?y = "\<lparr>t_collection = Some ''A'', t_key = VRegExp ''/x/'',
             t_type = asInt, t_sourceLocation = None\<rparr>"
  have p: "acorn_sample sketch_D = Inr ast_D" and p': "acorn_sample sketch_G = Inr ast_G"
    by (simp_all add: sample_defs)
  have h: "height ast_D \<le> 16" and h': "height ast_G \<le> 16"
    by (simp_all add: sample_defs)
  have k: "selfEqual (VStr ''Color'')" and k': "\<not> selfEqual (VRegExp ''/x/'')"
    by (simp_all add: selfEqual_def)
  have d: "declaredTraits ast_D =
     [\<lparr>t_collection = Some ''A'', t_key = VStr ''Color'', t_type = asString,
       t_sourceLocation = Some \<lparr>line = 2, column = 0\<rparr>\<rparr>,
      \<lparr>t_collection = Some ''A'', t_key = VStr ''Color'', t_type = asString,
       t_sourceLocation = Some \<lparr>line = 3, column = 0\<rparr>\<rparr>]"
    by (simp add: sample_defs declaredTraits_def declaredTrait_def List.map_filter_simps
        traitTypeOf_def newAnalyzer_def Let_def)
  have d': "declaredTraits ast_G =
     [\<lparr>t_collection = Some ''A'', t_key = VRegExp ''/x/'', t_type = asInt,
       t_sourceLocation = Some \<lparr>line = 2, column = 0\<rparr>\<rparr>,
      \<lparr>t_collection = Some ''A'', t_key = VRegExp ''/x/'', t_type = asInt,
       t_sourceLocation = Some \<lparr>line = 3, column = 0\<rparr>\<rparr>]"
    by (simp add: sample_defs declaredTraits_def declaredTrait_def List.map_filter_simps
        traitTypeOf_def newAnalyzer_def Let_def)
  have n: "length (filter (sameWritten ?x) (declaredTraits ast_D)) = 2"
    by (simp add: d sameWritten_def)
  have n': "length (filter (sameWritten ?y) (declaredTraits ast_G)) = 2"
    by (simp add: d' sameWritten_def)
  have c: "r_collections ?r =
     [\<lparr>c_name = Some ''A'', c_address = VStr ''0xAA'',
       c_sourceLocation = Some \<lparr>line = 1, column = 6\<rparr>\<rparr>]"
    unfolding analyze_ended_result [of acorn_sample sketch_D ast_D 16 newAnalyzer, OF p h]
    by (simp add: resultOf_simps validateData_frame tokensDone_frame traitsDone_frame
          collectionsDone_collections formaDeclarators_def collectionOf_def newAnalyzer_def
          sample_defs Let_def)
  have s: "setupCalls ast_D = []"
    by (simp add: sample_defs setupCalls_def findSetup_def)
  note main = duplicate_traits_suppressed
    [of acorn_sample sketch_D ast_D 16 newAnalyzer ?r ?x 2, OF p h analyze_result n]
  then have f: "filter (sameWritten ?x) (r_traits ?r) =
     [\<lparr>t_collection = Some ''A'', t_key = VStr ''Color'', t_type = asString,
       t_sourceLocation = Some \<lparr>line = 2, column = 0\<rparr>\<rparr>]"
    using k by (auto simp add: d sameWritten_def)
  have t: "r_traits ?r =
     [\<lparr>t_collection = Some ''A'', t_key = VStr ''Color'', t_type = asString,
       t_sourceLocation = Some \<lparr>line = 2, column = 0\<rparr>\<rparr>]"
    unfolding analyze_ended_result [of acorn_sample sketch_D ast_D 16 newAnalyzer, OF p h]
    by (simp add: resultOf_simps validateData_frame tokensDone_frame traitsDone_traits
          collectionsDone_frame d newAnalyzer_def pushUnique_def sameTriple_def)
  from main have "r_issues ?r =
      map missingAddressWarning (filter (\<lambda>c. c_address c = VNull) (r_collections ?r)) @
      map missingKeyWarning (filter (\<lambda>t. t_key t = VNull) (declaredTraits ast_D)) @
      concat (map (useTokenIssues (r_collections ?r)) (setupCalls ast_D)) @
      validationIssues (r_collections ?r) (r_traits ?r) (r_tokenIndexes ?r)"
    by simp
  moreover have "r_tokenIndexes ?r = []"
    unfolding analyze_ended_result [of acorn_sample sketch_D ast_D 16 newAnalyzer, OF p h]
    by (simp add: resultOf_simps validateData_frame tokensDone_tokenIndexes traitsDone_frame
          collectionsDone_frame s newAnalyzer_def List.map_filter_simps)
  ultimately have i: "r_issues ?r = []"
    by (simp add: c d s t validationIssues_def)
  from duplicate_traits_suppressed
    [of acorn_sample sketch_G ast_G 16 newAnalyzer ?q ?y 2, OF p' h' analyze_result n']
  have g: "filter (sameWritten ?y) (r_traits ?q) =
     [\<lparr>t_collection = Some ''A'', t_key = VRegExp ''/x/'', t_type = asInt,
       t_sourceLocation = Some \<lparr>line = 2, column = 0\<rparr>\<rparr>,
      \<lparr>t_collection = Some ''A'', t_key = VRegExp ''/x/'', t_type = asInt,
       t_sourceLocation = Some \<lparr>line = 3, column = 0\<rparr>\<rparr>]"
    using k' by (auto simp add: d' sameWritten_def)
  from p h k n f i p' h' k' n' g show ?thesis by blast
qed

text \<open>
  C8 as stated fails on sketch G: its two declarations name the same
  collection, the same key \<open>/x/\<close> and the same type, and the result holds both.
\<close>

theorem regexp_key_counterexample:
  "fst (analyze acorn_sample 16 sketch_G newAnalyzer) =
     Inr \<lparr>r_collections =
            [\<lparr>c_name = Some ''A'', c_address = VStr ''0xAA'',
              c_sourceLocation = Some \<lparr>line = 1, column = 6\<rparr>\<rparr>],
          r_traits =
            [\<lparr>t_collection = Some ''A'', t_key = VRegExp ''/x/'', t_type = asInt,
              t_sourceLocation = Some \<lparr>line = 2, column = 0\<rparr>\<rparr>,
             \<lparr>t_collection = Some ''A'', t_key = VRegExp ''/x/'', t_type = asInt,
              t_sourceLocation = Some \<lparr>line = 3, column = 0\<rparr>\<rparr>],
          r_data =
            [\<lparr>d_collection = Some ''A'', d_address = VStr ''0xAA'',
              d_traits =
                [\<lparr>t_collection = Some ''A'', t_key = VRegExp ''/x/'', t_type = asInt,
                  t_sourceLocation = Some \<lparr>line = 2, column = 0\<rparr>\<rparr>,
                 \<lparr>t_collection = Some ''A'', t_key = VRegExp ''/x/'', t_type = asInt,
                  t_sourceLocation = Some \<lparr>line = 3, column = 0\<rparr>\<rparr>],
              d_tokenIndexes = []\<rparr>],
          r_issues = [], r_tokenIndexes = []\<rparr>"
proof -
  have p: "acorn_sample sketch_G = Inr ast_G"
    by (simp add: sample_defs)
  have h: "height ast_G \<le> 16"
    by (simp add: sample_defs)
  show ?thesis
    unfolding analyze_ended [of acorn_sample sketch_G ast_G 16 newAnalyzer, OF p h] done_defs
    by (simp add: sample_defs analyzer_defs)
qed

section \<open>Properties of the contract generator\<close>

lemmas generator_defs =
  generateCollectionAddresses_def generateCollectionIndexes_def generateP5Storage_def
  generateTraitRegistration_def generateTokenIdMapping_def generateOwnershipChecks_def
  generateMetadataExtraction_def generateSolidityJsField_def jsFieldLine_def
  generateSolidityBase64EncodedField_def generateP5Ls_def generateFullMetadataSettings_def
  generateMetadataCementing_def filterValidCollections_def formatName_def capitalize_def
  toLowerCase_def toLowerChar_def toUpperCaseChar_def capitalLetters_def smallLetters_def
  trim_def isSpace_def escapeString_def
  replaceAllChar_def replace_def bindE_def mapTraitTypeToSolidity_def orElse_def
  collectionAddress_def collectionIndex_def p5CodeChunk_def tokenIdMapping_def
  ownershipCheck_def traitRegistration_def traitSizeSet_def digitChar_def

subsection \<open>Escaping\<close>









subsection \<open>Collections without an address\<close>

lemma formatName_Some: "formatName (Some n) = Inr (formattedName n)"
  by (simp add: formatName_def formattedName_def)

lemma mapE_Inr:
  assumes "\<And>x. x \<in> set xs \<Longrightarrow> f x = Inr (g x)"
  shows "mapE f xs = Inr (map g xs)"
  using assms by (induction xs) simp_all

lemma sublist_join:
  assumes "x \<in> set xs"
  shows "sublist x (join sep xs)"
  using assms
proof (induction sep xs rule: join.induct)
  case (1 sep)
  then show ?case by simp
next
  case (2 sep x')
  then show ?case by simp
next
  case (3 sep x' y ys)
  show ?case
  proof (cases "x = x'")
    case True
    then show ?thesis by simp
  next
    case False
    with 3 have "sublist x (join sep (y # ys))" by simp
    then obtain ps ss where "join sep (y # ys) = ps @ x @ ss" by (auto simp: sublist_def)
    then have "join sep (x' # y # ys) = (x' @ sep @ ps) @ x @ ss" by simp
    then show ?thesis unfolding sublist_def by blast
  qed
qed

lemma sublist_inside: "sublist x (a @ x @ b)"
  by (metis sublist_appendI)

lemma sublist_trans': "sublist x y \<Longrightarrow> sublist y z \<Longrightarrow> sublist x z"
  by (rule sublist_order.order_trans)

lemma filterValid_addressed: "filterValidCollections (addressed cs) = filterValidCollections cs"
  by (induction cs) (auto simp: filterValidCollections_def addressed_def)

lemma jsFieldLine_Some:
  assumes "c_name c = Some n"
  shows "jsFieldLine c = Inr ((''string memory '' @ n @ ''_jsField = '') @ traitJsCall n)"
  by (simp add: jsFieldLine_def bindE_def formatName_Some assms traitJsCall_def)

lemma sublist_Base64:
  assumes "c \<in> set cs" and "c_name c = Some n"
  shows "sublist (n @ ''_jsField'') (generateSolidityBase64EncodedField cs)"
proof -
  define field :: "Collection \<Rightarrow> string"
    where "field = (\<lambda>collection. show_name (c_name collection) @ ''_jsField'')"
  define fields where "fields = map field cs"
  have "field c \<in> set fields"
    unfolding fields_def using assms(1) by simp
  then have "n @ ''_jsField'' \<in> set fields"
    by (simp add: assms(2) field_def)
  then have "sublist (n @ ''_jsField'') (join '', '' fields)"
    by (rule sublist_join)
  then obtain ps ss where j: "join '', '' fields = ps @ (n @ ''_jsField'') @ ss"
    unfolding sublist_def by blast
  have "generateSolidityBase64EncodedField cs =
        ([CHR 0x0A] @ ''        string memory allTraits = string(abi.encodePacked('') @ join '', '' fields @
         (''));'' @ [CHR 0x0A] @ ''    '')"
    unfolding generateSolidityBase64EncodedField_def Let_def fields_def field_def by simp
  also have "\<dots> = (([CHR 0x0A] @ ''        string memory allTraits = string(abi.encodePacked('') @ ps) @
        (n @ ''_jsField'') @ (ss @ (''));'' @ [CHR 0x0A] @ ''    ''))"
    unfolding j by simp
  finally show ?thesis unfolding sublist_def by blast
qed

text \<open>
  C10. The \<open>TRAIT_JS\<close> and \<open>TRAIT_BASE64\<close> fragments are built from every
  collection of the model. For a collection whose address is \<open>null\<close> (the names
  being strings, as \<open>Collection\<close> declares them), \<open>generateSolidityJsField\<close>
  still emits the call that refers to the address constant, to the \<open>_INDEX\<close>
  constant and to the \<open>tokenId_\<close> variable of the collection, and
  \<open>generateSolidityBase64EncodedField\<close> refers to its \<open>_jsField\<close>; the fragments
  that declare these identifiers are the same as if the collections without an
  address were not there.
\<close>

theorem unaddressed_collections_in_trait_fragments:
  assumes "\<forall>c \<in> set cs. c_name c \<noteq> None"
    and "c \<in> set cs" and "c_address c = VNull" and "c_name c = Some n"
  shows "(\<exists>js. generateSolidityJsField cs = Inr js \<and> sublist (traitJsCall n) js) \<and>
         sublist (n @ ''_jsField'') (generateSolidityBase64EncodedField cs) \<and>
         generateCollectionAddresses nts cs = generateCollectionAddresses nts (addressed cs) \<and>
         generateCollectionIndexes cs = generateCollectionIndexes (addressed cs) \<and>
         generateTokenIdMapping cs = generateTokenIdMapping (addressed cs)"
proof -
  define line :: "Collection \<Rightarrow> string" where "line = (\<lambda>c. (''string memory '' @ the (c_name c) @ ''_jsField = '') @ traitJsCall (the (c_name c)))"
  have l: "jsFieldLine x = Inr (line x)" if "x \<in> set cs" for x
  proof -
    from that assms(1) obtain m where m: "c_name x = Some m" by auto
    show ?thesis unfolding line_def using jsFieldLine_Some [OF m] by (simp add: m)
  qed
  have "mapE jsFieldLine cs = Inr (map line cs)"
    by (rule mapE_Inr) (rule l)
  then have js: "generateSolidityJsField cs = Inr (join [CHR 0x0A] (map line cs))"
    by (simp add: generateSolidityJsField_def bindE_def)
  have "line c \<in> set (map line cs)" using assms(2) by simp
  then have "sublist (line c) (join [CHR 0x0A] (map line cs))" by (rule sublist_join)
  moreover have "sublist (traitJsCall n) (line c)"
    unfolding line_def by (simp only: assms(4) option.sel sublist_append_leftI)
  ultimately have "sublist (traitJsCall n) (join [CHR 0x0A] (map line cs))"
    by (rule sublist_trans' [rotated])
  with js have a: "\<exists>js. generateSolidityJsField cs = Inr js \<and> sublist (traitJsCall n) js"
    by blast
  have b: "sublist (n @ ''_jsField'') (generateSolidityBase64EncodedField cs)"
    using assms(2,4) by (rule sublist_Base64)
  have c: "generateCollectionAddresses nts cs = generateCollectionAddresses nts (addressed cs)"
    by (simp only: generateCollectionAddresses_def filterValid_addressed)
  have d: "generateCollectionIndexes cs = generateCollectionIndexes (addressed cs)"
    by (simp only: generateCollectionIndexes_def filterValid_addressed)
  have e: "generateTokenIdMapping cs = generateTokenIdMapping (addressed cs)"
    by (simp only: generateTokenIdMapping_def filterValid_addressed)
  from a b c d e show ?thesis by blast
qed

text \<open>C10 on the collection of sketch A declared without an address.\<close>

theorem unaddressed_collections_in_trait_fragments_witness:
  "c_address unaddressed_A = VNull \<and> c_name unaddressed_A = Some ''A'' \<and>
   (\<exists>js. generateSolidityJsField [unaddressed_A] = Inr js \<and> sublist (traitJsCall ''A'') js) \<and>
   sublist (''A'' @ ''_jsField'') (generateSolidityBase64EncodedField [unaddressed_A]) \<and>
   generateCollectionAddresses sample_nts [unaddressed_A] = [] \<and>
   generateCollectionIndexes [unaddressed_A] = [] \<and>
   generateTokenIdMapping [unaddressed_A] = Inr []"
proof -
  have a: "c_address unaddressed_A = VNull" and n: "c_name unaddressed_A = Some ''A''"
    by (simp_all add: unaddressed_A_def)
  have e: "addressed [unaddressed_A] = []"
    by (simp add: addressed_def a)
  have "\<forall>c \<in> set [unaddressed_A]. c_name c \<noteq> None"
    by (simp add: n)
  from unaddressed_collections_in_trait_fragments [OF this _ a n, of sample_nts]
  show ?thesis
    by (simp add: a n e generateCollectionAddresses_def generateCollectionIndexes_def
        generateTokenIdMapping_def filterValidCollections_def bindE_def)
qed

subsection \<open>Assembly\<close>

lemma placeholders_shaped: "list_all placeholderShape placeholderNames"
  unfolding placeholderNames_def list.pred_inject
  by (intro conjI TrueI; simp add: placeholderShape_def nameChar_def)

lemma placeholder_shape:
  assumes "placeholderShape p"
  obtains name where "p = CHR ''%'' # name @ ''%''" and "name \<noteq> []" and "list_all nameChar name"
proof -
  from assms obtain c r where p: "p = c # r"
    by (auto simp: placeholderShape_def split: list.splits)
  with assms have c: "c = CHR ''%''" and r: "r \<noteq> []" "last r = CHR ''%''"
    and n: "butlast r \<noteq> []" "list_all nameChar (butlast r)"
    by (simp_all add: placeholderShape_def)
  from r have "r = butlast r @ ''%''"
    by (metis append_butlast_last_id)
  with p c have "p = CHR ''%'' # butlast r @ ''%''" by simp
  then show ?thesis using n by (rule that)
qed

lemma nameChar_percent: "\<not> nameChar (CHR ''%'')"
  by (simp add: nameChar_def)

lemma names_no_percent: "list_all nameChar name \<Longrightarrow> CHR ''%'' \<notin> set name"
  using nameChar_percent by (auto simp: list_all_iff)

lemma placeholder_nonempty: "placeholderShape p \<Longrightarrow> p \<noteq> []"
  by (erule placeholder_shape) simp

lemma render_append: "render (a @ b) = render a @ render b"
  by (induction a rule: render.induct) simp_all

lemma splitAtFirst_here: "p \<noteq> [] \<Longrightarrow> splitAtFirst p (p @ z) = Some ([], z)"
  by (cases p) simp_all

lemma splitAtFirst_miss:
  "\<not> prefix p (c # x) \<Longrightarrow>
   splitAtFirst p (c # x) = map_option (\<lambda>(b, a). (c # b, a)) (splitAtFirst p x)"
  by simp

lemma map_pair_comp:
  "map_option (\<lambda>(b, a). (F b, a)) (map_option (\<lambda>(b, a). (G b, a)) x) =
   map_option (\<lambda>(b, a). (F (G b), a)) x"
  by (cases x) auto

text \<open>No placeholder begins inside a run of characters other than \<open>%\<close>.\<close>

lemma skip_chars:
  assumes "p = CHR ''%'' # r" and "CHR ''%'' \<notin> set s"
  shows "splitAtFirst p (s @ x) = map_option (\<lambda>(b, a). (s @ b, a)) (splitAtFirst p x)"
  using assms(2)
proof (induction s)
  case Nil
  show ?case by (simp add: option.map_ident)
next
  case (Cons c s)
  then have c: "c \<noteq> CHR ''%''" and s: "CHR ''%'' \<notin> set s" by auto
  have "\<not> prefix p (c # (s @ x))" using c assms(1) by simp
  then have "splitAtFirst p (c # (s @ x)) =
      map_option (\<lambda>(b, a). (c # b, a)) (splitAtFirst p (s @ x))"
    by (rule splitAtFirst_miss)
  then show ?case by (simp add: Cons.IH [OF s] map_pair_comp)
qed

text \<open>A run of name characters that ends at \<open>%\<close> does not fit one that ends otherwise.\<close>

lemma name_run:
  assumes "\<not> nameChar d" and "d \<noteq> CHR ''%''"
  shows "list_all nameChar N \<Longrightarrow> list_all nameChar T \<Longrightarrow> \<not> prefix (N @ ''%'') (T @ d # z)"
proof (induction N arbitrary: T)
  case Nil
  then show ?case using assms nameChar_percent by (cases T) auto
next
  case (Cons n N)
  then show ?case using assms by (cases T) auto
qed

lemma name_run_eq:
  "list_all nameChar N \<Longrightarrow> list_all nameChar M \<Longrightarrow> prefix (N @ ''%'') (M @ CHR ''%'' # y) \<Longrightarrow>
   N = M"
proof (induction N arbitrary: M)
  case Nil
  then show ?case using nameChar_percent by (cases M) auto
next
  case (Cons n N)
  then show ?case using nameChar_percent by (cases M) auto
qed

lemma guarded_no_start:
  assumes p: "placeholderShape p" and g: "guarded (c # s)"
  shows "\<not> prefix p (c # s @ x)"
proof (cases "c = CHR ''%''")
  case False
  with p show ?thesis by (auto elim: placeholder_shape)
next
  case True
  from p obtain name where ps: "p = CHR ''%'' # name @ ''%''" and n: "list_all nameChar name"
    by (rule placeholder_shape)
  from g True obtain d rest where d: "dropWhile nameChar s = d # rest" and dp: "d \<noteq> CHR ''%''"
    by (auto split: list.splits)
  have dn: "\<not> nameChar d"
    using d by (metis hd_dropWhile list.distinct(1) list.sel(1))
  have "s = takeWhile nameChar s @ d # rest"
    using d by (metis takeWhile_dropWhile_id)
  then have sx: "s @ x = takeWhile nameChar s @ d # (rest @ x)"
    by (metis append.assoc append_Cons)
  have t: "list_all nameChar (takeWhile nameChar s)"
    by (simp add: list_all_iff) (meson set_takeWhileD)
  from name_run [OF dn dp n t, of "rest @ x"] show ?thesis
    unfolding ps True sx [symmetric] by simp
qed

lemma guarded_tail: "guarded (c # s) \<Longrightarrow> guarded s"
  by simp

lemma skip_text:
  assumes "placeholderShape p"
  shows "guarded s \<Longrightarrow>
         splitAtFirst p (s @ x) = map_option (\<lambda>(b, a). (s @ b, a)) (splitAtFirst p x)"
proof (induction s)
  case Nil
  show ?case by (simp add: option.map_ident)
next
  case (Cons c s)
  from guarded_no_start [OF assms Cons.prems, of x]
  have "splitAtFirst p (c # (s @ x)) =
      map_option (\<lambda>(b, a). (c # b, a)) (splitAtFirst p (s @ x))"
    by (intro splitAtFirst_miss) simp
  then show ?case
    using Cons.IH [OF guarded_tail [OF Cons.prems]] by (simp add: map_pair_comp)
qed

lemma shaped_prefix:
  assumes "placeholderShape p" and "placeholderShape q" and "prefix p (q @ y)"
  shows "p = q"
proof -
  from assms(1) obtain N where p: "p = CHR ''%'' # N @ ''%''" and n: "list_all nameChar N"
    by (rule placeholder_shape)
  from assms(2) obtain M where q: "q = CHR ''%'' # M @ ''%''" and m: "list_all nameChar M"
    by (rule placeholder_shape)
  from assms(3) have "prefix (N @ ''%'') (M @ CHR ''%'' # y)"
    by (simp add: p q)
  with n m have "N = M" by (rule name_run_eq)
  then show ?thesis by (simp add: p q)
qed

lemma skip_hole:
  assumes p: "placeholderShape p" and q: "placeholderShape q" and pq: "p \<noteq> q"
    and y: "y = [] \<or> \<not> nameChar (hd y)"
  shows "splitAtFirst p (q @ y) = map_option (\<lambda>(b, a). (q @ b, a)) (splitAtFirst p y)"
proof -
  from q obtain M where qs: "q = CHR ''%'' # M @ ''%''" and m: "list_all nameChar M"
    by (rule placeholder_shape)
  from p obtain N where ps: "p = CHR ''%'' # N @ ''%''" and n: "N \<noteq> []" "list_all nameChar N"
    by (rule placeholder_shape)
  from n obtain a N' where N: "N = a # N'" and a: "nameChar a"
    by (cases N) auto
  have 0: "\<not> prefix p (q @ y)"
    using shaped_prefix [OF p q] pq by blast
  have 1: "\<not> prefix p (CHR ''%'' # y)"
  proof (cases y)
    case Nil
    then show ?thesis by (simp add: ps N)
  next
    case (Cons c z)
    with y have "\<not> nameChar c" by simp
    with a have "a \<noteq> c" by auto
    then show ?thesis by (simp add: ps N Cons)
  qed
  define t where "t = M @ (CHR ''%'' # y)"
  have qy: "q @ y = CHR ''%'' # t" by (simp add: qs t_def)
  from 0 have "splitAtFirst p (CHR ''%'' # t) =
      map_option (\<lambda>(b, a). (CHR ''%'' # b, a)) (splitAtFirst p t)"
    unfolding qy by (rule splitAtFirst_miss)
  moreover have "splitAtFirst p t =
      map_option (\<lambda>(b, a). (M @ b, a)) (splitAtFirst p (CHR ''%'' # y))"
    unfolding t_def using ps names_no_percent [OF m] by (rule skip_chars)
  moreover from 1 have "splitAtFirst p (CHR ''%'' # y) =
      map_option (\<lambda>(b, a). (CHR ''%'' # b, a)) (splitAtFirst p y)"
    by (rule splitAtFirst_miss)
  ultimately show ?thesis
    by (simp add: qy map_pair_comp) (simp add: qs)
qed

lemma mayFollow_render: "mayFollow ps \<Longrightarrow> render ps = [] \<or> \<not> nameChar (hd (render ps))"
  by (induction ps rule: mayFollow.induct) (auto split: if_splits)

lemma mayFollow_before: "mayFollow (a @ Hole p # b) \<Longrightarrow> mayFollow (a @ c)"
  by (induction a rule: mayFollow.induct) (auto split: if_splits)

lemma mayFollow_append: "mayFollow a \<Longrightarrow> mayFollow b \<Longrightarrow> mayFollow (a @ b)"
  by (induction a rule: mayFollow.induct) (auto split: if_splits)

lemma wellFormed_tail: "wellFormed (x # ps) \<Longrightarrow> wellFormed ps"
  by (cases x) simp_all

lemma wellFormed_append:
  "wellFormed a \<Longrightarrow> wellFormed b \<Longrightarrow> mayFollow b \<Longrightarrow> wellFormed (a @ b)"
  by (induction a rule: wellFormed.induct) (simp_all add: mayFollow_append)

lemma mayFollow_splice: "mayFollow ps \<Longrightarrow> mayFollow (splice p fragment ps)"
  by (induction ps rule: mayFollow.induct) (auto split: if_splits)

lemma wellFormed_splice:
  "wellFormed qs \<Longrightarrow> wellFormed fragment \<Longrightarrow> wellFormed (splice p fragment qs)"
  by (induction p fragment qs rule: splice.induct)
     (simp_all add: wellFormed_append mayFollow_splice)

lemma skip_pieces:
  assumes "placeholderShape p"
  shows "wellFormed (pre @ rest) \<Longrightarrow> Hole p \<notin> set pre \<Longrightarrow>
         splitAtFirst p (render (pre @ rest)) =
         map_option (\<lambda>(b, a). (render pre @ b, a)) (splitAtFirst p (render rest))"
proof (induction pre)
  case Nil
  show ?case by (simp add: option.map_ident)
next
  case (Cons x pre)
  from Cons.prems have wf': "wellFormed (pre @ rest)" and np: "Hole p \<notin> set pre"
    by (auto dest: wellFormed_tail)
  note IH = Cons.IH [OF wf' np]
  show ?case
  proof (cases x)
    case (Text s)
    with Cons.prems have "guarded s" by simp
    with assms have "splitAtFirst p (s @ render (pre @ rest)) =
        map_option (\<lambda>(b, a). (s @ b, a)) (splitAtFirst p (render (pre @ rest)))"
      by (rule skip_text)
    then show ?thesis
      by (simp add: Text IH map_pair_comp)
  next
    case (Hole q)
    with Cons.prems have q: "placeholderShape q" and f: "mayFollow (pre @ rest)" and pq: "p \<noteq> q"
      by auto
    from skip_hole [OF assms q pq mayFollow_render [OF f]]
    show ?thesis
      by (simp add: Hole IH map_pair_comp)
  qed
qed

lemma getSubstitution_plain: "plain r \<Longrightarrow> getSubstitution m b a r = r"
  by (induction m b a r rule: getSubstitution.induct) auto

lemma splice_absent: "Hole p \<notin> set qs \<Longrightarrow> splice p fragment qs = qs"
  by (induction p fragment qs rule: splice.induct) auto

lemma splice_first:
  "Hole p \<notin> set pre \<Longrightarrow> splice p fragment (pre @ Hole p # post) = pre @ fragment @ post"
  by (induction p fragment pre rule: splice.induct) auto

text \<open>
  One step of the assembly on a well-formed text: the first occurrence of the
  placeholder is its first hole.
\<close>

lemma replace_splice:
  assumes wf: "wellFormed qs" and p: "placeholderShape p" and f: "plain (render fragment)"
  shows "replace p (render fragment) (render qs) = render (splice p fragment qs)"
proof (cases "Hole p \<in> set qs")
  case False
  from skip_pieces [OF p, of qs "[]"] wf False
  have "splitAtFirst p (render qs) = None"
    by (simp add: placeholder_nonempty [OF p])
  then show ?thesis by (simp add: replace_def splice_absent [OF False])
next
  case True
  then obtain pre post where qs: "qs = pre @ Hole p # post" and pre: "Hole p \<notin> set pre"
    by (auto dest: split_list_first)
  from skip_pieces [OF p, of pre "Hole p # post"] wf pre
  have "splitAtFirst p (render qs) =
      map_option (\<lambda>(b, a). (render pre @ b, a)) (splitAtFirst p (p @ render post))"
    by (simp add: qs)
  then have "splitAtFirst p (render qs) = Some (render pre, render post)"
    by (simp add: splitAtFirst_here [OF placeholder_nonempty [OF p]])
  then have "replace p (render fragment) (render qs) = render pre @ render fragment @ render post"
    by (simp add: replace_def getSubstitution_plain [OF f])
  then show ?thesis
    by (simp add: qs splice_first [OF pre] render_append)
qed

lemma replaceEach_splice:
  assumes "\<forall>(p, fragment) \<in> set steps.
             placeholderShape p \<and> wellFormed fragment \<and> plain (render fragment)"
  shows "wellFormed qs \<Longrightarrow>
         replaceEach (map (\<lambda>(p, fragment). (p, render fragment)) steps) (render qs) =
         render (spliceEach steps qs)"
  using assms
proof (induction steps arbitrary: qs)
  case Nil
  show ?case by (simp add: replaceEach_def spliceEach_def)
next
  case (Cons step steps)
  obtain p fragment where step: "step = (p, fragment)" by (cases step)
  from Cons.prems step have p: "placeholderShape p" and w: "wellFormed fragment"
    and f: "plain (render fragment)"
    and rest: "\<forall>(p, fragment) \<in> set steps.
                 placeholderShape p \<and> wellFormed fragment \<and> plain (render fragment)"
    by auto
  have "replaceEach (map (\<lambda>(p, fragment). (p, render fragment)) (step # steps)) (render qs) =
      replaceEach (map (\<lambda>(p, fragment). (p, render fragment)) steps)
        (replace p (render fragment) (render qs))"
    by (simp add: replaceEach_def step)
  also have "replace p (render fragment) (render qs) = render (splice p fragment qs)"
    using Cons.prems(1) p f by (rule replace_splice)
  also have "replaceEach (map (\<lambda>(p, fragment). (p, render fragment)) steps)
        (render (splice p fragment qs)) = render (spliceEach steps (splice p fragment qs))"
    using wellFormed_splice [OF Cons.prems(1) w] rest by (rule Cons.IH)
  also have "\<dots> = render (spliceEach (step # steps) qs)"
    by (simp add: spliceEach_def step)
  finally show ?case .
qed

text \<open>When no fragment has a hole and no hole occurs twice, every hole is filled.\<close>

lemma plug_absent: "Hole p \<notin> set ps \<Longrightarrow> map (plug p f) ps = ps"
proof (induction ps)
  case Nil show ?case by simp
next
  case (Cons x ps)
  then show ?case by (cases x) auto
qed

lemma holes_mem: "p \<in> set (holes ps) \<longleftrightarrow> Hole p \<in> set ps"
  by (induction ps rule: holes.induct) auto

lemma holes_plug: "holes (map (plug p f) qs) = removeAll p (holes qs)"
  by (induction qs rule: holes.induct) auto

lemma splice_plug: "distinct (holes qs) \<Longrightarrow> splice p [Text f] qs = map (plug p f) qs"
  by (induction p "[Text f]" qs rule: splice.induct)
     (auto simp add: holes_mem plug_absent)

lemma fill_Nil: "fill [] qs = render qs"
  by (induction qs rule: render.induct) simp_all

lemma fill_plug:
  "p \<notin> fst ` set steps \<Longrightarrow> fill steps (map (plug p f) qs) = fill ((p, f) # steps) qs"
proof (induction qs rule: render.induct)
  case 1 show ?case by simp
next
  case (2 s ps) then show ?case by simp
next
  case (3 q ps)
  then show ?case by (auto simp: map_of_eq_None_iff [symmetric] simp del: map_of_eq_None_iff)
qed

lemma spliceEach_fill:
  "distinct (map fst steps) \<Longrightarrow> distinct (holes qs) \<Longrightarrow>
   render (spliceEach (map (\<lambda>(p, f). (p, [Text f])) steps) qs) = fill steps qs"
proof (induction steps arbitrary: qs)
  case Nil
  show ?case by (simp add: spliceEach_def fill_Nil)
next
  case (Cons step steps)
  obtain p f where step: "step = (p, f)" by (cases step)
  from Cons.prems step have np: "p \<notin> fst ` set steps" and ds: "distinct (map fst steps)"
    by auto
  have "spliceEach (map (\<lambda>(p, f). (p, [Text f])) (step # steps)) qs =
      spliceEach (map (\<lambda>(p, f). (p, [Text f])) steps) (map (plug p f) qs)"
    by (simp add: spliceEach_def step splice_plug [OF Cons.prems(2)])
  moreover have "render (spliceEach (map (\<lambda>(p, f). (p, [Text f])) steps) (map (plug p f) qs)) =
      fill steps (map (plug p f) qs)"
    using ds Cons.prems(2) by (intro Cons.IH) (simp_all add: holes_plug distinct_removeAll)
  moreover have "fill steps (map (plug p f) qs) = fill (step # steps) qs"
    unfolding step using np by (rule fill_plug)
  ultimately show ?case by simp
qed

lemma generateSolidityContract_chain:
  "generateSolidityContract parse process compress nts stack code t =
     bindE (contractFragments parse process compress nts stack code)
       (\<lambda>fs. Inr (replaceEach (zip placeholderNames fs) t))"
  by (simp add: generateSolidityContract_def contractFragments_def bindE_def Let_def
      placeholderNames_def replaceEach_def split: sum.splits)

text \<open>
  C2, as the code has it. The assembly replaces the thirteen placeholders one
  after the other, each time in the whole text built so far and only at the
  first occurrence, wherever that occurrence comes from. Let the template and
  the fragments be well-formed sequences of texts and placeholders, and let the
  fragments be plain and none of them throw. Then the contract is the template
  in which each step, in its turn, has put its fragment in place of the first
  hole of its placeholder that is left, be it a hole of the template or a hole
  of a fragment put in before. If moreover no fragment has a hole and no hole
  occurs twice in the template, each placeholder of the template is replaced
  exactly once, by its own fragment, and the texts around the placeholders are
  unchanged.
\<close>

theorem assembly_fills_template:
  assumes fr: "contractFragments parse process compress nts stack code = Inr fs"
    and fps: "map render fps = fs" and wfs: "list_all wellFormed fps"
    and pl: "list_all plain fs" and wf: "wellFormed pieces"
  shows "generateSolidityContract parse process compress nts stack code (render pieces) =
           Inr (render (spliceEach (zip placeholderNames fps) pieces)) \<and>
         (fps = map (\<lambda>f. [Text f]) fs \<and> distinct (holes pieces) \<longrightarrow>
            render (spliceEach (zip placeholderNames fps) pieces) =
              fill (zip placeholderNames fs) pieces)"
proof
  have z: "zip placeholderNames fs =
      map (\<lambda>(p, fragment). (p, render fragment)) (zip placeholderNames fps)"
    unfolding fps [symmetric] by (rule zip_map2)
  have "\<forall>(p, fragment) \<in> set (zip placeholderNames fps).
          placeholderShape p \<and> wellFormed fragment \<and> plain (render fragment)"
  proof (clarify, intro conjI)
    fix p fragment
    assume m: "(p, fragment) \<in> set (zip placeholderNames fps)"
    then have "p \<in> set placeholderNames" and f: "fragment \<in> set fps"
      by (auto dest: set_zip_leftD set_zip_rightD)
    then show "placeholderShape p"
      using placeholders_shaped by (simp add: list_all_iff)
    from f wfs show "wellFormed fragment"
      by (simp add: list_all_iff)
    from f fps have "render fragment \<in> set fs" by auto
    with pl show "plain (render fragment)"
      by (simp add: list_all_iff)
  qed
  then have "replaceEach (zip placeholderNames fs) (render pieces) =
      render (spliceEach (zip placeholderNames fps) pieces)"
    unfolding z using wf by (intro replaceEach_splice)
  then show "generateSolidityContract parse process compress nts stack code (render pieces) =
      Inr (render (spliceEach (zip placeholderNames fps) pieces))"
    by (simp add: generateSolidityContract_chain fr bindE_def)
next
  show "fps = map (\<lambda>f. [Text f]) fs \<and> distinct (holes pieces) \<longrightarrow>
      render (spliceEach (zip placeholderNames fps) pieces) = fill (zip placeholderNames fs) pieces"
  proof
    assume a: "fps = map (\<lambda>f. [Text f]) fs \<and> distinct (holes pieces)"
    then have z: "zip placeholderNames fps =
        map (\<lambda>(p, f). (p, [Text f])) (zip placeholderNames fs)"
      by (simp add: zip_map2)
    have "distinct (map fst (zip placeholderNames fs))"
      by (simp add: map_fst_zip_take placeholderNames_def)
    with a show "render (spliceEach (zip placeholderNames fps) pieces) =
        fill (zip placeholderNames fs) pieces"
      unfolding z by (intro spliceEach_fill) simp_all
  qed
qed

text \<open>
  The fragments of sketch A and of sketch E, with the sample chunk list.
\<close>

lemma fragments_A:
  \<open>contractFragments acorn_sample sample_process sample_compress sample_nts 16 sketch_A =
     Inr [''NFTCollection'',
          ''address private constant A = 0xAA;'',
          ''uint256 private constant A_INDEX = 0;'',
          ''string private constant CHUNK_0 = "Y29uc3QgQSA9IEZvcm1h";'' @ [CHR 0x0A, CHR 0x0A] @
          ''uint256 private constant CHUNK_COUNT = 1;'',
          ''_traitRegistry[A_INDEX].push(TraitRegistry("asString", "Color"));'' @ [CHR 0x0A] @
          ''_traitRegistrySize[A_INDEX] = 1;'',
          ''uint256 tokenId_A = _tokenIds[A_INDEX];'',
          ''require(IERC721(A).ownerOf(tokenId_A) == _msgSender(), "Not the owner of required A");'',
          ''string memory metadata_A = A.getTokenMetadata(tokenId_A);'',
          ''string memory A_jsField = generateCollectionTraitJS("A", A, A_INDEX, tokenId_A);'',
          [CHR 0x0A] @ ''        string memory allTraits = string(abi.encodePacked(A_jsField));'' @
          [CHR 0x0A] @ ''    '',
          ''CHUNK_0'',
          ''string memory tokenMetadata = "{}";'' @ [CHR 0x0A] @
          ''tokenMetadata = tokenMetadata'' @ [CHR 0x0A] @
          ''    .setTokenAttribute("a_metadata", metadata_A)'' @ [CHR 0x0A] @
          ''    .setTokenAttribute("canvas", canvasBase64);'',
          ''_cementTokenMetadata(newTokenId);'']\<close>
  by code_simp

lemma fragments_E:
  \<open>contractFragments acorn_sample sample_process sample_compress sample_nts 16 sketch_E =
     Inr [''NFTCollection'',
          ''address private constant A = 0xAA;'',
          ''uint256 private constant A_INDEX = 0;'',
          ''string private constant CHUNK_0 = "Y29uc3QgQSA9IEZvcm1h";'' @ [CHR 0x0A, CHR 0x0A] @
          ''uint256 private constant CHUNK_COUNT = 1;'',
          ''_traitRegistry[A_INDEX].push(TraitRegistry("asString", "%ID_MAPPING%"));'' @
          [CHR 0x0A] @ ''_traitRegistrySize[A_INDEX] = 1;'',
          ''uint256 tokenId_A = _tokenIds[A_INDEX];'',
          ''require(IERC721(A).ownerOf(tokenId_A) == _msgSender(), "Not the owner of required A");'',
          ''string memory metadata_A = A.getTokenMetadata(tokenId_A);'',
          ''string memory A_jsField = generateCollectionTraitJS("A", A, A_INDEX, tokenId_A);'',
          [CHR 0x0A] @ ''        string memory allTraits = string(abi.encodePacked(A_jsField));'' @
          [CHR 0x0A] @ ''    '',
          ''CHUNK_0'',
          ''string memory tokenMetadata = "{}";'' @ [CHR 0x0A] @
          ''tokenMetadata = tokenMetadata'' @ [CHR 0x0A] @
          ''    .setTokenAttribute("a_metadata", metadata_A)'' @ [CHR 0x0A] @
          ''    .setTokenAttribute("canvas", canvasBase64);'',
          ''_cementTokenMetadata(newTokenId);'']\<close>
  by code_simp

text \<open>
  C2 on sketch A and the sample template: the template is well formed, the
  fragments are texts without a placeholder, and the contract is the template
  with every placeholder filled. And C2 on sketch E and the excerpt of the
  template: the fragment of the traits has a hole for \<open>%ID_MAPPING%\<close>, the first
  one in the text when the step of that placeholder comes, and this hole is
  filled in place of the hole of the template.
\<close>

theorem assembly_fills_template_witness:
  \<open>wellFormed sample_pieces \<and> distinct (holes sample_pieces) \<and>
   generateSolidityContract acorn_sample sample_process sample_compress sample_nts 16 sketch_A
     (render sample_pieces) =
     Inr (''contract NFTCollection {'' @ [CHR 0x0A] @
          ''address private constant A = 0xAA;'' @ [CHR 0x0A, CHR 0x0A] @
          ''uint256 private constant A_INDEX = 0;'' @ [CHR 0x0A, CHR 0x0A] @
          ''string private constant CHUNK_0 = "Y29uc3QgQSA9IEZvcm1h";'' @ [CHR 0x0A, CHR 0x0A] @
          ''uint256 private constant CHUNK_COUNT = 1;'' @ [CHR 0x0A, CHR 0x0A] @
          ''constructor() {'' @ [CHR 0x0A] @
          ''_traitRegistry[A_INDEX].push(TraitRegistry("asString", "Color"));'' @ [CHR 0x0A] @
          ''_traitRegistrySize[A_INDEX] = 1;'' @ [CHR 0x0A] @
          ''}'' @ [CHR 0x0A, CHR 0x0A] @
          ''function mint(address _to, uint256[] memory _tokenIds) external {'' @ [CHR 0x0A] @
          ''uint256 tokenId_A = _tokenIds[A_INDEX];'' @ [CHR 0x0A] @
          ''require(IERC721(A).ownerOf(tokenId_A) == _msgSender(), "Not the owner of required A");'' @
          [CHR 0x0A] @
          ''string memory metadata_A = A.getTokenMetadata(tokenId_A);'' @ [CHR 0x0A] @
          ''string memory A_jsField = generateCollectionTraitJS("A", A, A_INDEX, tokenId_A);'' @
          [CHR 0x0A, CHR 0x0A] @
          ''        string memory allTraits = string(abi.encodePacked(A_jsField));'' @
          [CHR 0x0A] @ ''    '' @ [CHR 0x0A, CHR 0x0A] @
          ''string memory tokenMetadata = "{}";'' @ [CHR 0x0A] @
          ''tokenMetadata = tokenMetadata'' @ [CHR 0x0A] @
          ''    .setTokenAttribute("a_metadata", metadata_A)'' @ [CHR 0x0A] @
          ''    .setTokenAttribute("canvas", canvasBase64);'' @ [CHR 0x0A, CHR 0x0A] @
          ''_cementTokenMetadata(newTokenId);'' @ [CHR 0x0A] @
          ''}'' @ [CHR 0x0A, CHR 0x0A] @
          ''function _getP5Base() internal view returns (string memory) {'' @ [CHR 0x0A] @
          ''return string(abi.encodePacked(CHUNK_0));'' @ [CHR 0x0A] @
          ''}'' @ [CHR 0x0A] @ ''}'' @ [CHR 0x0A]) \<and>
   wellFormed excerpt_pieces \<and>
   generateSolidityContract acorn_sample sample_process sample_compress sample_nts 16 sketch_E
     (render excerpt_pieces) =
     Inr (''constructor() {'' @ [CHR 0x0A] @
          ''_traitRegistry[A_INDEX].push(TraitRegistry("asString", "uint256 tokenId_A = _tokenIds[A_INDEX];"));'' @
          [CHR 0x0A] @
          ''_traitRegistrySize[A_INDEX] = 1;'' @ [CHR 0x0A] @
          ''}'' @ [CHR 0x0A] @
          ''function mint() {'' @ [CHR 0x0A] @
          ''%ID_MAPPING%'' @ [CHR 0x0A] @
          ''}'' @ [CHR 0x0A])\<close>
proof -
  define fs where "fs = projr (contractFragments acorn_sample sample_process sample_compress
    sample_nts 16 sketch_A)"
  have f: "contractFragments acorn_sample sample_process sample_compress sample_nts 16 sketch_A =
      Inr fs"
    unfolding fs_def fragments_A by simp
  have v: \<open>fs = [''NFTCollection'',
          ''address private constant A = 0xAA;'',
          ''uint256 private constant A_INDEX = 0;'',
          ''string private constant CHUNK_0 = "Y29uc3QgQSA9IEZvcm1h";'' @ [CHR 0x0A, CHR 0x0A] @
          ''uint256 private constant CHUNK_COUNT = 1;'',
          ''_traitRegistry[A_INDEX].push(TraitRegistry("asString", "Color"));'' @ [CHR 0x0A] @
          ''_traitRegistrySize[A_INDEX] = 1;'',
          ''uint256 tokenId_A = _tokenIds[A_INDEX];'',
          ''require(IERC721(A).ownerOf(tokenId_A) == _msgSender(), "Not the owner of required A");'',
          ''string memory metadata_A = A.getTokenMetadata(tokenId_A);'',
          ''string memory A_jsField = generateCollectionTraitJS("A", A, A_INDEX, tokenId_A);'',
          [CHR 0x0A] @ ''        string memory allTraits = string(abi.encodePacked(A_jsField));'' @
          [CHR 0x0A] @ ''    '',
          ''CHUNK_0'',
          ''string memory tokenMetadata = "{}";'' @ [CHR 0x0A] @
          ''tokenMetadata = tokenMetadata'' @ [CHR 0x0A] @
          ''    .setTokenAttribute("a_metadata", metadata_A)'' @ [CHR 0x0A] @
          ''    .setTokenAttribute("canvas", canvasBase64);'',
          ''_cementTokenMetadata(newTokenId);'']\<close>
    unfolding fs_def fragments_A by simp
  have 1: "wellFormed sample_pieces"
    by (simp add: sample_pieces_def placeholderShape_def nameChar_def)
  have 2: "distinct (holes sample_pieces)"
    by (simp add: sample_pieces_def)
  have 3: "map render (map (\<lambda>f. [Text f]) fs) = fs"
    by (simp add: comp_def)
  have 4: "list_all wellFormed (map (\<lambda>f. [Text f]) fs)"
    unfolding v by simp
  have 5: "list_all plain fs"
    unfolding v by simp
  from assembly_fills_template [OF f 3 4 5 1] 2
  have "generateSolidityContract acorn_sample sample_process sample_compress sample_nts 16 sketch_A
     (render sample_pieces) = Inr (fill (zip placeholderNames fs) sample_pieces)"
    by simp
  then have a: \<open>generateSolidityContract acorn_sample sample_process sample_compress sample_nts 16
     sketch_A (render sample_pieces) =
     Inr (''contract NFTCollection {'' @ [CHR 0x0A] @
          ''address private constant A = 0xAA;'' @ [CHR 0x0A, CHR 0x0A] @
          ''uint256 private constant A_INDEX = 0;'' @ [CHR 0x0A, CHR 0x0A] @
          ''string private constant CHUNK_0 = "Y29uc3QgQSA9IEZvcm1h";'' @ [CHR 0x0A, CHR 0x0A] @
          ''uint256 private constant CHUNK_COUNT = 1;'' @ [CHR 0x0A, CHR 0x0A] @
          ''constructor() {'' @ [CHR 0x0A] @
          ''_traitRegistry[A_INDEX].push(TraitRegistry("asString", "Color"));'' @ [CHR 0x0A] @
          ''_traitRegistrySize[A_INDEX] = 1;'' @ [CHR 0x0A] @
          ''}'' @ [CHR 0x0A, CHR 0x0A] @
          ''function mint(address _to, uint256[] memory _tokenIds) external {'' @ [CHR 0x0A] @
          ''uint256 tokenId_A = _tokenIds[A_INDEX];'' @ [CHR 0x0A] @
          ''require(IERC721(A).ownerOf(tokenId_A) == _msgSender(), "Not the owner of required A");'' @
          [CHR 0x0A] @
          ''string memory metadata_A = A.getTokenMetadata(tokenId_A);'' @ [CHR 0x0A] @
          ''string memory A_jsField = generateCollectionTraitJS("A", A, A_INDEX, tokenId_A);'' @
          [CHR 0x0A, CHR 0x0A] @
          ''        string memory allTraits = string(abi.encodePacked(A_jsField));'' @
          [CHR 0x0A] @ ''    '' @ [CHR 0x0A, CHR 0x0A] @
          ''string memory tokenMetadata = "{}";'' @ [CHR 0x0A] @
          ''tokenMetadata = tokenMetadata'' @ [CHR 0x0A] @
          ''    .setTokenAttribute("a_metadata", metadata_A)'' @ [CHR 0x0A] @
          ''    .setTokenAttribute("canvas", canvasBase64);'' @ [CHR 0x0A, CHR 0x0A] @
          ''_cementTokenMetadata(newTokenId);'' @ [CHR 0x0A] @
          ''}'' @ [CHR 0x0A, CHR 0x0A] @
          ''function _getP5Base() internal view returns (string memory) {'' @ [CHR 0x0A] @
          ''return string(abi.encodePacked(CHUNK_0));'' @ [CHR 0x0A] @
          ''}'' @ [CHR 0x0A] @ ''}'' @ [CHR 0x0A])\<close>
    unfolding v by (simp add: sample_pieces_def placeholderNames_def)
  define gs where "gs = projr (contractFragments acorn_sample sample_process sample_compress
    sample_nts 16 sketch_E)"
  have g: "contractFragments acorn_sample sample_process sample_compress sample_nts 16 sketch_E =
      Inr gs"
    unfolding gs_def fragments_E by simp
  have w: \<open>gs = [''NFTCollection'',
          ''address private constant A = 0xAA;'',
          ''uint256 private constant A_INDEX = 0;'',
          ''string private constant CHUNK_0 = "Y29uc3QgQSA9IEZvcm1h";'' @ [CHR 0x0A, CHR 0x0A] @
          ''uint256 private constant CHUNK_COUNT = 1;'',
          ''_traitRegistry[A_INDEX].push(TraitRegistry("asString", "%ID_MAPPING%"));'' @
          [CHR 0x0A] @ ''_traitRegistrySize[A_INDEX] = 1;'',
          ''uint256 tokenId_A = _tokenIds[A_INDEX];'',
          ''require(IERC721(A).ownerOf(tokenId_A) == _msgSender(), "Not the owner of required A");'',
          ''string memory metadata_A = A.getTokenMetadata(tokenId_A);'',
          ''string memory A_jsField = generateCollectionTraitJS("A", A, A_INDEX, tokenId_A);'',
          [CHR 0x0A] @ ''        string memory allTraits = string(abi.encodePacked(A_jsField));'' @
          [CHR 0x0A] @ ''    '',
          ''CHUNK_0'',
          ''string memory tokenMetadata = "{}";'' @ [CHR 0x0A] @
          ''tokenMetadata = tokenMetadata'' @ [CHR 0x0A] @
          ''    .setTokenAttribute("a_metadata", metadata_A)'' @ [CHR 0x0A] @
          ''    .setTokenAttribute("canvas", canvasBase64);'',
          ''_cementTokenMetadata(newTokenId);'']\<close>
    unfolding gs_def fragments_E by simp
  define gps where \<open>gps = (map (\<lambda>f. [Text f]) gs)
    [4 := [Text ''_traitRegistry[A_INDEX].push(TraitRegistry("asString", "'',
           Hole ''%ID_MAPPING%'',
           Text (''"));'' @ [CHR 0x0A] @ ''_traitRegistrySize[A_INDEX] = 1;'')]]\<close>
  have 6: "map render gps = gs"
    unfolding gps_def w by simp
  have 7: "list_all wellFormed gps"
    unfolding gps_def w by (simp add: placeholderShape_def nameChar_def)
  have 8: "list_all plain gs"
    unfolding w by simp
  have 9: "wellFormed excerpt_pieces"
    by (simp add: excerpt_pieces_def placeholderShape_def nameChar_def)
  from assembly_fills_template [OF g 6 7 8 9]
  have "generateSolidityContract acorn_sample sample_process sample_compress sample_nts 16 sketch_E
     (render excerpt_pieces) = Inr (render (spliceEach (zip placeholderNames gps) excerpt_pieces))"
    by blast
  then have b: \<open>generateSolidityContract acorn_sample sample_process sample_compress sample_nts 16
     sketch_E (render excerpt_pieces) =
     Inr (''constructor() {'' @ [CHR 0x0A] @
          ''_traitRegistry[A_INDEX].push(TraitRegistry("asString", "uint256 tokenId_A = _tokenIds[A_INDEX];"));'' @
          [CHR 0x0A] @
          ''_traitRegistrySize[A_INDEX] = 1;'' @ [CHR 0x0A] @
          ''}'' @ [CHR 0x0A] @
          ''function mint() {'' @ [CHR 0x0A] @
          ''%ID_MAPPING%'' @ [CHR 0x0A] @
          ''}'' @ [CHR 0x0A])\<close>
    unfolding gps_def w
    by (simp add: spliceEach_def placeholderNames_def excerpt_pieces_def)
  from 1 2 a 9 b show ?thesis by blast
qed

text \<open>
  C2 as stated fails on sketch E, whose trait key is the text of a placeholder.
  In this excerpt of the template, as in the template of the repository,
  \<open>%COLLECTION_TRAITS%\<close> comes before \<open>%ID_MAPPING%\<close>: the key arrives with the
  fragment of the traits, the next step replaces it, inside the fragment,
  by the fragment of the id mapping, and the placeholder of the template is
  never replaced.
\<close>

theorem resubstitution_counterexample:
  \<open>wellFormed excerpt_pieces \<and> distinct (holes excerpt_pieces) \<and>
   generateSolidityContract acorn_sample sample_process sample_compress sample_nts 16 sketch_E
     (render excerpt_pieces) =
     Inr (''constructor() {'' @ [CHR 0x0A] @
          ''_traitRegistry[A_INDEX].push(TraitRegistry("asString", "uint256 tokenId_A = _tokenIds[A_INDEX];"));'' @
          [CHR 0x0A] @
          ''_traitRegistrySize[A_INDEX] = 1;'' @ [CHR 0x0A] @
          ''}'' @ [CHR 0x0A] @
          ''function mint() {'' @ [CHR 0x0A] @
          ''%ID_MAPPING%'' @ [CHR 0x0A] @
          ''}'' @ [CHR 0x0A])\<close>
proof -
  have 1: "wellFormed excerpt_pieces"
    by (simp add: excerpt_pieces_def placeholderShape_def nameChar_def)
  have 2: "distinct (holes excerpt_pieces)"
    by (simp add: excerpt_pieces_def)
  have 3: \<open>generateSolidityContract acorn_sample sample_process sample_compress sample_nts 16 sketch_E
     (render excerpt_pieces) =
     Inr (''constructor() {'' @ [CHR 0x0A] @
          ''_traitRegistry[A_INDEX].push(TraitRegistry("asString", "uint256 tokenId_A = _tokenIds[A_INDEX];"));'' @
          [CHR 0x0A] @
          ''_traitRegistrySize[A_INDEX] = 1;'' @ [CHR 0x0A] @
          ''}'' @ [CHR 0x0A] @
          ''function mint() {'' @ [CHR 0x0A] @
          ''%ID_MAPPING%'' @ [CHR 0x0A] @
          ''}'' @ [CHR 0x0A])\<close>
    unfolding generateSolidityContract_chain fragments_E
    by (simp add: bindE_def replaceEach_def placeholderNames_def excerpt_pieces_def replace_def)
  from 1 2 3 show ?thesis by blast
qed
section \<open>Properties of the trait-code generator\<close>

lemma run_then:
  assumes "list_all P xs" and "rest = [] \<or> \<not> P (hd rest)"
  shows "takeWhile P (xs @ rest) = xs \<and> dropWhile P (xs @ rest) = rest"
  using assms by (induction xs) (auto simp: takeWhile_eq_Nil_iff dropWhile_eq_self_iff)

subsection \<open>Formatting a value\<close>

lemma takeSign_unsigned: "snd (takeSign s) = unsigned s"
  by (cases s) auto

lemma no_digit_takeWhile: "\<not> startsNumber s \<Longrightarrow> takeWhile isDigit s = []"
  by (cases s rule: startsNumber.cases) auto

lemma no_digit_dropWhile: "\<not> startsNumber s \<Longrightarrow> dropWhile isDigit s = s"
  by (cases s rule: startsNumber.cases) auto

lemma no_digit_hex: "\<not> startsNumber s \<Longrightarrow> \<not> prefix ''0x'' s \<and> \<not> prefix ''0X'' s"
  by (cases s rule: startsNumber.cases) (auto simp: isDigit_def)

lemma no_digit_fraction:
  "\<not> startsNumber s \<Longrightarrow> s \<noteq> [] \<Longrightarrow> hd s = CHR ''.'' \<Longrightarrow> takeWhile isDigit (tl s) = []"
  by (cases s rule: startsNumber.cases) auto

lemma parseInt_noLeadingNumber: "noLeadingNumber text \<Longrightarrow> parseInt double text = NaN"
  unfolding noLeadingNumber_def parseInt_def Let_def
  by (cases "takeSign (trimStart text)")
     (use takeSign_unsigned [of "trimStart text"] in \<open>auto simp: no_digit_takeWhile no_digit_hex\<close>)

lemma parseFloat_noLeadingNumber: "noLeadingNumber text \<Longrightarrow> parseFloat double text = NaN"
  unfolding noLeadingNumber_def parseFloat_def Let_def
  by (cases "takeSign (trimStart text)")
     (use takeSign_unsigned [of "trimStart text"] in
       \<open>auto simp: no_digit_takeWhile no_digit_dropWhile no_digit_fraction split: prod.splits\<close>)

text \<open>The digits that \<open>decimal\<close> writes, read back.\<close>

lemma digitChar_facts:
  "\<forall>d<10. isDigit (digitChar d) \<and> digitValue (digitChar d) = d \<and>
          (digitChar d = CHR ''0'' \<longleftrightarrow> d = 0)"
  by (simp add: eval_nat_numeral All_less_Suc digitChar_def isDigit_def digitValue_def)

lemma isDigit_digitChar: "d < 10 \<Longrightarrow> isDigit (digitChar d)"
  and digitValue_digitChar: "d < 10 \<Longrightarrow> digitValue (digitChar d) = d"
  and digitChar_zero: "d < 10 \<Longrightarrow> digitChar d = CHR ''0'' \<longleftrightarrow> d = 0"
  using digitChar_facts by blast+

lemma decimal_digits: "list_all isDigit (decimal k)"
proof (induction k rule: decimal.induct)
  case (1 n)
  show ?case
  proof (cases "n < 10")
    case True
    then show ?thesis by (subst decimal.simps) (simp add: isDigit_digitChar)
  next
    case False
    with 1 show ?thesis by (subst decimal.simps) (simp add: isDigit_digitChar)
  qed
qed

lemma decimal_nonempty: "decimal k \<noteq> []"
  by (subst decimal.simps) simp

lemma hd_decimal: "hd (decimal k) = CHR ''0'' \<longleftrightarrow> k = 0"
proof (induction k rule: decimal.induct)
  case (1 n)
  show ?case
  proof (cases "n < 10")
    case True
    then show ?thesis by (subst decimal.simps) (simp add: digitChar_zero)
  next
    case False
    then have "n div 10 \<noteq> 0" by simp
    with 1 False show ?thesis
      by (subst decimal.simps) (simp add: decimal_nonempty)
  qed
qed

lemma digitsValue_snoc: "digitsValue r v (a @ [c]) = r * digitsValue r v a + v c"
  by (simp add: digitsValue_def)

lemma digitsValue_decimal: "digitsValue 10 digitValue (decimal k) = k"
proof (induction k rule: decimal.induct)
  case (1 n)
  show ?case
  proof (cases "n < 10")
    case True
    then show ?thesis
      by (subst decimal.simps) (simp add: digitsValue_def digitValue_digitChar)
  next
    case False
    with 1 show ?thesis
      by (subst decimal.simps) (simp add: digitsValue_snoc digitValue_digitChar)
  qed
qed

lemma isDigit_facts:
  "isDigit c \<Longrightarrow> \<not> isSpace c \<and> c \<noteq> CHR ''-'' \<and> c \<noteq> CHR ''+'' \<and> c \<noteq> CHR ''I'' \<and>
     c \<noteq> CHR ''.'' \<and> c \<noteq> CHR ''x'' \<and> c \<noteq> CHR ''X''"
  by (auto simp: isDigit_def isSpace_def)

lemma takeWhile_digits:
  assumes "list_all isDigit ds" and "rest = [] \<or> \<not> isDigit (hd rest)"
  shows "takeWhile isDigit (ds @ rest) = ds" and "dropWhile isDigit (ds @ rest) = rest"
  using run_then [OF assms] by blast+

lemma leading_decimal:
  "trimStart (decimal k @ rest) = decimal k @ rest"
  "takeSign (decimal k @ rest) = (1, decimal k @ rest)"
  "\<not> prefix ''Infinity'' (decimal k @ rest)"
proof -
  obtain c cs where d: "decimal k = c # cs"
    using decimal_nonempty [of k] by (cases "decimal k") auto
  with decimal_digits [of k] have "isDigit c" by simp
  note f = isDigit_facts [OF this]
  show "trimStart (decimal k @ rest) = decimal k @ rest"
    using f by (simp add: d trimStart_def)
  show "takeSign (decimal k @ rest) = (1, decimal k @ rest)"
    using f by (simp add: d)
  show "\<not> prefix ''Infinity'' (decimal k @ rest)"
    using f by (auto simp: d)
qed

lemma decimal_not_hex:
  assumes "\<not> (k = 0 \<and> rest \<noteq> [] \<and> (hd rest = CHR ''x'' \<or> hd rest = CHR ''X''))"
  shows "\<not> prefix ''0x'' (decimal k @ rest)" and "\<not> prefix ''0X'' (decimal k @ rest)"
proof -
  obtain c cs where d: "decimal k = c # cs"
    using decimal_nonempty [of k] by (cases "decimal k") auto
  have c: "c = CHR ''0'' \<longleftrightarrow> k = 0"
    using hd_decimal [of k] by (simp add: d)
  have z: "decimal 0 = ''0''"
    by (subst decimal.simps) (simp add: digitChar_def)
  have n: "cs = [] \<or> isDigit (hd cs)"
    using decimal_digits [of k] by (cases cs) (auto simp: d)
  show "\<not> prefix ''0x'' (decimal k @ rest)"
  proof
    assume p: "prefix ''0x'' (decimal k @ rest)"
    then have "c = CHR ''0''" and t: "prefix ''x'' (cs @ rest)" by (simp_all add: d)
    with c have k: "k = 0" by simp
    with d z have "cs = []" by simp
    with t have "rest \<noteq> [] \<and> hd rest = CHR ''x''" by (cases rest) auto
    with k assms show False by blast
  qed
  show "\<not> prefix ''0X'' (decimal k @ rest)"
  proof
    assume p: "prefix ''0X'' (decimal k @ rest)"
    then have "c = CHR ''0''" and t: "prefix ''X'' (cs @ rest)" by (simp_all add: d)
    with c have k: "k = 0" by simp
    with d z have "cs = []" by simp
    with t have "rest \<noteq> [] \<and> hd rest = CHR ''X''" by (cases rest) auto
    with k assms show False by blast
  qed
qed

lemma parseInt_digits:
  assumes "rest = [] \<or> \<not> isDigit (hd rest)"
    and "\<not> (k = 0 \<and> rest \<noteq> [] \<and> (hd rest = CHR ''x'' \<or> hd rest = CHR ''X''))"
  shows "parseInt double (decimal k @ rest) = number double (real k)"
  by (simp add: parseInt_def leading_decimal decimal_not_hex [OF assms(2)]
      takeWhile_digits [OF decimal_digits assms(1)] decimal_nonempty digitsValue_decimal)

lemma parseFloat_digits:
  assumes "rest = [] \<or> (\<not> isDigit (hd rest) \<and> hd rest \<notin> {CHR ''.'', CHR ''e'', CHR ''E''})"
  shows "parseFloat double (decimal k @ rest) = number double (real k)"
proof -
  from assms have r: "rest = [] \<or> \<not> isDigit (hd rest)" by blast
  show ?thesis
    using assms
    by (auto simp add: parseFloat_def leading_decimal Let_def
        takeWhile_digits [OF decimal_digits r] decimal_nonempty digitsValue_decimal scale10_def)
qed

lemma orElseAny_number: "\<exists>n. orElseAny (JNum x) (JNum (Finite 0)) = JNum n \<and> n \<noteq> NaN"
  by (auto simp: orElseAny_def)

text \<open>
  C7, as the code has it. \<open>formatValue\<close> first turns the value into a text, and
  throws what that conversion throws: a \<open>TypeError\<close> for an object with a field
  named \<open>toString\<close>, alone or inside an array. When the conversion gives a text,
  \<open>asString\<close> gives that text, and \<open>asInt\<close> and \<open>asFloat\<close> give a number other than
  \<open>NaN\<close>: 0 (and 0.0, the same number) for a text without a leading number, and
  for a text that begins with digits the value of these digits, whatever
  follows them.
\<close>

theorem formatValue_coercion:
  "(\<forall>e. anyToString nts v = Inl e \<longrightarrow> formatValue nts double v t = Inl e) \<and>
   (\<forall>text. anyToString nts v = Inr text \<longrightarrow>
      formatValue nts double v asString = Inr (JStr text) \<and>
      (\<exists>n. formatValue nts double v asInt = Inr (JNum n) \<and> n \<noteq> NaN) \<and>
      (\<exists>n. formatValue nts double v asFloat = Inr (JNum n) \<and> n \<noteq> NaN) \<and>
      (noLeadingNumber text \<longrightarrow>
         formatValue nts double v asInt = Inr (JNum (Finite 0)) \<and>
         formatValue nts double v asFloat = Inr (JNum (Finite 0)))) \<and>
   (\<forall>k rest.
      (rest = [] \<or> (\<not> isDigit (hd rest) \<and> hd rest \<notin> {CHR ''.'', CHR ''e'', CHR ''E''})) \<and>
      \<not> (k = 0 \<and> rest \<noteq> [] \<and> (hd rest = CHR ''x'' \<or> hd rest = CHR ''X'')) \<longrightarrow>
      formatValue nts double (JStr (decimal k @ rest)) asInt =
        Inr (orElseAny (JNum (number double (real k))) (JNum (Finite 0))) \<and>
      formatValue nts double (JStr (decimal k @ rest)) asFloat =
        Inr (orElseAny (JNum (number double (real k))) (JNum (Finite 0))))"
proof (intro conjI allI impI)
  fix e assume "anyToString nts v = Inl e"
  then show "formatValue nts double v t = Inl e"
    by (cases t) (simp_all add: formatValue_def bindE_def)
next
  fix s assume a: "anyToString nts v = Inr s"
  show "formatValue nts double v asString = Inr (JStr s)"
    by (simp add: formatValue_def bindE_def a)
  show "\<exists>n. formatValue nts double v asInt = Inr (JNum n) \<and> n \<noteq> NaN"
    using orElseAny_number by (simp add: formatValue_def bindE_def a)
  show "\<exists>n. formatValue nts double v asFloat = Inr (JNum n) \<and> n \<noteq> NaN"
    using orElseAny_number by (simp add: formatValue_def bindE_def a)
  assume n: "noLeadingNumber s"
  show "formatValue nts double v asInt = Inr (JNum (Finite 0))"
    by (simp add: formatValue_def bindE_def a parseInt_noLeadingNumber [OF n] orElseAny_def)
  show "formatValue nts double v asFloat = Inr (JNum (Finite 0))"
    by (simp add: formatValue_def bindE_def a parseFloat_noLeadingNumber [OF n] orElseAny_def)
next
  fix k :: nat and rest :: string
  assume a: "(rest = [] \<or> (\<not> isDigit (hd rest) \<and> hd rest \<notin> {CHR ''.'', CHR ''e'', CHR ''E''})) \<and>
      \<not> (k = 0 \<and> rest \<noteq> [] \<and> (hd rest = CHR ''x'' \<or> hd rest = CHR ''X''))"
  then have 1: "rest = [] \<or> \<not> isDigit (hd rest)"
    and 2: "\<not> (k = 0 \<and> rest \<noteq> [] \<and> (hd rest = CHR ''x'' \<or> hd rest = CHR ''X''))"
    and 3: "rest = [] \<or> (\<not> isDigit (hd rest) \<and> hd rest \<notin> {CHR ''.'', CHR ''e'', CHR ''E''})"
    by blast+
  show "formatValue nts double (JStr (decimal k @ rest)) asInt =
      Inr (orElseAny (JNum (number double (real k))) (JNum (Finite 0)))"
    by (simp add: formatValue_def bindE_def parseInt_digits [OF 1 2])
  show "formatValue nts double (JStr (decimal k @ rest)) asFloat =
      Inr (orElseAny (JNum (number double (real k))) (JNum (Finite 0)))"
    by (simp add: formatValue_def bindE_def parseFloat_digits [OF 3])
qed

text \<open>
  C7 on the value \<open>"blue"\<close>, which has no leading number, on the value
  \<open>"12abc"\<close>, which begins with the digits of 12, and on the object
  \<open>{"toString": "x"}\<close>, which has no text.
\<close>

theorem formatValue_coercion_witness:
  "anyToString sample_nts (JStr ''blue'') = Inr ''blue'' \<and> noLeadingNumber ''blue'' \<and>
   formatValue sample_nts sample_double (JStr ''blue'') asString = Inr (JStr ''blue'') \<and>
   formatValue sample_nts sample_double (JStr ''blue'') asInt = Inr (JNum (Finite 0)) \<and>
   formatValue sample_nts sample_double (JStr ''blue'') asFloat = Inr (JNum (Finite 0)) \<and>
   decimal 12 @ ''abc'' = ''12abc'' \<and>
   formatValue sample_nts sample_double (JStr ''12abc'') asInt = Inr (JNum (Finite 12)) \<and>
   formatValue sample_nts sample_double (JStr ''12abc'') asFloat = Inr (JNum (Finite 12)) \<and>
   anyToString sample_nts (JObject [(''toString'', JStr ''x'')]) =
     Inl (TypeError ''Cannot convert object to primitive value'') \<and>
   formatValue sample_nts sample_double (JObject [(''toString'', JStr ''x'')]) asInt =
     Inl (TypeError ''Cannot convert object to primitive value'')"
proof -
  note main = formatValue_coercion [of sample_nts _ sample_double]
  have a: "anyToString sample_nts (JStr ''blue'') = Inr ''blue''"
    by simp
  have n: "noLeadingNumber ''blue''"
    by (simp add: noLeadingNumber_def trimStart_def isSpace_def isDigit_def)
  from main [of "JStr ''blue''" asInt] a n
  have 1: "formatValue sample_nts sample_double (JStr ''blue'') asString = Inr (JStr ''blue'')"
    and 2: "formatValue sample_nts sample_double (JStr ''blue'') asInt = Inr (JNum (Finite 0))"
    and 3: "formatValue sample_nts sample_double (JStr ''blue'') asFloat = Inr (JNum (Finite 0))"
    by blast+
  have d: "decimal 12 @ ''abc'' = ''12abc''"
    by (simp add: decimal.simps digitChar_def)
  have r: "(''abc'' = [] \<or> (\<not> isDigit (hd ''abc'') \<and> hd ''abc'' \<notin> {CHR ''.'', CHR ''e'', CHR ''E''})) \<and>
      \<not> ((12::nat) = 0 \<and> ''abc'' \<noteq> [] \<and> (hd ''abc'' = CHR ''x'' \<or> hd ''abc'' = CHR ''X''))"
    by (simp add: isDigit_def)
  have o: "orElseAny (JNum (number sample_double (real 12))) (JNum (Finite 0)) = JNum (Finite 12)"
    by (simp add: orElseAny_def number_def sample_double_def)
  from main [of "JStr ''blue''" asInt] r
  have "formatValue sample_nts sample_double (JStr (decimal 12 @ ''abc'')) asInt =
          Inr (orElseAny (JNum (number sample_double (real 12))) (JNum (Finite 0))) \<and>
        formatValue sample_nts sample_double (JStr (decimal 12 @ ''abc'')) asFloat =
          Inr (orElseAny (JNum (number sample_double (real 12))) (JNum (Finite 0)))"
    by blast
  then have 4: "formatValue sample_nts sample_double (JStr ''12abc'') asInt = Inr (JNum (Finite 12))"
    and 5: "formatValue sample_nts sample_double (JStr ''12abc'') asFloat = Inr (JNum (Finite 12))"
    unfolding d o by blast+
  have e: "anyToString sample_nts (JObject [(''toString'', JStr ''x'')]) =
     Inl (TypeError ''Cannot convert object to primitive value'')"
    by simp
  from main [of "JObject [(''toString'', JStr ''x'')]" asInt] e
  have 6: "formatValue sample_nts sample_double (JObject [(''toString'', JStr ''x'')]) asInt =
     Inl (TypeError ''Cannot convert object to primitive value'')"
    by blast
  from a n 1 2 3 d 4 5 e 6 show ?thesis by blast
qed

text \<open>
  C7 as stated fails twice. The conversion to a string is not total: it throws
  for the object \<open>{"toString": "x"}\<close>. And a value that is not numeric need not
  give 0: \<open>"12abc"\<close> is no number, and \<open>asInt\<close> gives 12.
\<close>

theorem formatValue_counterexample:
  "formatValue sample_nts sample_double (JObject [(''toString'', JStr ''x'')]) asString =
     Inl (TypeError ''Cannot convert object to primitive value'') \<and>
   \<not> numericText ''12abc'' \<and>
   formatValue sample_nts sample_double (JStr ''12abc'') asInt = Inr (JNum (Finite 12))"
proof -
  have d: "decimal 12 @ ''abc'' = ''12abc''"
    by (simp add: decimal.simps digitChar_def)
  have "parseInt sample_double (decimal 12 @ ''abc'') = number sample_double (real 12)"
    by (rule parseInt_digits) (simp_all add: isDigit_def)
  then have "parseInt sample_double ''12abc'' = Finite 12"
    unfolding d by (simp add: number_def sample_double_def)
  then have "formatValue sample_nts sample_double (JStr ''12abc'') asInt = Inr (JNum (Finite 12))"
    by (simp add: formatValue_def bindE_def orElseAny_def)
  moreover have "\<not> numericText ''12abc''"
    by (simp add: numericText_def decimalShape_def trim_def trimStart_def isSpace_def isDigit_def)
  moreover have "formatValue sample_nts sample_double (JObject [(''toString'', JStr ''x'')]) asString =
     Inl (TypeError ''Cannot convert object to primitive value'')"
    by (simp add: formatValue_def bindE_def)
  ultimately show ?thesis by blast
qed

subsection \<open>A collection without an address\<close>

lemma formattedOrDefault_empty:
  "formattedOrDefault arrayMethods emptyDictionary key t = Inr (getDefaultValue t)"
  by (simp add: formattedOrDefault_def dictionary_get_def emptyDictionary_def objectMember_def
      Let_def bindE_def)

lemma default_text: "anyToString nts (getDefaultValue t) = Inr (if t = asString then [] else ''0'')"
  by (cases t)
     (simp_all add: getDefaultValue_def isIntegral_def show_int_def digitChar_def decimal.simps)

lemma traitEntry_empty:
  \<open>traitEntry nts arrayMethods emptyDictionary t =
     Inr (''    "'' @ keyText nts t @ ''": {'' @ [CHR 0x0A] @
          ''      '' @ traitTypeName (t_type t) @ ''() {'' @ [CHR 0x0A] @
          ''        return '' @ zeroText (t_type t) @ '';'' @ [CHR 0x0A] @
          ''      }'' @ [CHR 0x0A] @
          ''    },'' @ [CHR 0x0A])\<close>
  by (cases "t_type t")
     (simp_all add: traitEntry_def formattedOrDefault_empty default_text Let_def bindE_def
        zeroText_def replaceAllChar_def keyText_def)

lemma mapE_total: "(\<And>x. f x = Inr (g x)) \<Longrightarrow> mapE f xs = Inr (map g xs)"
  by (induction xs) simp_all

lemma resolveTraits_no_address:
  "\<not> truthy (d_address c) \<Longrightarrow>
   resolveTraits retrieve nts double arrayMethods c tid =
     (emptyDictionary, JNull, unknown, Some ''Collection has no address'')"
  by (simp add: resolveTraits_def)

lemma tokenId_choice:
  "(case d_tokenIndexes c of [] \<Rightarrow> Finite 1 | first # _ \<Rightarrow> first) =
     (if d_tokenIndexes c \<noteq> [] then hd (d_tokenIndexes c) else Finite 1)"
  by (cases "d_tokenIndexes c") simp_all

lemma tokenId_result:
  "generateFormaCollectionCode retrieve nts double arrayMethods c = Inr r \<Longrightarrow>
   cr_tokenId r = (if d_tokenIndexes c \<noteq> [] then hd (d_tokenIndexes c) else Finite 1)"
  unfolding generateFormaCollectionCode_def Let_def tokenId_choice
  by (auto simp: bindE_def split: prod.splits sum.splits)

lemma tokenId_retrieved:
  assumes "other (d_address c) (if d_tokenIndexes c \<noteq> [] then hd (d_tokenIndexes c) else Finite 1) =
           retrieve (d_address c) (if d_tokenIndexes c \<noteq> [] then hd (d_tokenIndexes c) else Finite 1)"
  shows "generateFormaCollectionCode other nts double arrayMethods c =
         generateFormaCollectionCode retrieve nts double arrayMethods c"
  unfolding generateFormaCollectionCode_def Let_def tokenId_choice resolveTraits_def
  by (simp add: assms)

lemma no_address_result:
  assumes "\<not> truthy (d_address c)"
  shows \<open>generateFormaCollectionCode retrieve nts double arrayMethods c =
     Inr \<lparr>cr_collectionName = d_collection c,
          cr_address = VNull,
          cr_code =
            ''const '' @ show_name (d_collection c) @ '' = {'' @ [CHR 0x0A] @
            ''  // Metadata source: unknown'' @ [CHR 0x0A] @
            ''  traits: {'' @ [CHR 0x0A] @
            concat (map (\<lambda>t.
               ''    "'' @ keyText nts t @ ''": {'' @ [CHR 0x0A] @
               ''      '' @ traitTypeName (t_type t) @ ''() {'' @ [CHR 0x0A] @
               ''        return '' @ zeroText (t_type t) @ '';'' @ [CHR 0x0A] @
               ''      }'' @ [CHR 0x0A] @
               ''    },'' @ [CHR 0x0A]) (d_traits c)) @
            fragmentEnd,
          cr_metadataSource = unknown,
          cr_traitValues = emptyDictionary,
          cr_metadata = JNull,
          cr_tokenId = (if d_tokenIndexes c \<noteq> [] then hd (d_tokenIndexes c) else Finite 1),
          cr_success = False,
          cr_error = Some ''Collection has no address''\<rparr>\<close>
  unfolding generateFormaCollectionCode_def Let_def tokenId_choice
    resolveTraits_no_address [OF assms]
  using assms
  by (simp add: generateCode_def bindE_def mapE_total [OF traitEntry_empty] sourceTypeName_def
      fragmentEnd_def orElse_def)

text \<open>Reading back what was written.\<close>

lemma expect_simps:
  "expect [] s = Some s"
  "expect (c # p) [] = None"
  "expect (c # p) (d # s) = (if c = d then expect p s else None)"
  by (simp_all add: expect_def)

lemma readName_ok:
  "isIdentifier name \<Longrightarrow> readName (name @ CHR '' '' # rest) = Some (name, CHR '' '' # rest)"
  using run_then [of identifierChar name "CHR '' '' # rest"]
  by (simp add: readName_def isIdentifier_def identifierChar_def)

lemma readKey_ok:
  "list_all keyChar key \<Longrightarrow> readKey (key @ CHR 0x22 # rest) = Some (key, rest)"
  using run_then [of keyChar key "CHR 0x22 # rest"]
  by (simp add: readKey_def keyChar_def)

lemma readType_ok:
  "readType (traitTypeName t @ CHR ''('' # rest) = Some (t, CHR ''('' # rest)"
  by (cases t) (simp_all add: readType_def traitTypeName_def identifierChar_def)

lemma readExpression_default:
  "readExpression (zeroText t @ CHR '';'' # rest) = Some (zeroText t, CHR '';'' # rest)"
  by (cases t)
     (simp_all add: readExpression_def zeroText_def isNumeral_def decimalShape_def isDigit_def)

lemma readEntry_ok:
  assumes "list_all keyChar (keyText nts t)"
    and "traitEntry nts arrayMethods emptyDictionary t = Inr x"
  shows "readEntry (x @ rest) = Some ((keyText nts t, t_type t, zeroText (t_type t)), rest)"
proof -
  from assms(2) have x: \<open>x = ''    "'' @ keyText nts t @ ''": {'' @ [CHR 0x0A] @
          ''      '' @ traitTypeName (t_type t) @ ''() {'' @ [CHR 0x0A] @
          ''        return '' @ zeroText (t_type t) @ '';'' @ [CHR 0x0A] @
          ''      }'' @ [CHR 0x0A] @
          ''    },'' @ [CHR 0x0A]\<close>
    by (simp add: traitEntry_empty)
  show ?thesis
    unfolding x
    by (simp add: readEntry_def expect_simps readKey_ok [OF assms(1)] readType_ok
        readExpression_default)
qed

lemma entry_opening:
  \<open>traitEntry nts arrayMethods emptyDictionary t = Inr x \<Longrightarrow> prefix ''    "'' (x @ rest)\<close>
  by (auto simp add: traitEntry_empty)

lemma readEntries_ok:
  assumes \<open>\<not> prefix ''    "'' rest\<close>
  shows "list_all (\<lambda>t. list_all keyChar (keyText nts t)) ts \<Longrightarrow>
         mapE (traitEntry nts arrayMethods emptyDictionary) ts = Inr xs \<Longrightarrow>
         length ts < n \<Longrightarrow>
         readEntries n (concat xs @ rest) =
           Some (map (\<lambda>t. (keyText nts t, t_type t, zeroText (t_type t))) ts, rest)"
proof (induction ts arbitrary: xs n)
  case Nil
  then obtain m where "n = Suc m" by (cases n) auto
  with Nil assms show ?case by simp
next
  case (Cons t ts)
  from Cons.prems(3) obtain m where n: "n = Suc m" and m: "length ts < m"
    by (cases n) auto
  from Cons.prems(2) obtain x ys where x: "traitEntry nts arrayMethods emptyDictionary t = Inr x"
    and ys: "mapE (traitEntry nts arrayMethods emptyDictionary) ts = Inr ys"
    and xs: "xs = x # ys"
    by (auto split: sum.splits)
  from Cons.prems(1) have k: "list_all keyChar (keyText nts t)"
    and ks: "list_all (\<lambda>t. list_all keyChar (keyText nts t)) ts"
    by simp_all
  have e: "readEntry (x @ concat ys @ rest) =
             Some ((keyText nts t, t_type t, zeroText (t_type t)), concat ys @ rest)"
    by (rule readEntry_ok [OF k x])
  have p: \<open>prefix ''    "'' (x @ concat ys @ rest)\<close>
    by (rule entry_opening [OF x])
  have "readEntries (Suc m) (x @ concat ys @ rest) =
          Some ((keyText nts t, t_type t, zeroText (t_type t)) #
                map (\<lambda>t. (keyText nts t, t_type t, zeroText (t_type t))) ts, rest)"
    by (subst readEntries.simps) (simp only: p e if_True Option.bind.simps
        Cons.IH [OF ks ys m] option.map prod.case)
  then show ?case by (simp add: n xs)
qed

lemma fragmentEnd_opening: \<open>\<not> prefix ''    "'' fragmentEnd\<close>
  by (simp add: fragmentEnd_def)

lemma entries_length:
  "mapE (traitEntry nts arrayMethods emptyDictionary) ts = Inr xs \<Longrightarrow>
   length ts \<le> length (concat xs)"
proof (induction ts arbitrary: xs)
  case Nil
  then show ?case by simp
next
  case (Cons t ts)
  from Cons.prems obtain x ys where x: "traitEntry nts arrayMethods emptyDictionary t = Inr x"
    and ys: "mapE (traitEntry nts arrayMethods emptyDictionary) ts = Inr ys"
    and xs: "xs = x # ys"
    by (auto split: sum.splits)
  from x have "x \<noteq> []" by (auto simp: traitEntry_empty)
  then have "1 \<le> length x" by (cases x) auto
  with Cons.IH [OF ys] show ?case by (simp add: xs)
qed

lemma readFragment_ok:
  assumes name: "isIdentifier name"
    and keys: "list_all (\<lambda>t. list_all keyChar (keyText nts t)) ts"
    and proto: "length (filter (\<lambda>t. keyText nts t = ''__proto__'') ts) \<le> 1"
  shows \<open>readFragment
           (''const '' @ name @ '' = {'' @ [CHR 0x0A] @
            ''  // Metadata source: unknown'' @ [CHR 0x0A] @
            ''  traits: {'' @ [CHR 0x0A] @
            concat (map (\<lambda>t.
               ''    "'' @ keyText nts t @ ''": {'' @ [CHR 0x0A] @
               ''      '' @ traitTypeName (t_type t) @ ''() {'' @ [CHR 0x0A] @
               ''        return '' @ zeroText (t_type t) @ '';'' @ [CHR 0x0A] @
               ''      }'' @ [CHR 0x0A] @
               ''    },'' @ [CHR 0x0A]) ts) @
            fragmentEnd) =
         Some (name, ''unknown'',
               map (\<lambda>t. (keyText nts t, t_type t, zeroText (t_type t))) ts)\<close>
proof -
  define xs where \<open>xs = map (\<lambda>t.
               ''    "'' @ keyText nts t @ ''": {'' @ [CHR 0x0A] @
               ''      '' @ traitTypeName (t_type t) @ ''() {'' @ [CHR 0x0A] @
               ''        return '' @ zeroText (t_type t) @ '';'' @ [CHR 0x0A] @
               ''      }'' @ [CHR 0x0A] @
               ''    },'' @ [CHR 0x0A]) ts\<close>
  define es where "es = map (\<lambda>t. (keyText nts t, t_type t, zeroText (t_type t))) ts"
  have m: "mapE (traitEntry nts [] emptyDictionary) ts = Inr xs"
    unfolding xs_def by (rule mapE_total) (rule traitEntry_empty)
  have "length ts < length (concat xs @ fragmentEnd)"
    using entries_length [OF m] by (simp add: fragmentEnd_def)
  from readEntries_ok [OF fragmentEnd_opening keys m this]
  have r: "readEntries (length (concat xs @ fragmentEnd)) (concat xs @ fragmentEnd) =
             Some (es, fragmentEnd)"
    by (simp add: es_def)
  have f: "filter (\<lambda>(key, _). key = ''__proto__'') es =
           map (\<lambda>t. (keyText nts t, t_type t, zeroText (t_type t)))
             (filter (\<lambda>t. keyText nts t = ''__proto__'') ts)"
    by (simp add: es_def filter_map comp_def)
  have c: "length (filter (\<lambda>(key, _). key = ''__proto__'') es) \<le> 1"
    unfolding f using proto by simp
  have d: "dropWhile lineChar (''unknown'' @ CHR 0x0A # rest) = CHR 0x0A # rest"
    and t: "takeWhile lineChar (''unknown'' @ CHR 0x0A # rest) = ''unknown''" for rest
    by (simp_all add: lineChar_def)
  have "readFragment
           (''const '' @ name @ CHR '' '' # (''= {'' @ [CHR 0x0A] @
            ''  // Metadata source: '' @ ''unknown'' @ CHR 0x0A #
            (''  traits: {'' @ [CHR 0x0A] @ (concat xs @ fragmentEnd)))) =
         Some (name, ''unknown'', es)"
    unfolding readFragment_def
    by (simp only: append_Cons append_Nil expect_simps if_True Option.bind.simps
        readName_ok [OF name] prod.case d [unfolded append_Cons append_Nil]
        t [unfolded append_Cons append_Nil] r c simp_thms)
  then show ?thesis
    by (simp add: xs_def es_def)
qed

lemma callTrait_declared:
  assumes t: "t \<in> set ts"
    and same: "\<forall>u\<in>set ts. key u = key t \<longrightarrow> type u = type t"
  shows "callTrait (map (\<lambda>t. (key t, type t, zero (type t))) ts) (key t) (type t) =
           Some (zero (type t))"
proof -
  define found where "found = filter (\<lambda>u. key u = key t) ts"
  have f: "filter (\<lambda>(k, _). k = key t) (map (\<lambda>t. (key t, type t, zero (type t))) ts) =
           map (\<lambda>t. (key t, type t, zero (type t))) found"
    by (simp add: found_def filter_map comp_def)
  from t have n: "found \<noteq> []"
    by (auto simp: found_def filter_empty_conv)
  then have "last found \<in> set found" by simp
  then have l: "type (last found) = type t"
    using same by (simp add: found_def)
  from n obtain a as where c: "map (\<lambda>t. (key t, type t, zero (type t))) found = a # as"
    by (cases found) auto
  have "last (map (\<lambda>t. (key t, type t, zero (type t))) found) =
          (key (last found), type (last found), zero (type (last found)))"
    using n by (simp add: last_map)
  then show ?thesis
    unfolding callTrait_def f using c l by (simp del: last.simps)
qed

text \<open>
  C5, as the code has it. For every \<open>TraitData\<close> the token id is the first
  element of \<open>tokenIndexes\<close> when there is one and 1 otherwise: the result
  carries it, and the retrieval is asked for no other token. When the address is
  absent, generation succeeds with a result that has \<open>success = false\<close>, the
  error "Collection has no address", no trait values, and the code in which the
  entry of every declared trait returns the default of its type, \<open>''\<close> for
  \<open>asString\<close> and \<open>0\<close> for \<open>asInt\<close> and \<open>asFloat\<close>. This code is a complete
  declaration when the name of the collection is an identifier, no key holds a
  double quote, a backslash or a line break, and at most one key is
  \<open>__proto__\<close>. Then a declared trait returns its default when every trait
  declared with its key has its type.
\<close>

theorem no_address_resolution:
  \<open>(\<forall>r. generateFormaCollectionCode retrieve nts double arrayMethods c = Inr r \<longrightarrow>
        cr_tokenId r = (if d_tokenIndexes c \<noteq> [] then hd (d_tokenIndexes c) else Finite 1)) \<and>
   (\<forall>other.
        other (d_address c) (if d_tokenIndexes c \<noteq> [] then hd (d_tokenIndexes c) else Finite 1) =
        retrieve (d_address c) (if d_tokenIndexes c \<noteq> [] then hd (d_tokenIndexes c) else Finite 1) \<longrightarrow>
        generateFormaCollectionCode other nts double arrayMethods c =
        generateFormaCollectionCode retrieve nts double arrayMethods c) \<and>
   (\<not> truthy (d_address c) \<longrightarrow>
      (\<exists>code.
         generateFormaCollectionCode retrieve nts double arrayMethods c =
           Inr \<lparr>cr_collectionName = d_collection c,
                cr_address = VNull,
                cr_code = code,
                cr_metadataSource = unknown,
                cr_traitValues = emptyDictionary,
                cr_metadata = JNull,
                cr_tokenId = (if d_tokenIndexes c \<noteq> [] then hd (d_tokenIndexes c) else Finite 1),
                cr_success = False,
                cr_error = Some ''Collection has no address''\<rparr> \<and>
         code =
           ''const '' @ show_name (d_collection c) @ '' = {'' @ [CHR 0x0A] @
           ''  // Metadata source: unknown'' @ [CHR 0x0A] @
           ''  traits: {'' @ [CHR 0x0A] @
           concat (map (\<lambda>t.
              ''    "'' @ keyText nts t @ ''": {'' @ [CHR 0x0A] @
              ''      '' @ traitTypeName (t_type t) @ ''() {'' @ [CHR 0x0A] @
              ''        return '' @ zeroText (t_type t) @ '';'' @ [CHR 0x0A] @
              ''      }'' @ [CHR 0x0A] @
              ''    },'' @ [CHR 0x0A]) (d_traits c)) @
           fragmentEnd \<and>
         ((\<exists>name. d_collection c = Some name \<and> isIdentifier name) \<and>
          list_all (\<lambda>t. list_all keyChar (keyText nts t)) (d_traits c) \<and>
          length (filter (\<lambda>t. keyText nts t = ''__proto__'') (d_traits c)) \<le> 1 \<longrightarrow>
            readFragment code =
              Some (show_name (d_collection c), ''unknown'',
                    map (\<lambda>t. (keyText nts t, t_type t, zeroText (t_type t))) (d_traits c)) \<and>
            (\<forall>t\<in>set (d_traits c).
               (\<forall>u\<in>set (d_traits c). keyText nts u = keyText nts t \<longrightarrow> t_type u = t_type t) \<longrightarrow>
               callTrait (map (\<lambda>t. (keyText nts t, t_type t, zeroText (t_type t))) (d_traits c))
                 (keyText nts t) (t_type t) = Some (zeroText (t_type t))))))\<close>
proof (intro conjI allI impI)
  fix r
  assume "generateFormaCollectionCode retrieve nts double arrayMethods c = Inr r"
  then show "cr_tokenId r = (if d_tokenIndexes c \<noteq> [] then hd (d_tokenIndexes c) else Finite 1)"
    by (rule tokenId_result)
next
  fix other
  assume "other (d_address c) (if d_tokenIndexes c \<noteq> [] then hd (d_tokenIndexes c) else Finite 1) =
        retrieve (d_address c) (if d_tokenIndexes c \<noteq> [] then hd (d_tokenIndexes c) else Finite 1)"
  then show "generateFormaCollectionCode other nts double arrayMethods c =
        generateFormaCollectionCode retrieve nts double arrayMethods c"
    by (rule tokenId_retrieved)
next
  assume a: "\<not> truthy (d_address c)"
  define code where \<open>code =
           ''const '' @ show_name (d_collection c) @ '' = {'' @ [CHR 0x0A] @
           ''  // Metadata source: unknown'' @ [CHR 0x0A] @
           ''  traits: {'' @ [CHR 0x0A] @
           concat (map (\<lambda>t.
              ''    "'' @ keyText nts t @ ''": {'' @ [CHR 0x0A] @
              ''      '' @ traitTypeName (t_type t) @ ''() {'' @ [CHR 0x0A] @
              ''        return '' @ zeroText (t_type t) @ '';'' @ [CHR 0x0A] @
              ''      }'' @ [CHR 0x0A] @
              ''    },'' @ [CHR 0x0A]) (d_traits c)) @
           fragmentEnd\<close>
  have 1: "generateFormaCollectionCode retrieve nts double arrayMethods c =
           Inr \<lparr>cr_collectionName = d_collection c,
                cr_address = VNull,
                cr_code = code,
                cr_metadataSource = unknown,
                cr_traitValues = emptyDictionary,
                cr_metadata = JNull,
                cr_tokenId = (if d_tokenIndexes c \<noteq> [] then hd (d_tokenIndexes c) else Finite 1),
                cr_success = False,
                cr_error = Some ''Collection has no address''\<rparr>"
    unfolding code_def by (rule no_address_result [OF a])
  have 2: "readFragment code =
              Some (show_name (d_collection c), ''unknown'',
                    map (\<lambda>t. (keyText nts t, t_type t, zeroText (t_type t))) (d_traits c))"
    if "\<exists>name. d_collection c = Some name \<and> isIdentifier name"
      and "list_all (\<lambda>t. list_all keyChar (keyText nts t)) (d_traits c)"
      and "length (filter (\<lambda>t. keyText nts t = ''__proto__'') (d_traits c)) \<le> 1"
  proof -
    from that(1) obtain name where n: "d_collection c = Some name" and i: "isIdentifier name"
      by blast
    show ?thesis
      unfolding code_def n show_name.simps
      by (rule readFragment_ok [OF i that(2) that(3)])
  qed
  have 3: "callTrait (map (\<lambda>t. (keyText nts t, t_type t, zeroText (t_type t))) (d_traits c))
                 (keyText nts t) (t_type t) = Some (zeroText (t_type t))"
    if "t \<in> set (d_traits c)"
      and "\<forall>u\<in>set (d_traits c). keyText nts u = keyText nts t \<longrightarrow> t_type u = t_type t" for t
    using callTrait_declared [of t "d_traits c" "keyText nts" t_type zeroText] that by blast
  from 1 2 3 code_def
  show \<open>\<exists>code.
         generateFormaCollectionCode retrieve nts double arrayMethods c =
           Inr \<lparr>cr_collectionName = d_collection c,
                cr_address = VNull,
                cr_code = code,
                cr_metadataSource = unknown,
                cr_traitValues = emptyDictionary,
                cr_metadata = JNull,
                cr_tokenId = (if d_tokenIndexes c \<noteq> [] then hd (d_tokenIndexes c) else Finite 1),
                cr_success = False,
                cr_error = Some ''Collection has no address''\<rparr> \<and>
         code =
           ''const '' @ show_name (d_collection c) @ '' = {'' @ [CHR 0x0A] @
           ''  // Metadata source: unknown'' @ [CHR 0x0A] @
           ''  traits: {'' @ [CHR 0x0A] @
           concat (map (\<lambda>t.
              ''    "'' @ keyText nts t @ ''": {'' @ [CHR 0x0A] @
              ''      '' @ traitTypeName (t_type t) @ ''() {'' @ [CHR 0x0A] @
              ''        return '' @ zeroText (t_type t) @ '';'' @ [CHR 0x0A] @
              ''      }'' @ [CHR 0x0A] @
              ''    },'' @ [CHR 0x0A]) (d_traits c)) @
           fragmentEnd \<and>
         ((\<exists>name. d_collection c = Some name \<and> isIdentifier name) \<and>
          list_all (\<lambda>t. list_all keyChar (keyText nts t)) (d_traits c) \<and>
          length (filter (\<lambda>t. keyText nts t = ''__proto__'') (d_traits c)) \<le> 1 \<longrightarrow>
            readFragment code =
              Some (show_name (d_collection c), ''unknown'',
                    map (\<lambda>t. (keyText nts t, t_type t, zeroText (t_type t))) (d_traits c)) \<and>
            (\<forall>t\<in>set (d_traits c).
               (\<forall>u\<in>set (d_traits c). keyText nts u = keyText nts t \<longrightarrow> t_type u = t_type t) \<longrightarrow>
               callTrait (map (\<lambda>t. (keyText nts t, t_type t, zeroText (t_type t))) (d_traits c))
                 (keyText nts t) (t_type t) = Some (zeroText (t_type t))))\<close>
    by (intro exI [of _ code] conjI impI ballI) blast+
qed

text \<open>
  C5 on the data of sketch A: with an address and a network out of reach, where
  the token id is the first of the two used; and without an address, where the
  code is a complete declaration and both traits return their defaults.
\<close>

theorem no_address_resolution_witness:
  \<open>generateFormaCollectionCode sample_retrieve sample_nts sample_double sample_arrayMethods
     addressed_data =
     Inr \<lparr>cr_collectionName = Some ''A'', cr_address = VStr ''0xAA'',
          cr_code =
            ''const A = {'' @ [CHR 0x0A] @
            ''  // Metadata source: unknown'' @ [CHR 0x0A] @
            ''  traits: {'' @ [CHR 0x0A] @
            ''    "Color": {'' @ [CHR 0x0A] @
            ''      asString() {'' @ [CHR 0x0A] @
            ''        return '' @ [CHR 0x27, CHR 0x27] @ '';'' @ [CHR 0x0A] @
            ''      }'' @ [CHR 0x0A] @
            ''    },'' @ [CHR 0x0A] @
            fragmentEnd,
          cr_metadataSource = unknown, cr_traitValues = emptyDictionary, cr_metadata = JNull,
          cr_tokenId = Finite 7, cr_success = False,
          cr_error = Some ''Error generating collection code: network unreachable''\<rparr> \<and>
   \<not> truthy (d_address unaddressed_data) \<and>
   generateFormaCollectionCode sample_retrieve sample_nts sample_double sample_arrayMethods
     unaddressed_data =
     Inr \<lparr>cr_collectionName = Some ''A'', cr_address = VNull, cr_code = unaddressed_code,
          cr_metadataSource = unknown, cr_traitValues = emptyDictionary, cr_metadata = JNull,
          cr_tokenId = Finite 3, cr_success = False,
          cr_error = Some ''Collection has no address''\<rparr> \<and>
   isIdentifier ''A'' \<and>
   readFragment unaddressed_code =
     Some (''A'', ''unknown'',
           [(''Color'', asString, [CHR 0x27, CHR 0x27]), (''Size'', asInt, ''0'')]) \<and>
   callTrait [(''Color'', asString, [CHR 0x27, CHR 0x27]), (''Size'', asInt, ''0'')]
     ''Color'' asString = Some [CHR 0x27, CHR 0x27] \<and>
   callTrait [(''Color'', asString, [CHR 0x27, CHR 0x27]), (''Size'', asInt, ''0'')]
     ''Size'' asInt = Some ''0''\<close>
proof -
  note main = no_address_resolution [of sample_retrieve sample_nts sample_double
      sample_arrayMethods]
  have e: \<open>generateFormaCollectionCode sample_retrieve sample_nts sample_double
      sample_arrayMethods addressed_data =
     Inr \<lparr>cr_collectionName = Some ''A'', cr_address = VStr ''0xAA'',
          cr_code =
            ''const A = {'' @ [CHR 0x0A] @
            ''  // Metadata source: unknown'' @ [CHR 0x0A] @
            ''  traits: {'' @ [CHR 0x0A] @
            ''    "Color": {'' @ [CHR 0x0A] @
            ''      asString() {'' @ [CHR 0x0A] @
            ''        return '' @ [CHR 0x27, CHR 0x27] @ '';'' @ [CHR 0x0A] @
            ''      }'' @ [CHR 0x0A] @
            ''    },'' @ [CHR 0x0A] @
            fragmentEnd,
          cr_metadataSource = unknown, cr_traitValues = emptyDictionary, cr_metadata = JNull,
          cr_tokenId = Finite 7, cr_success = False,
          cr_error = Some ''Error generating collection code: network unreachable''\<rparr>\<close>
    by (simp add: generateFormaCollectionCode_def resolveTraits_def addressed_data_def
        sample_retrieve_def generateCode_def bindE_def traitEntry_empty keyText_def orElse_def
        zeroText_def traitTypeName_def sourceTypeName_def fragmentEnd_def)
  from main [of addressed_data] e
  have \<open>cr_tokenId \<lparr>cr_collectionName = Some ''A'', cr_address = VStr ''0xAA'',
          cr_code =
            ''const A = {'' @ [CHR 0x0A] @
            ''  // Metadata source: unknown'' @ [CHR 0x0A] @
            ''  traits: {'' @ [CHR 0x0A] @
            ''    "Color": {'' @ [CHR 0x0A] @
            ''      asString() {'' @ [CHR 0x0A] @
            ''        return '' @ [CHR 0x27, CHR 0x27] @ '';'' @ [CHR 0x0A] @
            ''      }'' @ [CHR 0x0A] @
            ''    },'' @ [CHR 0x0A] @
            fragmentEnd,
          cr_metadataSource = unknown, cr_traitValues = emptyDictionary, cr_metadata = JNull,
          cr_tokenId = Finite 7, cr_success = False,
          cr_error = Some ''Error generating collection code: network unreachable''\<rparr> =
        (if d_tokenIndexes addressed_data \<noteq> [] then hd (d_tokenIndexes addressed_data)
         else Finite 1)\<close>
    by blast
  have a: "\<not> truthy (d_address unaddressed_data)"
    by (simp add: unaddressed_data_def)
  have i: "isIdentifier ''A''"
    by (simp add: isIdentifier_def identifierChar_def isDigit_def reservedWords_def)
  have k: "list_all (\<lambda>t. list_all keyChar (keyText sample_nts t)) (d_traits unaddressed_data)"
    by (simp add: unaddressed_data_def keyText_def orElse_def keyChar_def)
  have p: "length (filter (\<lambda>t. keyText sample_nts t = ''__proto__'')
             (d_traits unaddressed_data)) \<le> 1"
    by (simp add: unaddressed_data_def keyText_def orElse_def)
  have n: "\<exists>name. d_collection unaddressed_data = Some name \<and> isIdentifier name"
    using i by (simp add: unaddressed_data_def)
  have es: "map (\<lambda>t. (keyText sample_nts t, t_type t, zeroText (t_type t)))
              (d_traits unaddressed_data) =
            [(''Color'', asString, [CHR 0x27, CHR 0x27]), (''Size'', asInt, ''0'')]"
    by (simp add: unaddressed_data_def keyText_def orElse_def zeroText_def)
  from main [of unaddressed_data] a n k p obtain code where
    g: "generateFormaCollectionCode sample_retrieve sample_nts sample_double sample_arrayMethods
          unaddressed_data =
        Inr \<lparr>cr_collectionName = d_collection unaddressed_data, cr_address = VNull,
             cr_code = code, cr_metadataSource = unknown, cr_traitValues = emptyDictionary,
             cr_metadata = JNull,
             cr_tokenId = (if d_tokenIndexes unaddressed_data \<noteq> []
                           then hd (d_tokenIndexes unaddressed_data) else Finite 1),
             cr_success = False, cr_error = Some ''Collection has no address''\<rparr>"
    and c: \<open>code =
           ''const '' @ show_name (d_collection unaddressed_data) @ '' = {'' @ [CHR 0x0A] @
           ''  // Metadata source: unknown'' @ [CHR 0x0A] @
           ''  traits: {'' @ [CHR 0x0A] @
           concat (map (\<lambda>t.
              ''    "'' @ keyText sample_nts t @ ''": {'' @ [CHR 0x0A] @
              ''      '' @ traitTypeName (t_type t) @ ''() {'' @ [CHR 0x0A] @
              ''        return '' @ zeroText (t_type t) @ '';'' @ [CHR 0x0A] @
              ''      }'' @ [CHR 0x0A] @
              ''    },'' @ [CHR 0x0A]) (d_traits unaddressed_data)) @
           fragmentEnd\<close>
    and r: "readFragment code =
              Some (show_name (d_collection unaddressed_data), ''unknown'',
                    map (\<lambda>t. (keyText sample_nts t, t_type t, zeroText (t_type t)))
                      (d_traits unaddressed_data))"
    and t: "\<forall>t\<in>set (d_traits unaddressed_data).
               (\<forall>u\<in>set (d_traits unaddressed_data).
                  keyText sample_nts u = keyText sample_nts t \<longrightarrow> t_type u = t_type t) \<longrightarrow>
               callTrait (map (\<lambda>t. (keyText sample_nts t, t_type t, zeroText (t_type t)))
                            (d_traits unaddressed_data))
                 (keyText sample_nts t) (t_type t) = Some (zeroText (t_type t))"
    by blast
  have c': "code = unaddressed_code"
    unfolding c
    by (simp add: unaddressed_data_def unaddressed_code_def keyText_def orElse_def zeroText_def
        traitTypeName_def)
  have g': "generateFormaCollectionCode sample_retrieve sample_nts sample_double
      sample_arrayMethods unaddressed_data =
     Inr \<lparr>cr_collectionName = Some ''A'', cr_address = VNull, cr_code = unaddressed_code,
          cr_metadataSource = unknown, cr_traitValues = emptyDictionary, cr_metadata = JNull,
          cr_tokenId = Finite 3, cr_success = False,
          cr_error = Some ''Collection has no address''\<rparr>"
    unfolding g c' by (simp add: unaddressed_data_def)
  have r': "readFragment unaddressed_code =
     Some (''A'', ''unknown'',
           [(''Color'', asString, [CHR 0x27, CHR 0x27]), (''Size'', asInt, ''0'')])"
    using r unfolding c' es by (simp add: unaddressed_data_def)
  have t1: "callTrait [(''Color'', asString, [CHR 0x27, CHR 0x27]), (''Size'', asInt, ''0'')]
     ''Color'' asString = Some [CHR 0x27, CHR 0x27]"
    using t unfolding es
    by (simp add: unaddressed_data_def keyText_def orElse_def zeroText_def)
  have t2: "callTrait [(''Color'', asString, [CHR 0x27, CHR 0x27]), (''Size'', asInt, ''0'')]
     ''Size'' asInt = Some ''0''"
    using t unfolding es
    by (simp add: unaddressed_data_def keyText_def orElse_def zeroText_def)
  from e a g' i r' t1 t2 show ?thesis by blast
qed

text \<open>
  C5 as stated fails: the code is not always a complete fragment in which every
  declared trait returns its default. For the key \<open>a"b\<close> the code holds the
  text \<open>"a"b": {\<close>, where the string literal of the key ends after \<open>a\<close>: it is
  no declaration. For two traits that share the key \<open>k\<close>, one \<open>asInt\<close> and one
  \<open>asString\<close>, the code is a declaration, but its second entry for \<open>k\<close>
  replaces the first, and the call of \<open>asInt\<close> finds no such method.
\<close>

theorem default_fragment_counterexample:
  "\<not> truthy (d_address quoted_key_data) \<and>
   generateFormaCollectionCode sample_retrieve sample_nts sample_double sample_arrayMethods
     quoted_key_data =
     Inr \<lparr>cr_collectionName = Some ''A'', cr_address = VNull, cr_code = quoted_key_code,
          cr_metadataSource = unknown, cr_traitValues = emptyDictionary, cr_metadata = JNull,
          cr_tokenId = Finite 1, cr_success = False,
          cr_error = Some ''Collection has no address''\<rparr> \<and>
   readFragment quoted_key_code = None \<and>
   \<not> truthy (d_address shared_key_data) \<and>
   generateFormaCollectionCode sample_retrieve sample_nts sample_double sample_arrayMethods
     shared_key_data =
     Inr \<lparr>cr_collectionName = Some ''A'', cr_address = VNull, cr_code = shared_key_code,
          cr_metadataSource = unknown, cr_traitValues = emptyDictionary, cr_metadata = JNull,
          cr_tokenId = Finite 1, cr_success = False,
          cr_error = Some ''Collection has no address''\<rparr> \<and>
   readFragment shared_key_code =
     Some (''A'', ''unknown'', [(''k'', asInt, ''0''), (''k'', asString, [CHR 0x27, CHR 0x27])]) \<and>
   callTrait [(''k'', asInt, ''0''), (''k'', asString, [CHR 0x27, CHR 0x27])] ''k'' asInt = None"
proof -
  have 1: "\<not> truthy (d_address quoted_key_data)"
    by (simp add: quoted_key_data_def)
  have 2: "generateFormaCollectionCode sample_retrieve sample_nts sample_double
      sample_arrayMethods quoted_key_data =
     Inr \<lparr>cr_collectionName = Some ''A'', cr_address = VNull, cr_code = quoted_key_code,
          cr_metadataSource = unknown, cr_traitValues = emptyDictionary, cr_metadata = JNull,
          cr_tokenId = Finite 1, cr_success = False,
          cr_error = Some ''Collection has no address''\<rparr>"
    unfolding no_address_result [OF 1]
    by (simp add: quoted_key_data_def quoted_key_code_def keyText_def orElse_def zeroText_def
        traitTypeName_def)
  have 3: "readFragment quoted_key_code = None"
    by code_simp
  have 4: "\<not> truthy (d_address shared_key_data)"
    by (simp add: shared_key_data_def)
  have 5: "generateFormaCollectionCode sample_retrieve sample_nts sample_double
      sample_arrayMethods shared_key_data =
     Inr \<lparr>cr_collectionName = Some ''A'', cr_address = VNull, cr_code = shared_key_code,
          cr_metadataSource = unknown, cr_traitValues = emptyDictionary, cr_metadata = JNull,
          cr_tokenId = Finite 1, cr_success = False,
          cr_error = Some ''Collection has no address''\<rparr>"
    unfolding no_address_result [OF 4]
    by (simp add: shared_key_data_def shared_key_code_def keyText_def orElse_def zeroText_def
        traitTypeName_def)
  have 6: "readFragment shared_key_code =
     Some (''A'', ''unknown'', [(''k'', asInt, ''0''), (''k'', asString, [CHR 0x27, CHR 0x27])])"
    by code_simp
  have 7: "callTrait [(''k'', asInt, ''0''), (''k'', asString, [CHR 0x27, CHR 0x27])] ''k'' asInt =
      None"
    by (simp add: callTrait_def)
  from 1 2 3 4 5 6 7 show ?thesis by blast
qed

end
